theory Spec2Isabelle
  imports Complex_Main
begin

section \<open>Arrays\<close>

text \<open>
  The program computes on \<open>jnp\<close> arrays of floats. An array is modelled as nested lists of
  reals, outermost axis first: \<open>arr1\<close> is one axis, \<open>arr2\<close> is \<open>[batch, n]\<close> and \<open>arr3\<close> is
  \<open>[batch, n, channels]\<close>. Arithmetic is that of the reals; rounding, infinities and NaN are
  outside the model, except in the probe of the factory, which has a type of floats of its
  own. Arrays are taken to be rectangular, as \<open>jnp\<close> arrays are.
\<close>

type_synonym arr1 = "real list"
type_synonym arr2 = "real list list"
type_synonym arr3 = "real list list list"

text \<open>\<open>x.shape[-1]\<close> of a \<open>[batch, width]\<close> array, read off its first row.\<close>

definition shape_last :: "arr2 \<Rightarrow> nat" where
  "shape_last x = (case x of [] \<Rightarrow> 0 | r # _ \<Rightarrow> length r)"

text \<open>Python slices of the last axis: \<open>x[..., -k:]\<close>, \<open>x[..., :-k]\<close>, \<open>x[..., i:j]\<close>.\<close>

definition slice_last :: "nat \<Rightarrow> 'a list \<Rightarrow> 'a list" where
  "slice_last k r = drop (length r - k) r"

definition slice_drop_last :: "nat \<Rightarrow> 'a list \<Rightarrow> 'a list" where
  "slice_drop_last k r = take (length r - k) r"

definition slice :: "nat \<Rightarrow> nat \<Rightarrow> 'a list \<Rightarrow> 'a list" where
  "slice i j r = take (j - i) (drop i r)"

text \<open>\<open>x[..., 1:-1]\<close>: the row without its first and its last entry.\<close>

definition slice_interior :: "'a list \<Rightarrow> 'a list" where
  "slice_interior r = slice_drop_last 1 (drop 1 r)"

text \<open>\<open>jnp.linalg.norm(v, axis=-1, keepdims=True)\<close> and the division \<open>v / norms\<close>, row by row.\<close>

definition norm_last :: "arr1 \<Rightarrow> real" where
  "norm_last v = sqrt (sum_list (map (\<lambda>x. x * x) v))"

definition normalize_rows :: "arr2 \<Rightarrow> arr2" where
  "normalize_rows v = map (\<lambda>r. map (\<lambda>x. x / norm_last r) r) v"

text \<open>An activation is applied to every entry of a \<open>[batch, n, channels]\<close> array.\<close>

definition act3 :: "(real \<Rightarrow> real) \<Rightarrow> arr3 \<Rightarrow> arr3" where
  "act3 f x = map (map (map f)) x"

section \<open>The model: \<open>nerf/models.py\<close>\<close>

subsection \<open>Hyperparameters and the helper module\<close>

text \<open>
  The hyperparameters that \<open>nerf\<close> copies from the flags into \<open>NerfModel.partial\<close>, in the
  order of the source. The three activations are added below: they are names in the flags
  and functions in the keyword binding of \<open>NerfModel.partial\<close>, where \<open>'f\<close> is what an
  activation is taken to be. In \<open>NerfModel.apply\<close>, whose arrays are over the reals, it is
  a function of the reals applied to every entry (\<open>nerf_args\<close>); in \<open>nerf\<close>, whose probe
  is computed in \<open>float32\<close>, it is an attribute of \<open>flax.nn\<close> called on an array.
\<close>

record hparams =
  deg_point :: int
  deg_view :: int
  num_coarse_samples :: int
  num_fine_samples :: int
  use_viewdirs :: bool
  near :: real
  far :: real
  noise_std :: real
  randomized :: bool
  white_bkgd :: bool
  net_depth :: int
  net_width :: int
  net_depth_condition :: int
  net_width_condition :: int
  skip_layer :: int
  num_rgb_channels :: int
  num_sigma_channels :: int
  lindisp :: bool

record 'f nerf_kwargs = hparams +
  net_activation :: 'f
  rgb_activation :: 'f
  sigma_activation :: 'f

type_synonym nerf_args = "(real \<Rightarrow> real) nerf_kwargs"

text \<open>
  The keyword arguments of one call of \<open>model_utils.MLP\<close>. A keyword that the call site
  leaves out is \<open>None\<close>; the callee then binds its own default.
\<close>

record mlp_kwargs =
  kw_net_depth :: "int option"
  kw_net_width :: "int option"
  kw_net_depth_condition :: "int option"
  kw_net_width_condition :: "int option"
  kw_net_activation :: "(real \<Rightarrow> real) option"
  kw_skip_layer :: "int option"
  kw_num_rgb_channels :: "int option"
  kw_num_sigma_channels :: "int option"

text \<open>
  \<open>NerfModel.apply\<close> calls \<open>jax.random.split\<close> and six functions of \<open>model_utils\<close>, a module
  of the repository whose source is not part of the development. They are parameters of the
  model, collected in one record; \<open>'k\<close> is the type of random keys. \<open>volumetric_rendering\<close>
  returns \<open>(comp_rgb, disp, acc, weights)\<close>; the two samplers return \<open>(z_vals, samples)\<close>;
  \<open>MLP\<close> takes the encoded samples, the encoded view directions when the call passes
  them, and the keywords, and returns \<open>(raw_rgb, raw_sigma)\<close>; \<open>posenc\<close> encodes one vector
  of the last axis, and is applied to every sample point and every view direction.
\<close>

record 'k model_utils =
  random_split :: "'k \<Rightarrow> 'k \<times> 'k"
  sample_along_rays :: "'k \<Rightarrow> arr2 \<Rightarrow> int \<Rightarrow> real \<Rightarrow> real \<Rightarrow> bool \<Rightarrow> bool \<Rightarrow> arr2 \<times> arr3"
  posenc :: "arr1 \<Rightarrow> int \<Rightarrow> arr1"
  MLP :: "arr3 \<Rightarrow> arr2 option \<Rightarrow> mlp_kwargs \<Rightarrow> arr3 \<times> arr3"
  add_gaussian_noise :: "'k \<Rightarrow> arr3 \<Rightarrow> real \<Rightarrow> bool \<Rightarrow> arr3"
  volumetric_rendering :: "arr3 \<Rightarrow> arr3 \<Rightarrow> arr2 \<Rightarrow> arr2 \<Rightarrow> bool \<Rightarrow> arr2 \<times> arr1 \<times> arr1 \<times> arr2"
  sample_pdf :: "'k \<Rightarrow> arr2 \<Rightarrow> arr2 \<Rightarrow> arr2 \<Rightarrow> arr2 \<Rightarrow> int \<Rightarrow> bool \<Rightarrow> arr2 \<times> arr3"

text \<open>One entry of the returned list: \<open>(comp_rgb, disp, acc)\<close>.\<close>

type_synonym render_result = "arr2 \<times> arr1 \<times> arr1"

subsection \<open>\<open>NerfModel.apply\<close>\<close>

text \<open>Lines 75 to 79: the view directions and the rays that are left.\<close>

definition extract_viewdirs :: "arr2 \<Rightarrow> arr2 \<times> arr2" where
  "extract_viewdirs rays =
     (if shape_last rays > 6
      then (map (slice_last 3) rays, map (slice_drop_last 3) rays)
      else (map (slice 3 6) rays, rays))"

text \<open>Lines 94 to 101: the coarse call passes all eight keywords.\<close>

definition coarse_mlp_kwargs :: "nerf_args \<Rightarrow> mlp_kwargs" where
  "coarse_mlp_kwargs a =
     \<lparr>kw_net_depth = Some (net_depth a),
      kw_net_width = Some (net_width a),
      kw_net_depth_condition = Some (net_depth_condition a),
      kw_net_width_condition = Some (net_width_condition a),
      kw_net_activation = Some (net_activation a),
      kw_skip_layer = Some (skip_layer a),
      kw_num_rgb_channels = Some (num_rgb_channels a),
      kw_num_sigma_channels = Some (num_sigma_channels a)\<rparr>"

text \<open>Lines 147 and 149: the fine call passes no keyword.\<close>

definition fine_mlp_kwargs :: "nerf_args \<Rightarrow> mlp_kwargs" where
  "fine_mlp_kwargs a =
     \<lparr>kw_net_depth = None,
      kw_net_width = None,
      kw_net_depth_condition = None,
      kw_net_width_condition = None,
      kw_net_activation = None,
      kw_skip_layer = None,
      kw_num_rgb_channels = None,
      kw_num_sigma_channels = None\<rparr>"

text \<open>Line 134: \<open>.5 * (z_vals[..., 1:] + z_vals[..., :-1])\<close>.\<close>

definition z_vals_mid :: "arr2 \<Rightarrow> arr2" where
  "z_vals_mid z_vals =
     map (\<lambda>z. map2 (\<lambda>hi lo. 0.5 * (hi + lo)) (drop 1 z) (slice_drop_last 1 z)) z_vals"

text \<open>
  The body of \<open>NerfModel.apply\<close>, statement by statement, in two parts: the coarse pass
  (lines 75 to 131) and the fine pass (lines 134 to 161), which \<open>NerfModel_apply\<close> joins as
  the source does (the bare name \<open>apply\<close> is a keyword of Isabelle). The coarse pass hands
  on what the fine pass reads: the rays without view directions, the encoded view
  directions, the depths and the weights.

  The variable \<open>viewdirs\<close> of the source holds the raw directions until line 88 and their
  encoding afterwards, and is read again only where \<open>use_viewdirs\<close> holds; the model names
  the encoding \<open>viewdirs_enc\<close>. The division by the norm is that of the reals; a direction of
  norm zero is outside the model.
\<close>

definition coarse_pass ::
  "'k model_utils \<Rightarrow> 'k \<Rightarrow> arr2 \<Rightarrow> nerf_args \<Rightarrow> arr2 \<times> arr2 \<times> arr2 \<times> arr2 \<times> render_result" where
  "coarse_pass mu rng_0 rays_in a =
     (let (viewdirs, rays) = extract_viewdirs rays_in;
          (key, rng_0) = random_split mu rng_0;
          (z_vals, samples) =
             sample_along_rays mu key rays (num_coarse_samples a) (near a) (far a)
               (randomized a) (lindisp a);
          samples = map (map (\<lambda>p. posenc mu p (deg_point a))) samples;
          viewdirs_enc = map (\<lambda>v. posenc mu v (deg_view a)) (normalize_rows viewdirs);
          (raw_rgb, raw_sigma) =
             (if use_viewdirs a
              then MLP mu samples (Some viewdirs_enc) (coarse_mlp_kwargs a)
              else MLP mu samples None (coarse_mlp_kwargs a));
          (key, rng_0) = random_split mu rng_0;
          raw_sigma = add_gaussian_noise mu key raw_sigma (noise_std a) (randomized a);
          rgb = act3 (rgb_activation a) raw_rgb;
          sigma = act3 (sigma_activation a) raw_sigma;
          (comp_rgb, disp, acc, weights) =
             volumetric_rendering mu rgb sigma z_vals (map (slice 3 6) rays) (white_bkgd a)
      in (rays, viewdirs_enc, z_vals, weights, (comp_rgb, disp, acc)))"

definition fine_pass ::
  "'k model_utils \<Rightarrow> 'k \<Rightarrow> arr2 \<Rightarrow> arr2 \<Rightarrow> arr2 \<Rightarrow> arr2 \<Rightarrow> nerf_args \<Rightarrow> render_result" where
  "fine_pass mu rng_1 rays viewdirs_enc z_vals weights a =
     (let z_mid = z_vals_mid z_vals;
          (key, rng_1) = random_split mu rng_1;
          (z_vals, samples) =
             sample_pdf mu key z_mid (map slice_interior weights) rays z_vals
               (num_fine_samples a) (randomized a);
          samples = map (map (\<lambda>p. posenc mu p (deg_point a))) samples;
          (raw_rgb, raw_sigma) =
             (if use_viewdirs a
              then MLP mu samples (Some viewdirs_enc) (fine_mlp_kwargs a)
              else MLP mu samples None (fine_mlp_kwargs a));
          (key, rng_1) = random_split mu rng_1;
          raw_sigma = add_gaussian_noise mu key raw_sigma (noise_std a) (randomized a);
          rgb = act3 (rgb_activation a) raw_rgb;
          sigma = act3 (sigma_activation a) raw_sigma;
          (comp_rgb, disp, acc, unused_weights) =
             volumetric_rendering mu rgb sigma z_vals (map (slice 3 6) rays) (white_bkgd a)
      in (comp_rgb, disp, acc))"

definition NerfModel_apply ::
  "'k model_utils \<Rightarrow> 'k \<Rightarrow> 'k \<Rightarrow> arr2 \<Rightarrow> nerf_args \<Rightarrow> render_result list" where
  "NerfModel_apply mu rng_0 rng_1 rays_in a =
     (let (rays, viewdirs_enc, z_vals, weights, coarse) = coarse_pass mu rng_0 rays_in a;
          ret = [coarse]
      in if num_fine_samples a > 0
         then ret @ [fine_pass mu rng_1 rays viewdirs_enc z_vals weights a]
         else ret)"

text \<open>
  Names for what the coarse pass hands on: its depths and its weights, and for the encoded
  view directions of lines 88 to 90.
\<close>

definition coarse_z_vals :: "'k model_utils \<Rightarrow> 'k \<Rightarrow> arr2 \<Rightarrow> nerf_args \<Rightarrow> arr2" where
  "coarse_z_vals mu rng_0 rays_in a = fst (snd (snd (coarse_pass mu rng_0 rays_in a)))"

definition coarse_weights :: "'k model_utils \<Rightarrow> 'k \<Rightarrow> arr2 \<Rightarrow> nerf_args \<Rightarrow> arr2" where
  "coarse_weights mu rng_0 rays_in a = fst (snd (snd (snd (coarse_pass mu rng_0 rays_in a))))"

definition encoded_viewdirs :: "'k model_utils \<Rightarrow> arr2 \<Rightarrow> nerf_args \<Rightarrow> arr2" where
  "encoded_viewdirs mu rays_in a =
     map (\<lambda>v. posenc mu v (deg_view a)) (normalize_rows (fst (extract_viewdirs rays_in)))"

subsection \<open>The factory \<open>nerf\<close>\<close>

datatype error =
  AttributeError string
  | NotImplementedError string
  | ValueError

text \<open>
  The flags that \<open>nerf\<close> reads: the hyperparameters, the names of the three activations,
  the batch size and the name of the dataset.
\<close>

record flags = hparams +
  net_activation_name :: string
  rgb_activation_name :: string
  sigma_activation_name :: string
  batch_size :: int
  dataset :: string

text \<open>
  The probe of lines 202 and 203 is computed in \<open>float32\<close>, the default of \<open>jnp\<close>, where
  what the reals do not show decides the test: \<open>jnp.exp\<close> overflows to infinity above the
  largest float and is flushed to zero below the smallest normal float, and a comparison
  with NaN is false. A \<open>float32\<close> is therefore a real, an infinity or NaN here. The rounding
  of the mantissa is not modelled: a float that is neither zero nor infinite is the real
  that it approximates.
\<close>

datatype float32 = Finite real | PosInf | NegInf | NaN

definition float32_max :: real where
  "float32_max = (2 - 1 / 2 ^ 23) * 2 ^ 127"

definition float32_min_normal :: real where
  "float32_min_normal = 1 / 2 ^ 126"

text \<open>\<open>jnp.exp\<close> on a finite \<open>float32\<close>, the negation \<open>-x\<close>, and the comparisons \<open>x < c\<close> and \<open>x > c\<close>.\<close>

definition exp32 :: "real \<Rightarrow> float32" where
  "exp32 x =
     (if float32_max < exp x then PosInf
      else if exp x < float32_min_normal then Finite 0
      else Finite (exp x))"

fun neg32 :: "float32 \<Rightarrow> float32" where
  "neg32 (Finite x) = Finite (- x)"
| "neg32 PosInf = NegInf"
| "neg32 NegInf = PosInf"
| "neg32 NaN = NaN"

fun less32 :: "float32 \<Rightarrow> real \<Rightarrow> bool" where
  "less32 (Finite x) c = (x < c)"
| "less32 NegInf c = True"
| "less32 PosInf c = False"
| "less32 NaN c = False"

fun greater32 :: "float32 \<Rightarrow> real \<Rightarrow> bool" where
  "greater32 (Finite x) c = (x > c)"
| "greater32 PosInf c = True"
| "greater32 NegInf c = False"
| "greater32 NaN c = False"

text \<open>\<open>jnp.linspace(a, b, n)\<close> and the probe of lines 202 and 203.\<close>

definition linspace :: "real \<Rightarrow> real \<Rightarrow> nat \<Rightarrow> arr1" where
  "linspace a b n = map (\<lambda>i. a + (b - a) * real i / real (n - 1)) [0..<n]"

definition probe_inputs :: "float32 list" where
  "probe_inputs = (let x = map exp32 (linspace (- 90) 90 1024) in map neg32 (rev x) @ x)"

text \<open>Line 206 and line 212: the two tests that raise, on what the activations return.\<close>

definition rgb_out_of_range :: "float32 list \<Rightarrow> bool" where
  "rgb_out_of_range rgb = (list_ex (\<lambda>v. less32 v 0) rgb \<or> list_ex (\<lambda>v. greater32 v 1) rgb)"

definition sigma_negative :: "float32 list \<Rightarrow> bool" where
  "sigma_negative sigma = list_ex (\<lambda>v. less32 v 0) sigma"

text \<open>
  An attribute of \<open>flax.nn\<close> is what \<open>getattr\<close> returns, modelled by what calling it on a
  one-axis \<open>float32\<close> array does: it returns an array or it raises. An activation such as
  \<open>relu\<close> returns; a class such as \<open>Dense\<close>, called with the array alone, raises. The
  namespace \<open>flax.nn\<close> is a parameter: a partial map from names to attributes, and \<open>getattr\<close>
  on a name outside it raises \<open>AttributeError\<close>.
\<close>

type_synonym attribute = "float32 list \<Rightarrow> error + float32 list"

text \<open>Line 217 and lines 218 to 239: \<open>ray_shape\<close> and the keyword binding \<open>model_fn\<close>.\<close>

definition ray_shape :: "flags \<Rightarrow> int \<times> int" where
  "ray_shape args = (batch_size args, if dataset args \<noteq> ''llff'' then 6 else 9)"

definition model_fn :: "flags \<Rightarrow> 'f \<Rightarrow> 'f \<Rightarrow> 'f \<Rightarrow> 'f nerf_kwargs" where
  "model_fn args net_act rgb_act sigma_act =
     hparams.extend (hparams.truncate args) (nerf_kwargs.fields net_act rgb_act sigma_act)"

text \<open>
  \<open>nerf\<close> itself. The call \<open>model_fn.init_by_shape\<close> of lines 240 to 248 belongs to flax
  and is a parameter: from the keyword binding, the key and the shape of the rays it
  returns the initial parameters and the state that \<open>nn.stateful\<close> collects, or it raises.
  On success \<open>nerf\<close> returns the model, which is the keyword binding with the initial
  parameters, and the state.
\<close>

definition nerf ::
  "(string \<rightharpoonup> attribute) \<Rightarrow> (attribute nerf_kwargs \<Rightarrow> 'k \<Rightarrow> int \<times> int \<Rightarrow> error + 'p \<times> 's)
     \<Rightarrow> 'k \<Rightarrow> flags \<Rightarrow> error + (attribute nerf_kwargs \<times> 'p) \<times> 's" where
  "nerf nn init_by_shape key args =
     (case nn (net_activation_name args) of
        None \<Rightarrow> Inl (AttributeError (net_activation_name args))
      | Some net_act \<Rightarrow>
     (case nn (rgb_activation_name args) of
        None \<Rightarrow> Inl (AttributeError (rgb_activation_name args))
      | Some rgb_act \<Rightarrow>
     (case nn (sigma_activation_name args) of
        None \<Rightarrow> Inl (AttributeError (sigma_activation_name args))
      | Some sigma_act \<Rightarrow>
     (case rgb_act probe_inputs of
        Inl e \<Rightarrow> Inl e
      | Inr rgb \<Rightarrow>
          if rgb_out_of_range rgb
          then Inl (NotImplementedError (rgb_activation_name args))
          else
     (case sigma_act probe_inputs of
        Inl e \<Rightarrow> Inl e
      | Inr sigma \<Rightarrow>
          if sigma_negative sigma
          then Inl (NotImplementedError (sigma_activation_name args))
          else
     (case init_by_shape (model_fn args net_act rgb_act sigma_act) key (ray_shape args) of
        Inl e \<Rightarrow> Inl e
      | Inr (init_params, init_state) \<Rightarrow>
          Inr ((model_fn args net_act rgb_act sigma_act, init_params), init_state)))))))"

section \<open>The training loss: \<open>train.py\<close>\<close>

text \<open>\<open>utils.Stats\<close>.\<close>

record stats =
  loss :: real
  psnr :: real

text \<open>\<open>x.mean()\<close> over all entries of a two-axis array.\<close>

definition mean :: "arr2 \<Rightarrow> real" where
  "mean x = sum_list (concat x) / real (length (concat x))"

text \<open>\<open>(rgb - pixels[..., :3])**2\<close>, entry by entry on arrays of equal shape.\<close>

definition squared_error :: "arr2 \<Rightarrow> arr2 \<Rightarrow> arr2" where
  "squared_error rgb pixels =
     map2 (\<lambda>r p. map2 (\<lambda>x y. (x - y)\<^sup>2) r (slice 0 3 p)) rgb pixels"

text \<open>
  \<open>loss_fn\<close> of \<open>train_step\<close> (lines 61 to 84). The model is any function from the two keys
  and the rays to the list of results; \<open>utils.compute_psnr\<close> is a parameter. The first
  component of the value is the scalar that \<open>jax.value_and_grad\<close> differentiates; the
  model state, which the source returns beside the statistics, is left out.
\<close>

definition loss_fn ::
  "(real \<Rightarrow> real) \<Rightarrow> ('k \<Rightarrow> 'k \<Rightarrow> 'r \<Rightarrow> render_result list) \<Rightarrow> 'k \<Rightarrow> 'k \<Rightarrow> 'r \<Rightarrow> arr2
     \<Rightarrow> error + real \<times> stats list" where
  "loss_fn compute_psnr model key_0 key_1 rays pixels =
     (let ret = model key_0 key_1 rays
      in if length ret \<notin> {1, 2} then Inl ValueError
         else
           (let (rgb, unused_disp, unused_acc) = last ret;
                loss = mean (squared_error rgb pixels);
                psnr = compute_psnr loss;
                stats = [\<lparr>loss = loss, psnr = psnr\<rparr>]
            in if length ret > 1
               then
                 (let (rgb_c, unused_disp_c, unused_acc_c) = ret ! 0;
                      loss_c = mean (squared_error rgb_c pixels);
                      psnr_c = compute_psnr loss_c
                  in Inr (loss + loss_c, stats @ [\<lparr>loss = loss_c, psnr = psnr_c\<rparr>]))
               else Inr (loss + 0, stats)))"

text \<open>
  The mean-squared error of a colour array \<open>[batch, 3]\<close> against the first three channels
  of the target pixels, written out entry by entry: the sum of the squared differences over
  all rays and the three channels, divided by their number.
\<close>

definition mse :: "arr2 \<Rightarrow> arr2 \<Rightarrow> real" where
  "mse rgb target =
     (\<Sum>i<length rgb. \<Sum>c<3. (rgb ! i ! c - target ! i ! c)\<^sup>2) / real (3 * length rgb)"

section \<open>The helper module, after the specification\<close>

text \<open>
  The functions of \<open>model_utils\<close> are described by sections 4.2 to 4.5 of the specification.
  The definitions below follow its words. Randomness enters through the draws of
  \<open>jax.random.uniform\<close> and \<open>jax.random.normal\<close>, which are parameters.
\<close>

subsection \<open>RaySampler\<close>

text \<open>
  In what follows a primed name (\<open>near'\<close>, \<open>randomized'\<close>) is the argument that the
  specification calls by the unprimed name, which is a field of \<open>hparams\<close> here.
\<close>

text \<open>
  Modelled from the spec: the division inside \<open>model_utils.sample_along_rays\<close>, which
  section 4.2 requires not to divide by zero. A division whose divisor is zero has no
  value: it stands for the infinities and NaN of the floats and for a rejected input alike.
\<close>

definition checked_div :: "real \<Rightarrow> real \<Rightarrow> real option" where
  "checked_div a b = (if b = 0 then None else Some (a / b))"

text \<open>
  Modelled from the spec: the depth of \<open>model_utils.sample_along_rays\<close> at position \<open>u\<close>
  of \<open>[0, 1]\<close> (section 4.2): \<open>near*(1-u) + far*u\<close> when linear in depth,
  \<open>1 / ((1/near)*(1-u) + (1/far)*u)\<close> when linear in disparity.
\<close>

definition depth_at :: "bool \<Rightarrow> real \<Rightarrow> real \<Rightarrow> real \<Rightarrow> real option" where
  "depth_at use_disparity_spacing near' far' u =
     (if use_disparity_spacing
      then Option.bind (checked_div 1 near') (\<lambda>inv_near.
           Option.bind (checked_div 1 far') (\<lambda>inv_far.
           checked_div 1 (inv_near * (1 - u) + inv_far * u)))
      else Some (near' * (1 - u) + far' * u))"

text \<open>
  Modelled from the spec: the positions of \<open>model_utils.sample_along_rays\<close> (section 4.2).
  \<open>[0, 1]\<close> is cut into \<open>num_samples\<close> equal bins with left edges \<open>i / num_samples\<close>; the
  position in bin \<open>i\<close> is the edge moved by the offset of the bin, a fraction of the bin's
  width.
\<close>

definition bin_positions :: "nat \<Rightarrow> arr1 \<Rightarrow> arr1" where
  "bin_positions num_samples offsets =
     map2 (\<lambda>i off. (real i + off) / real num_samples) [0..<num_samples] offsets"

text \<open>
  Modelled from the spec: the offsets of \<open>model_utils.sample_along_rays\<close> within the bins
  (section 4.2): the draws when randomized, one half for every bin otherwise.
\<close>

definition bin_offsets :: "nat \<Rightarrow> bool \<Rightarrow> arr1 \<Rightarrow> arr1" where
  "bin_offsets num_samples randomized' draws =
     (if randomized' then draws else replicate num_samples (1 / 2))"

text \<open>
  Modelled from the spec: the depths that \<open>model_utils.sample_along_rays\<close> gives one ray
  (the contract \<open>sample\<close> of section 4.2).
\<close>

definition ray_depths :: "nat \<Rightarrow> real \<Rightarrow> real \<Rightarrow> bool \<Rightarrow> bool \<Rightarrow> arr1 \<Rightarrow> arr1 option" where
  "ray_depths num_samples near' far' randomized' use_disparity_spacing draws =
     those (map (depth_at use_disparity_spacing near' far')
              (bin_positions num_samples (bin_offsets num_samples randomized' draws)))"

text \<open>
  Modelled from the spec: the sample points of \<open>model_utils.sample_along_rays\<close> and
  \<open>model_utils.sample_pdf\<close> (section 3, SampleSet): \<open>origin + t * direction\<close> for each depth
  \<open>t\<close> of one ray \<open>[origin, direction]\<close>.
\<close>

definition ray_points :: "arr1 \<Rightarrow> arr1 \<Rightarrow> arr2" where
  "ray_points ray depths =
     map (\<lambda>t. map2 (\<lambda>orig dir. orig + t * dir) (slice 0 3 ray) (slice 3 6 ray)) depths"

text \<open>
  Modelled from the spec: \<open>model_utils.sample_along_rays\<close> on a batch (section 4.2), one
  row of draws for each ray; \<open>uniform key b n\<close> is \<open>jax.random.uniform(key, [b, n])\<close>.
\<close>

definition sample_along_rays_spec ::
  "('k \<Rightarrow> nat \<Rightarrow> nat \<Rightarrow> arr2) \<Rightarrow> 'k \<Rightarrow> arr2 \<Rightarrow> int \<Rightarrow> real \<Rightarrow> real \<Rightarrow> bool \<Rightarrow> bool
     \<Rightarrow> (arr2 \<times> arr3) option" where
  "sample_along_rays_spec uniform key rays num_samples near' far' randomized' lindisp' =
     (let n = nat num_samples;
          draws = (if randomized' then uniform key (length rays) n
                   else replicate (length rays) [])
      in map_option (\<lambda>z_vals. (z_vals, map2 ray_points rays z_vals))
           (those (map (ray_depths n near' far' randomized' lindisp') draws)))"

subsection \<open>NoiseRegularizer\<close>

text \<open>
  Modelled from the spec: \<open>model_utils.add_gaussian_noise\<close> (section 4.5);
  \<open>normal key raw\<close> is \<open>jax.random.normal\<close> in the shape of \<open>raw\<close>.
\<close>

definition add_gaussian_noise_spec ::
  "('k \<Rightarrow> arr3 \<Rightarrow> arr3) \<Rightarrow> 'k \<Rightarrow> arr3 \<Rightarrow> real \<Rightarrow> bool \<Rightarrow> arr3" where
  "add_gaussian_noise_spec normal key raw std_dev randomized' =
     (if randomized' \<and> std_dev > 0
      then map2 (map2 (map2 (\<lambda>x e. x + std_dev * e))) raw (normal key raw)
      else raw)"

subsection \<open>VolumetricRenderer\<close>

text \<open>
  Modelled from the spec: the constants of \<open>model_utils.volumetric_rendering\<close> that
  section 4.3 leaves to the implementation: \<open>\<epsilon>\<close> of step 7, the length given to the last
  interval in step 1, and the disparity of a ray without weight.
\<close>

record render_consts =
  eps :: real
  last_interval :: real
  disp_fallback :: real

text \<open>Modelled from the spec: step 1 of \<open>model_utils.volumetric_rendering\<close> (section 4.3).\<close>

fun interval_lengths :: "real \<Rightarrow> arr1 \<Rightarrow> arr1" where
  "interval_lengths l [] = []"
| "interval_lengths l [t] = [l]"
| "interval_lengths l (t # t' # ts) = (t' - t) # interval_lengths l (t' # ts)"

text \<open>
  Modelled from the spec: steps 2 and 3 of \<open>model_utils.volumetric_rendering\<close>, the opacity
  of each sample.
\<close>

definition opacities :: "render_consts \<Rightarrow> arr1 \<Rightarrow> arr1 \<Rightarrow> arr1 \<Rightarrow> arr1" where
  "opacities c sigma depths direction =
     map2 (\<lambda>s d. 1 - exp (- s * d * norm_last direction))
       sigma (interval_lengths (last_interval c) depths)"

text \<open>
  Modelled from the spec: step 4 of \<open>model_utils.volumetric_rendering\<close>, the product of
  \<open>1 - \<alpha>\<close> over the samples before.
\<close>

fun transmittances :: "real \<Rightarrow> arr1 \<Rightarrow> arr1" where
  "transmittances t [] = []"
| "transmittances t (a # as) = t # transmittances (t * (1 - a)) as"

text \<open>Modelled from the spec: step 5 of \<open>model_utils.volumetric_rendering\<close>.\<close>

definition compositing_weights :: "render_consts \<Rightarrow> arr1 \<Rightarrow> arr1 \<Rightarrow> arr1 \<Rightarrow> arr1" where
  "compositing_weights c sigma depths direction =
     (let alpha = opacities c sigma depths direction
      in map2 (\<lambda>t a. t * a) (transmittances 1 alpha) alpha)"

text \<open>
  Modelled from the spec: step 6 of \<open>model_utils.volumetric_rendering\<close>, the sum of the
  colours by their weights, on colours of three channels.
\<close>

fun weighted_sum :: "arr1 \<Rightarrow> arr2 \<Rightarrow> arr1" where
  "weighted_sum (w # ws) (c # cs) = map2 (\<lambda>x acc. w * x + acc) c (weighted_sum ws cs)"
| "weighted_sum _ _ = replicate 3 0"

text \<open>
  Modelled from the spec: step 6 of \<open>model_utils.volumetric_rendering\<close> with its white
  background, which adds what the weights leave of 1 to every channel.
\<close>

definition composite_color :: "arr1 \<Rightarrow> arr2 \<Rightarrow> bool \<Rightarrow> arr1" where
  "composite_color weights rgb white_background =
     (let color = weighted_sum weights rgb
      in if white_background then map (\<lambda>x. x + (1 - sum_list weights)) color else color)"

text \<open>Modelled from the spec: step 7 of \<open>model_utils.volumetric_rendering\<close>.\<close>

definition disparity :: "render_consts \<Rightarrow> arr1 \<Rightarrow> arr1 \<Rightarrow> real" where
  "disparity c weights depths =
     (if sum_list weights > 0
      then 1 / max (eps c) (sum_list (map2 (\<lambda>w t. w * t) weights depths) / sum_list weights)
      else disp_fallback c)"

text \<open>
  Modelled from the spec: \<open>model_utils.volumetric_rendering\<close> on one ray (the contract
  \<open>render\<close> of section 4.3), on activated colours and densities; the value is
  \<open>(color, disparity, accumulated_opacity, weights)\<close>.
\<close>

definition render_ray ::
  "render_consts \<Rightarrow> arr2 \<Rightarrow> arr1 \<Rightarrow> arr1 \<Rightarrow> arr1 \<Rightarrow> bool \<Rightarrow> arr1 \<times> real \<times> real \<times> arr1" where
  "render_ray c rgb sigma depths direction white_background =
     (let weights = compositing_weights c sigma depths direction
      in (composite_color weights rgb white_background,
          disparity c weights depths,
          sum_list weights,
          weights))"

text \<open>
  Modelled from the spec: \<open>model_utils.volumetric_rendering\<close> on a batch, ray by ray; the
  density array \<open>[batch, n, 1]\<close> is read as \<open>[batch, n]\<close>.
\<close>

definition volumetric_rendering_spec ::
  "render_consts \<Rightarrow> arr3 \<Rightarrow> arr3 \<Rightarrow> arr2 \<Rightarrow> arr2 \<Rightarrow> bool \<Rightarrow> arr2 \<times> arr1 \<times> arr1 \<times> arr2" where
  "volumetric_rendering_spec c rgb sigma z_vals dirs white_bkgd' =
     (let out = map (\<lambda>(r, s, z, d). render_ray c r (concat s) z d white_bkgd')
                  (zip rgb (zip sigma (zip z_vals dirs)))
      in (map fst out,
          map (\<lambda>x. fst (snd x)) out,
          map (\<lambda>x. fst (snd (snd x))) out,
          map (\<lambda>x. snd (snd (snd x))) out))"

subsection \<open>ImportanceResampler\<close>

text \<open>
  Modelled from the spec: steps 2 and 3 of \<open>model_utils.sample_pdf\<close> (section 4.4): the
  floor \<open>padding\<close> added to each interior weight, and the probability mass of each bin.
\<close>

definition pmf :: "real \<Rightarrow> arr1 \<Rightarrow> arr1" where
  "pmf padding interior_weights =
     (let w = map (\<lambda>x. x + padding) interior_weights in map (\<lambda>x. x / sum_list w) w)"

text \<open>Modelled from the spec: step 3 of \<open>model_utils.sample_pdf\<close>, the sums of the masses.\<close>

fun running_sums :: "real \<Rightarrow> arr1 \<Rightarrow> arr1" where
  "running_sums acc [] = []"
| "running_sums acc (p # ps) = (acc + p) # running_sums (acc + p) ps"

text \<open>
  Modelled from the spec: step 3 of \<open>model_utils.sample_pdf\<close>, the cumulative distribution
  at the bin edges, whose ends are exactly 0 and 1.
\<close>

definition cdf :: "arr1 \<Rightarrow> arr1" where
  "cdf ps = (case ps of [] \<Rightarrow> [0] | _ \<Rightarrow> 0 # butlast (running_sums 0 ps) @ [1])"

text \<open>
  Modelled from the spec: step 5 of \<open>model_utils.sample_pdf\<close>, the depth at quantile \<open>u\<close>:
  the first bin whose upper edge of the distribution lies above \<open>u\<close> (the last bin when
  there is none), and the linear interpolation between the depths at its two edges.
\<close>

fun invert_cdf :: "arr1 \<Rightarrow> arr1 \<Rightarrow> real \<Rightarrow> real" where
  "invert_cdf (c # c' # cs) (b # b' # bs) u =
     (if u < c' \<or> cs = [] \<or> bs = []
      then b + (u - c) / (c' - c) * (b' - b)
      else invert_cdf (c' # cs) (b' # bs) u)"
| "invert_cdf cs (b # bs) u = b"
| "invert_cdf cs [] u = 0"

text \<open>
  Modelled from the spec: steps 2 to 5 on one ray, the contract \<open>resample\<close> of section 4.4.
  The quantiles are the positions of \<open>num_new_samples\<close> equal bins of \<open>[0, 1]\<close>, jittered
  by the draws when randomized and at the midpoints otherwise.
\<close>

definition importance_depths :: "real \<Rightarrow> arr1 \<Rightarrow> arr1 \<Rightarrow> nat \<Rightarrow> bool \<Rightarrow> arr1 \<Rightarrow> arr1" where
  "importance_depths padding depth_midpoints interior_weights num_new_samples randomized' draws =
     map (invert_cdf (cdf (pmf padding interior_weights)) depth_midpoints)
       (bin_positions num_new_samples (bin_offsets num_new_samples randomized' draws))"

text \<open>
  Modelled from the spec: \<open>model_utils.sample_pdf\<close> on a batch (section 4.4 with its
  step 6): the new depths of each ray are merged with its coarse depths and sorted, and
  the points of the ray are taken at the merged depths.
\<close>

definition sample_pdf_spec ::
  "real \<Rightarrow> ('k \<Rightarrow> nat \<Rightarrow> nat \<Rightarrow> arr2) \<Rightarrow> 'k \<Rightarrow> arr2 \<Rightarrow> arr2 \<Rightarrow> arr2 \<Rightarrow> arr2 \<Rightarrow> int \<Rightarrow> bool
     \<Rightarrow> arr2 \<times> arr3" where
  "sample_pdf_spec padding uniform key bins weights rays z_vals num_samples randomized' =
     (let n = nat num_samples;
          draws = (if randomized' then uniform key (length rays) n
                   else replicate (length rays) []);
          z_samples = map (\<lambda>(b, w, d). importance_depths padding b w n randomized' d)
                        (zip bins (zip weights draws));
          z_vals = map2 (\<lambda>z new. sort (z @ new)) z_vals z_samples
      in (z_vals, map2 ray_points rays z_vals))"

subsection \<open>The divisions of the renderer and the resampler\<close>

text \<open>
  Modelled from the spec: step 7 of \<open>model_utils.volumetric_rendering\<close> (section 4.3),
  which must not divide by zero, with its two divisions checked as those of the sampler
  are: the value is \<open>None\<close> where a divisor is zero, and the disparity otherwise.
\<close>

definition disparity_checked :: "render_consts \<Rightarrow> arr1 \<Rightarrow> arr1 \<Rightarrow> real option" where
  "disparity_checked c weights depths =
     (if sum_list weights > 0
      then Option.bind
             (checked_div (sum_list (map2 (\<lambda>w t. w * t) weights depths)) (sum_list weights))
             (\<lambda>mean_depth. checked_div 1 (max (eps c) mean_depth))
      else Some (disp_fallback c))"

text \<open>
  Modelled from the spec: \<open>model_utils.volumetric_rendering\<close> on one ray (the contract
  \<open>render\<close> of section 4.3) with the divisions of step 7 checked; the other steps divide
  by nothing.
\<close>

definition render_ray_checked ::
  "render_consts \<Rightarrow> arr2 \<Rightarrow> arr1 \<Rightarrow> arr1 \<Rightarrow> arr1 \<Rightarrow> bool \<Rightarrow> (arr1 \<times> real \<times> real \<times> arr1) option" where
  "render_ray_checked c rgb sigma depths direction white_background =
     (let weights = compositing_weights c sigma depths direction
      in map_option
           (\<lambda>d. (composite_color weights rgb white_background, d, sum_list weights, weights))
           (disparity_checked c weights depths))"

text \<open>
  Modelled from the spec: steps 2 and 3 of \<open>model_utils.sample_pdf\<close> (section 4.4) with the
  division by the sum of the padded weights checked.
\<close>

definition pmf_checked :: "real \<Rightarrow> arr1 \<Rightarrow> arr1 option" where
  "pmf_checked padding interior_weights =
     (let w = map (\<lambda>x. x + padding) interior_weights
      in those (map (\<lambda>x. checked_div x (sum_list w)) w))"

text \<open>
  Modelled from the spec: step 5 of \<open>model_utils.sample_pdf\<close> with the division of the
  interpolation checked: \<open>invert_cdf\<close>, clause by clause.
\<close>

fun invert_cdf_checked :: "arr1 \<Rightarrow> arr1 \<Rightarrow> real \<Rightarrow> real option" where
  "invert_cdf_checked (c # c' # cs) (b # b' # bs) u =
     (if u < c' \<or> cs = [] \<or> bs = []
      then map_option (\<lambda>t. b + t * (b' - b)) (checked_div (u - c) (c' - c))
      else invert_cdf_checked (c' # cs) (b' # bs) u)"
| "invert_cdf_checked cs (b # bs) u = Some b"
| "invert_cdf_checked cs [] u = Some 0"

text \<open>
  Modelled from the spec: steps 2 to 5 of \<open>model_utils.sample_pdf\<close> on one ray, the contract
  \<open>resample\<close> of section 4.4, with every division checked: \<open>importance_depths\<close> where no
  divisor is zero, and \<open>None\<close> otherwise.
\<close>

definition importance_depths_checked ::
  "real \<Rightarrow> arr1 \<Rightarrow> arr1 \<Rightarrow> nat \<Rightarrow> bool \<Rightarrow> arr1 \<Rightarrow> arr1 option" where
  "importance_depths_checked padding depth_midpoints interior_weights num_new_samples randomized'
       draws =
     Option.bind (pmf_checked padding interior_weights) (\<lambda>ps.
       those (map (invert_cdf_checked (cdf ps) depth_midpoints)
                (bin_positions num_new_samples (bin_offsets num_new_samples randomized' draws))))"

section \<open>Auxiliary definitions\<close>

text \<open>
  The value of \<open>depth_at\<close> in closed form, where it has one: the disparity formula
  \<open>1 / ((1/near)*(1-u) + (1/far)*u)\<close> is \<open>near * far / (far - (far - near) * u)\<close>.
\<close>

definition depth_fn :: "bool \<Rightarrow> real \<Rightarrow> real \<Rightarrow> real \<Rightarrow> real" where
  "depth_fn use_disparity_spacing near' far' u =
     (if use_disparity_spacing
      then near' * far' / (far' - (far' - near') * u)
      else near' * (1 - u) + far' * u)"

text \<open>Constants of the renderer for the examples: a small \<open>\<epsilon>\<close> and a long last interval.\<close>

definition example_consts :: render_consts where
  "example_consts = \<lparr>eps = 1 / 10 ^ 10, last_interval = 10 ^ 10, disp_fallback = 0\<rparr>"

text \<open>
  A concrete helper module for the examples. Keys are natural numbers; the draws are
  constant in each call; the network returns one fixed colour and density whatever its
  input; the encoding is the identity; the sampler, the noise, the renderer and the
  resampler are those of the specification (where the sampler has no value the arrays are
  empty).
\<close>

definition example_uniform :: "nat \<Rightarrow> nat \<Rightarrow> nat \<Rightarrow> arr2" where
  "example_uniform key b n = replicate b (replicate n (1 / (2 + real key)))"

definition example_normal :: "nat \<Rightarrow> arr3 \<Rightarrow> arr3" where
  "example_normal key raw = map (map (map (\<lambda>x. real key))) raw"

definition example_MLP :: "arr3 \<Rightarrow> arr2 option \<Rightarrow> mlp_kwargs \<Rightarrow> arr3 \<times> arr3" where
  "example_MLP samples viewdirs kw =
     (map (map (\<lambda>p. [1, 1 / 2, 0])) samples, map (map (\<lambda>p. [1])) samples)"

definition example_utils :: "nat model_utils" where
  "example_utils =
     \<lparr>random_split = (\<lambda>k. (2 * k, 2 * k + 1)),
      sample_along_rays = (\<lambda>key rays n nr fr rnd ld.
         case sample_along_rays_spec example_uniform key rays n nr fr rnd ld of
           Some r \<Rightarrow> r | None \<Rightarrow> ([], [])),
      posenc = (\<lambda>p deg. p),
      MLP = example_MLP,
      add_gaussian_noise = add_gaussian_noise_spec example_normal,
      volumetric_rendering = volumetric_rendering_spec example_consts,
      sample_pdf = sample_pdf_spec (1 / 10 ^ 5) example_uniform\<rparr>"

text \<open>Two activations of \<open>flax.nn\<close>, hyperparameters, and one ray of width six.\<close>

definition relu :: "real \<Rightarrow> real" where
  "relu x = max 0 x"

definition sigmoid :: "real \<Rightarrow> real" where
  "sigmoid x = 1 / (1 + exp (- x))"

definition example_hparams :: hparams where
  "example_hparams =
     \<lparr>deg_point = 10, deg_view = 4, num_coarse_samples = 2, num_fine_samples = 1,
      use_viewdirs = True, near = 2, far = 6, noise_std = 0, randomized = False,
      white_bkgd = True, net_depth = 4, net_width = 256, net_depth_condition = 1,
      net_width_condition = 128, skip_layer = 4, num_rgb_channels = 3,
      num_sigma_channels = 1, lindisp = False\<rparr>"

definition example_args :: nerf_args where
  "example_args = hparams.extend example_hparams (nerf_kwargs.fields relu sigmoid relu)"

definition example_rays :: arr2 where
  "example_rays = [[0, 0, 0, 0, 0, 1]]"

text \<open>A ray of width nine: origin, direction, and a view direction of its own.\<close>

definition example_rays9 :: arr2 where
  "example_rays9 = [[0, 0, 0, 0, 0, 1, 0, 3, 4]]"

text \<open>
  Helpers that show their arguments in what they return: renderers that return as colours
  the depths, the directions or the colours they are given; a sampler that returns the
  rays as depths, and one that returns fixed depths; a resampler that returns its bins, its
  weights and its depths, one after the other; a network that returns the view directions
  it is called with.
\<close>

definition echo_depths_rendering ::
  "arr2 \<Rightarrow> arr3 \<Rightarrow> arr3 \<Rightarrow> arr2 \<Rightarrow> arr2 \<Rightarrow> bool \<Rightarrow> arr2 \<times> arr1 \<times> arr1 \<times> arr2" where
  "echo_depths_rendering weights rgb sigma z_vals dirs white = (z_vals, [], [], weights)"

definition echo_dirs_rendering ::
  "arr3 \<Rightarrow> arr3 \<Rightarrow> arr2 \<Rightarrow> arr2 \<Rightarrow> bool \<Rightarrow> arr2 \<times> arr1 \<times> arr1 \<times> arr2" where
  "echo_dirs_rendering rgb sigma z_vals dirs white = (dirs, [], [], [])"

definition echo_rgb_rendering ::
  "arr3 \<Rightarrow> arr3 \<Rightarrow> arr2 \<Rightarrow> arr2 \<Rightarrow> bool \<Rightarrow> arr2 \<times> arr1 \<times> arr1 \<times> arr2" where
  "echo_rgb_rendering rgb sigma z_vals dirs white = (concat rgb, [], [], [])"

definition echo_rays_sampler ::
  "'k \<Rightarrow> arr2 \<Rightarrow> int \<Rightarrow> real \<Rightarrow> real \<Rightarrow> bool \<Rightarrow> bool \<Rightarrow> arr2 \<times> arr3" where
  "echo_rays_sampler key rays n nr fr rnd ld = (rays, [])"

definition const_sampler ::
  "arr2 \<Rightarrow> 'k \<Rightarrow> arr2 \<Rightarrow> int \<Rightarrow> real \<Rightarrow> real \<Rightarrow> bool \<Rightarrow> bool \<Rightarrow> arr2 \<times> arr3" where
  "const_sampler z_vals key rays n nr fr rnd ld = (z_vals, [])"

definition echo_resampler ::
  "'k \<Rightarrow> arr2 \<Rightarrow> arr2 \<Rightarrow> arr2 \<Rightarrow> arr2 \<Rightarrow> int \<Rightarrow> bool \<Rightarrow> arr2 \<times> arr3" where
  "echo_resampler key bins weights rays z_vals n rnd = (bins @ weights @ z_vals, [])"

definition echo_view_MLP :: "arr3 \<Rightarrow> arr2 option \<Rightarrow> mlp_kwargs \<Rightarrow> arr3 \<times> arr3" where
  "echo_view_MLP samples viewdirs kw = (case viewdirs of None \<Rightarrow> [] | Some v \<Rightarrow> [v], [])"

text \<open>
  Helpers that answer only at one argument: the sampler at the ray without its view
  direction, the network at the encoded view direction, the renderer at the ray's own
  direction, the resampler where the bins are the midpoints of the depths it is given.
\<close>

definition example_sample_along_rays ::
  "nat \<Rightarrow> arr2 \<Rightarrow> int \<Rightarrow> real \<Rightarrow> real \<Rightarrow> bool \<Rightarrow> bool \<Rightarrow> arr2 \<times> arr3" where
  "example_sample_along_rays key rays n nr fr rnd ld =
     (if rays = [[0, 0, 0, 0, 0, 1]]
      then sample_along_rays example_utils key rays n nr fr rnd ld
      else ([], []))"

definition example_guarded_MLP :: "arr3 \<Rightarrow> arr2 option \<Rightarrow> mlp_kwargs \<Rightarrow> arr3 \<times> arr3" where
  "example_guarded_MLP samples viewdirs kw =
     (if viewdirs = Some (encoded_viewdirs example_utils example_rays9 example_args)
      then MLP example_utils samples viewdirs kw
      else ([], []))"

definition example_rendering ::
  "arr3 \<Rightarrow> arr3 \<Rightarrow> arr2 \<Rightarrow> arr2 \<Rightarrow> bool \<Rightarrow> arr2 \<times> arr1 \<times> arr1 \<times> arr2" where
  "example_rendering rgb sigma z_vals dirs white =
     (if dirs = [[0, 0, 1]]
      then volumetric_rendering example_utils rgb sigma z_vals dirs white
      else ([], [], [], []))"

definition example_sample_pdf ::
  "nat \<Rightarrow> arr2 \<Rightarrow> arr2 \<Rightarrow> arr2 \<Rightarrow> arr2 \<Rightarrow> int \<Rightarrow> bool \<Rightarrow> arr2 \<times> arr3" where
  "example_sample_pdf key bins weights rays z_vals n rnd =
     (if bins = z_vals_mid z_vals
      then sample_pdf example_utils key bins weights rays z_vals n rnd
      else ([], []))"

text \<open>
  The two activations on \<open>float32\<close>, with their values at the infinities, an attribute that
  applies a function to every entry, and a part of the namespace \<open>flax.nn\<close>: the two
  activations, and the class \<open>Dense\<close>, whose call with an array alone raises.
\<close>

fun relu32 :: "float32 \<Rightarrow> float32" where
  "relu32 (Finite x) = Finite (relu x)"
| "relu32 PosInf = PosInf"
| "relu32 NegInf = Finite 0"
| "relu32 NaN = NaN"

fun sigmoid32 :: "float32 \<Rightarrow> float32" where
  "sigmoid32 (Finite x) = Finite (sigmoid x)"
| "sigmoid32 PosInf = Finite 1"
| "sigmoid32 NegInf = Finite 0"
| "sigmoid32 NaN = NaN"

definition elementwise :: "(float32 \<Rightarrow> float32) \<Rightarrow> attribute" where
  "elementwise f x = Inr (map f x)"

definition example_nn :: "string \<rightharpoonup> attribute" where
  "example_nn =
     [''relu'' \<mapsto> elementwise relu32, ''sigmoid'' \<mapsto> elementwise sigmoid32,
      ''Dense'' \<mapsto> (\<lambda>x. Inl ValueError)]"

text \<open>
  Flags that name activations in it, and two stand-ins for \<open>init_by_shape\<close>: one returns
  the shape of the rays as the parameters, one raises.
\<close>

definition example_flags :: flags where
  "example_flags =
     hparams.extend example_hparams (flags.fields ''relu'' ''sigmoid'' ''relu'' 4096 ''blender'')"

definition example_init_by_shape ::
  "attribute nerf_kwargs \<Rightarrow> nat \<Rightarrow> int \<times> int \<Rightarrow> error + (int \<times> int) \<times> nat" where
  "example_init_by_shape kwargs key shape = Inr (shape, key)"

definition failing_init_by_shape ::
  "attribute nerf_kwargs \<Rightarrow> nat \<Rightarrow> int \<times> int \<Rightarrow> error + (int \<times> int) \<times> nat" where
  "failing_init_by_shape kwargs key shape = Inl ValueError"

text \<open>An activation on \<open>float32\<close> that is negative at zero and nowhere else.\<close>

definition negative_at_zero :: "float32 \<Rightarrow> float32" where
  "negative_at_zero v = (if v = Finite 0 then Finite (- 1) else Finite 1)"

text \<open>A network that returns one fixed raw colour and the raw density zero.\<close>

definition const_MLP :: "real \<Rightarrow> arr3 \<Rightarrow> arr2 option \<Rightarrow> mlp_kwargs \<Rightarrow> arr3 \<times> arr3" where
  "const_MLP raw samples viewdirs kw = ([[[raw]]], [[[0]]])"

text \<open>
  A network that shows which depth it is built with: it has the default depth
  \<open>default_depth\<close> and returns, as its one colour, the depth that the call binds.
\<close>

definition depth_reporting_MLP :: "int \<Rightarrow> arr3 \<Rightarrow> arr2 option \<Rightarrow> mlp_kwargs \<Rightarrow> arr3 \<times> arr3" where
  "depth_reporting_MLP default_depth samples viewdirs kw =
     ([[[real_of_int (case kw_net_depth kw of None \<Rightarrow> default_depth | Some d \<Rightarrow> d)]]], [[[0]]])"

text \<open>
  Stochastic helpers that answer only at the keys that the example derives from its two
  keys 0 and 1: key 0 for the sampler, keys 2 and 6 for the noise, key 2 for the resampler.
\<close>

definition keyed_sampler ::
  "nat \<Rightarrow> arr2 \<Rightarrow> int \<Rightarrow> real \<Rightarrow> real \<Rightarrow> bool \<Rightarrow> bool \<Rightarrow> arr2 \<times> arr3" where
  "keyed_sampler key rays n nr fr rnd ld =
     (if key = 0 then sample_along_rays example_utils key rays n nr fr rnd ld else ([], []))"

definition keyed_noise :: "nat \<Rightarrow> arr3 \<Rightarrow> real \<Rightarrow> bool \<Rightarrow> arr3" where
  "keyed_noise key raw std rnd =
     (if key = 2 \<or> key = 6 then add_gaussian_noise example_utils key raw std rnd else [])"

definition keyed_resampler ::
  "nat \<Rightarrow> arr2 \<Rightarrow> arr2 \<Rightarrow> arr2 \<Rightarrow> arr2 \<Rightarrow> int \<Rightarrow> bool \<Rightarrow> arr2 \<times> arr3" where
  "keyed_resampler key bins weights rays z_vals n rnd =
     (if key = 2 then sample_pdf example_utils key bins weights rays z_vals n rnd else ([], []))"

text \<open>A model that returns a coarse and a fine result for one ray.\<close>

definition example_model :: "nat \<Rightarrow> nat \<Rightarrow> arr2 \<Rightarrow> render_result list" where
  "example_model key_0 key_1 rays = [([[1, 0, 0]], [1], [1]), ([[1 / 2, 0, 0]], [1], [1])]"

section \<open>Properties of the ray sampler\<close>

lemma bin_positions_length:
  "length offs = n \<Longrightarrow> length (bin_positions n offs) = n"
  by (simp add: bin_positions_def)

lemma bin_positions_nth:
  "length offs = n \<Longrightarrow> i < n \<Longrightarrow> bin_positions n offs ! i = (real i + offs ! i) / real n"
  by (simp add: bin_positions_def)

lemma bin_positions_sorted:
  assumes "length offs = n" "\<forall>r\<in>set offs. 0 \<le> r \<and> r < 1"
  shows "sorted_wrt (<) (bin_positions n offs)"
proof -
  have "bin_positions n offs ! i < bin_positions n offs ! j" if "i < j" "j < n" for i j
  proof -
    have oi: "offs ! i < 1" and oj: "0 \<le> offs ! j" using assms that by auto
    have "real i + 1 \<le> real j" using that by simp
    then have "real i + offs ! i < real j + offs ! j" using oi oj by linarith
    moreover have "0 < real n" using that by simp
    ultimately have "(real i + offs ! i) / real n < (real j + offs ! j) / real n"
      by (simp add: divide_strict_right_mono)
    then show ?thesis using that assms(1) by (simp add: bin_positions_nth)
  qed
  then show ?thesis
    by (simp add: sorted_wrt_iff_nth_less bin_positions_length[OF assms(1)])
qed

lemma bin_positions_unit:
  assumes "length offs = n" "\<forall>r\<in>set offs. 0 \<le> r \<and> r < 1"
  shows "\<forall>u\<in>set (bin_positions n offs). 0 \<le> u \<and> u \<le> 1"
proof
  fix u assume "u \<in> set (bin_positions n offs)"
  then obtain i where i: "i < n" and u: "u = bin_positions n offs ! i"
    using bin_positions_length[OF assms(1)] by (auto simp: in_set_conv_nth)
  have o: "0 \<le> offs ! i" "offs ! i < 1" using assms i by auto
  have n: "0 < real n" using i by simp
  have "real i + 1 \<le> real n" using i by simp
  then have "real i + offs ! i \<le> real n" using o by linarith
  then have "(real i + offs ! i) / real n \<le> 1" using n by simp
  moreover have "0 \<le> (real i + offs ! i) / real n" using o by simp
  ultimately show "0 \<le> u \<and> u \<le> 1" using u i assms(1) by (simp add: bin_positions_nth)
qed

lemma those_map_Some:
  "\<forall>x\<in>set xs. f x = Some (g x) \<Longrightarrow> those (map f xs) = Some (map g xs)"
  by (induction xs) auto

lemma linear_depth_mono:
  fixes n f u v :: real
  assumes "n < f" "u < v"
  shows "n * (1 - u) + f * u < n * (1 - v) + f * v"
proof -
  have "n * (1 - u) + f * u = n + (f - n) * u" by (simp add: algebra_simps)
  moreover have "n * (1 - v) + f * v = n + (f - n) * v" by (simp add: algebra_simps)
  moreover have "(f - n) * u < (f - n) * v" using assms by simp
  ultimately show ?thesis by simp
qed

lemma linear_depth_range:
  fixes n f u :: real
  assumes "n < f" "0 \<le> u" "u \<le> 1"
  shows "n \<le> n * (1 - u) + f * u \<and> n * (1 - u) + f * u \<le> f"
proof -
  have e: "n * (1 - u) + f * u = n + (f - n) * u" by (simp add: algebra_simps)
  have "0 \<le> (f - n) * u" using assms by simp
  moreover have "(f - n) * u \<le> (f - n) * 1" using assms by (intro mult_left_mono) auto
  ultimately show ?thesis unfolding e by simp
qed

lemma disparity_depth_closed:
  fixes n f u :: real
  assumes "0 < n * f" "n < f" "0 \<le> u" "u \<le> 1"
  shows "depth_at True n f u = Some (n * f / (f - (f - n) * u))"
    and "n \<le> f - (f - n) * u" and "f - (f - n) * u \<le> f"
proof -
  have nz: "n \<noteq> 0" "f \<noteq> 0" using assms(1) by auto
  show lo: "n \<le> f - (f - n) * u"
  proof -
    have "(f - n) * u \<le> (f - n) * 1" using assms by (intro mult_left_mono) auto
    then show ?thesis by simp
  qed
  show hi: "f - (f - n) * u \<le> f" using assms by simp
  have dnz: "f - (f - n) * u \<noteq> 0"
  proof (cases "0 < n")
    case True then show ?thesis using lo by linarith
  next
    case False
    then have "n < 0" using nz by simp
    then have "f < 0" using assms(1) by (simp add: zero_less_mult_iff)
    then show ?thesis using hi by linarith
  qed
  have eq: "1 / n * (1 - u) + 1 / f * u = (f - (f - n) * u) / (n * f)"
    using nz by (simp add: field_simps)
  have "1 / n * (1 - u) + 1 / f * u \<noteq> 0" unfolding eq using dnz nz by simp
  moreover have "1 / (1 / n * (1 - u) + 1 / f * u) = n * f / (f - (f - n) * u)"
    unfolding eq by simp
  ultimately show "depth_at True n f u = Some (n * f / (f - (f - n) * u))"
    using nz by (simp add: depth_at_def checked_div_def)
qed

lemma same_sign_quotient_mono:
  fixes p d e :: real
  assumes "0 < p" "e < d" "0 < d * e"
  shows "p / d < p / e"
  by (simp add: assms divide_strict_left_mono)

lemma same_sign_quotient_range:
  fixes n f d :: real
  assumes "0 < n * f" "n < f" "n \<le> d" "d \<le> f"
  shows "n \<le> n * f / d \<and> n * f / d \<le> f"
proof (cases "0 < n")
  case True
  then have d: "0 < d" and f: "0 < f" using assms by auto
  have "n * d \<le> n * f" using True assms(4) by simp
  moreover have "n * f \<le> f * d" using f assms(3) by (simp add: mult.commute)
  ultimately show ?thesis using d by (simp add: pos_le_divide_eq pos_divide_le_eq)
next
  case False
  then have n: "n < 0" using assms(1) by (cases "n = 0") auto
  then have f: "f < 0" using assms(1) by (simp add: zero_less_mult_iff)
  then have d: "d < 0" using assms(4) by simp
  have "n * f \<le> n * d" using n assms(4) by (simp add: mult_le_cancel_left)
  moreover have "f * d \<le> n * f" using f assms(3) by (simp add: mult.commute mult_le_cancel_left)
  ultimately show ?thesis using d by (simp add: neg_le_divide_eq neg_divide_le_eq)
qed

lemma disparity_depth_mono:
  fixes n f u v :: real
  assumes "0 < n * f" "n < f" "0 \<le> u" "u < v" "v \<le> 1"
  shows "n * f / (f - (f - n) * u) < n * f / (f - (f - n) * v)"
proof -
  let ?d = "f - (f - n) * u" and ?e = "f - (f - n) * v"
  have lt: "?e < ?d" using assms by simp
  have b: "n \<le> ?e" "?d \<le> f"
    using disparity_depth_closed(2)[of n f v] disparity_depth_closed(3)[of n f u] assms by auto
  have "0 < ?d * ?e"
  proof (cases "0 < n")
    case True
    then have "0 < ?e" using b by linarith
    moreover have "0 < ?d" using lt calculation by linarith
    ultimately show ?thesis by simp
  next
    case False
    then have "n < 0" using assms(1) by (cases "n = 0") auto
    then have "f < 0" using assms(1) by (simp add: zero_less_mult_iff)
    then have "?d < 0" using b by linarith
    moreover have "?e < 0" using lt calculation by linarith
    ultimately show ?thesis by (simp add: zero_less_mult_iff)
  qed
  then show ?thesis using same_sign_quotient_mono[OF assms(1) lt] by simp
qed

lemma depth_at_value:
  assumes "n < f" "ld \<longrightarrow> 0 < n * f" "0 \<le> u" "u \<le> 1"
  shows "depth_at ld n f u = Some (depth_fn ld n f u)"
  using assms disparity_depth_closed(1)[of n f u]
  by (cases ld) (simp_all add: depth_fn_def depth_at_def)

lemma depth_fn_mono:
  assumes "n < f" "ld \<longrightarrow> 0 < n * f" "0 \<le> u" "u < v" "v \<le> 1"
  shows "depth_fn ld n f u < depth_fn ld n f v"
  using assms linear_depth_mono[of n f u v] disparity_depth_mono[of n f u v]
  by (cases ld) (simp_all add: depth_fn_def)

lemma depth_fn_range:
  assumes "n < f" "ld \<longrightarrow> 0 < n * f" "0 \<le> u" "u \<le> 1"
  shows "n \<le> depth_fn ld n f u \<and> depth_fn ld n f u \<le> f"
proof (cases ld)
  case True
  then show ?thesis
    using assms same_sign_quotient_range[of n f "f - (f - n) * u"]
      disparity_depth_closed(2,3)[of n f u]
    by (simp add: depth_fn_def)
next
  case False
  then show ?thesis using assms linear_depth_range[of n f u] by (simp add: depth_fn_def)
qed

lemma sorted_wrt_map_unit:
  assumes "sorted_wrt (<) us" "\<forall>u\<in>set us. 0 \<le> u \<and> u \<le> (1::real)"
    and "\<And>u v. 0 \<le> u \<Longrightarrow> u < v \<Longrightarrow> v \<le> 1 \<Longrightarrow> g u < (g v :: real)"
  shows "sorted_wrt (<) (map g us)"
  using assms(1,2)
proof (induction us)
  case Nil then show ?case by simp
next
  case (Cons u us)
  then show ?case using assms(3) by auto
qed

lemma bin_positions_midpoints_2:
  "bin_positions 2 (bin_offsets 2 False ds) = [1 / 4, 3 / 4]"
  by (simp add: bin_positions_def bin_offsets_def numeral_2_eq_2 upt_rec)

text \<open>
  Claim C7, as amended. For \<open>near < far\<close>, at least one sample, and draws in \<open>[0, 1)\<close>, one
  for each bin, when randomized: the sampler has a value, one depth for each bin; the
  depths are strictly increasing and each lies within \<open>[min near far, max near far]\<close>.
  With spacing linear in disparity this needs \<open>near\<close> and \<open>far\<close> of one sign and neither zero,
  that is \<open>0 < near * far\<close>.
\<close>

theorem ray_depths_increasing_in_range:
  assumes "near' < far'" and "1 \<le> n"
    and "randomized' \<longrightarrow> length draws = n \<and> (\<forall>r\<in>set draws. 0 \<le> r \<and> r < 1)"
    and "use_disparity_spacing \<longrightarrow> 0 < near' * far'"
  shows "\<exists>zs. ray_depths n near' far' randomized' use_disparity_spacing draws = Some zs
           \<and> length zs = n \<and> sorted_wrt (<) zs
           \<and> (\<forall>z\<in>set zs. min near' far' \<le> z \<and> z \<le> max near' far')"
proof -
  let ?offs = "bin_offsets n randomized' draws"
  let ?us = "bin_positions n ?offs"
  let ?g = "depth_fn use_disparity_spacing near' far'"
  have len: "length ?offs = n" using assms(3) by (simp add: bin_offsets_def)
  have unit: "\<forall>r\<in>set ?offs. 0 \<le> r \<and> r < 1" using assms(3) by (auto simp: bin_offsets_def)
  have us: "\<forall>u\<in>set ?us. 0 \<le> u \<and> u \<le> 1" using bin_positions_unit[OF len unit] .
  have srt: "sorted_wrt (<) ?us" using bin_positions_sorted[OF len unit] .
  have "\<forall>u\<in>set ?us. depth_at use_disparity_spacing near' far' u = Some (?g u)"
    using us depth_at_value[OF assms(1) assms(4)] by blast
  then have val: "ray_depths n near' far' randomized' use_disparity_spacing draws = Some (map ?g ?us)"
    unfolding ray_depths_def by (rule those_map_Some)
  have "sorted_wrt (<) (map ?g ?us)"
    using srt us depth_fn_mono[OF assms(1) assms(4)] by (rule sorted_wrt_map_unit)
  moreover have "\<forall>z\<in>set (map ?g ?us). min near' far' \<le> z \<and> z \<le> max near' far'"
    using us depth_fn_range[OF assms(1) assms(4)] assms(1) by auto
  moreover have "length (map ?g ?us) = n" using bin_positions_length[OF len] by simp
  ultimately show ?thesis using val by blast
qed


text \<open>The theorem at \<open>near = 2\<close>, \<open>far = 6\<close>, two jittered bins, linear in disparity.\<close>

theorem ray_depths_increasing_in_range_witness:
  "(2 :: real) < 6 \<and> (1 :: nat) \<le> 2
   \<and> length [1 / 4, 1 / 2 :: real] = 2
   \<and> list_all (\<lambda>r. 0 \<le> r \<and> r < 1) [1 / 4, 1 / 2 :: real]
   \<and> (0 :: real) < 2 * 6
   \<and> (\<exists>zs. ray_depths 2 2 6 True True [1 / 4, 1 / 2] = Some zs
           \<and> length zs = 2 \<and> sorted_wrt (<) zs
           \<and> list_all (\<lambda>z. min 2 6 \<le> z \<and> z \<le> max 2 6) zs)"
  using ray_depths_increasing_in_range[of 2 6 2 True "[1 / 4, 1 / 2]" True]
  by (simp add: list_all_iff)

text \<open>
  Claim C7 as it is written fails for spacing linear in disparity when zero lies between
  \<open>near\<close> and \<open>far\<close>: from \<open>near = -1\<close>, \<open>far = 1\<close> the two midpoints give the depths \<open>-2\<close>
  and \<open>2\<close>, outside \<open>[-1, 1]\<close>.
\<close>

theorem ray_depths_disparity_counterexample:
  "(- 1 :: real) < 1 \<and> (1 :: nat) \<le> 2
   \<and> ray_depths 2 (- 1) 1 False True [] = Some [- 2, 2]
   \<and> \<not> (\<forall>z\<in>set [- 2, 2 :: real]. min (- 1) 1 \<le> z \<and> z \<le> max (- 1) 1)"
  by (simp add: ray_depths_def bin_positions_midpoints_2 depth_at_def checked_div_def)

lemma ray_depths_equal_ends:
  assumes "use_disparity_spacing \<longrightarrow> c \<noteq> 0" and "randomized' \<longrightarrow> length draws = n"
  shows "ray_depths n c c randomized' use_disparity_spacing draws = Some (replicate n c)"
proof -
  let ?us = "bin_positions n (bin_offsets n randomized' draws)"
  have len: "length ?us = n" using assms(2) by (simp add: bin_positions_def bin_offsets_def)
  have "depth_at use_disparity_spacing c c u = Some c" for u
  proof (cases use_disparity_spacing)
    case True
    then have c: "c \<noteq> 0" using assms(1) by simp
    have "1 / c * (1 - u) + 1 / c * u = 1 / c * ((1 - u) + u)" by (simp only: distrib_left)
    then have "1 / c * (1 - u) + 1 / c * u = 1 / c" by simp
    then show ?thesis using True c by (simp add: depth_at_def checked_div_def)
  next
    case False
    have "c * (1 - u) + c * u = c" by (simp add: algebra_simps)
    then show ?thesis using False by (simp add: depth_at_def)
  qed
  then have "those (map (depth_at use_disparity_spacing c c) ?us) = Some (map (\<lambda>u. c) ?us)"
    by (intro those_map_Some) simp
  then show ?thesis using len by (simp add: ray_depths_def map_replicate_const)
qed

section \<open>Properties of the volumetric renderer\<close>

lemma interval_lengths_nonneg:
  "sorted ts \<Longrightarrow> 0 \<le> l \<Longrightarrow> \<forall>d\<in>set (interval_lengths l ts). 0 \<le> d"
  by (induction l ts rule: interval_lengths.induct) auto

lemma norm_last_nonneg: "0 \<le> norm_last v"
  unfolding norm_last_def by (rule real_sqrt_ge_zero, rule sum_list_nonneg) auto

lemma opacity_range:
  fixes s d n :: real
  assumes "0 \<le> s" "0 \<le> d" "0 \<le> n"
  shows "0 \<le> 1 - exp (- s * d * n) \<and> 1 - exp (- s * d * n) \<le> 1"
proof -
  have "0 \<le> s * d * n" using assms by simp
  then have "- s * d * n \<le> 0" by simp
  then have "exp (- s * d * n) \<le> 1" by (simp only: exp_le_one_iff)
  then show ?thesis by simp
qed

lemma opacities_range:
  assumes "\<forall>s\<in>set sigma. 0 \<le> s" "sorted depths" "0 \<le> last_interval c"
  shows "\<forall>a\<in>set (opacities c sigma depths direction). 0 \<le> a \<and> a \<le> 1"
proof -
  have d: "\<forall>d\<in>set (interval_lengths (last_interval c) depths). 0 \<le> d"
    using assms interval_lengths_nonneg by blast
  show ?thesis
    unfolding opacities_def
  proof
    fix a assume "a \<in> set (map2 (\<lambda>s d. 1 - exp (- s * d * norm_last direction)) sigma
        (interval_lengths (last_interval c) depths))"
    then obtain s d where sd: "(s, d) \<in> set (zip sigma (interval_lengths (last_interval c) depths))"
      and a: "a = 1 - exp (- s * d * norm_last direction)" by auto
    from sd have "s \<in> set sigma" "d \<in> set (interval_lengths (last_interval c) depths)"
      by (auto dest: set_zip_leftD set_zip_rightD)
    with assms(1) d have "0 \<le> s" "0 \<le> d" by auto
    then show "0 \<le> a \<and> a \<le> 1" unfolding a using opacity_range norm_last_nonneg by blast
  qed
qed

lemma weights_sum:
  "sum_list (map2 (\<lambda>t a. t * a) (transmittances t as) as) = t - t * prod_list (map (\<lambda>a. 1 - a) as)"
proof (induction as arbitrary: t)
  case Nil
  then show ?case by simp
next
  case (Cons a as)
  have "sum_list (map2 (\<lambda>t a. t * a) (transmittances t (a # as)) (a # as))
      = t * a + sum_list (map2 (\<lambda>t a. t * a) (transmittances (t * (1 - a)) as) as)"
    by simp
  also have "\<dots> = t * a + (t * (1 - a) - t * (1 - a) * prod_list (map (\<lambda>a. 1 - a) as))"
    by (simp only: Cons.IH)
  also have "\<dots> = t - t * prod_list (map (\<lambda>a. 1 - a) (a # as))"
    by (simp add: algebra_simps)
  finally show ?case .
qed

lemma prod_unit_range:
  "\<forall>x\<in>set xs. 0 \<le> x \<and> x \<le> (1::real) \<Longrightarrow> 0 \<le> prod_list xs \<and> prod_list xs \<le> 1"
proof (induction xs)
  case Nil then show ?case by simp
next
  case (Cons x xs)
  then have "0 \<le> x" "x \<le> 1" "0 \<le> prod_list xs" "prod_list xs \<le> 1" by auto
  then show ?case by (simp add: mult_le_one)
qed

lemma weights_nonneg:
  "0 \<le> t \<Longrightarrow> \<forall>a\<in>set as. 0 \<le> a \<and> a \<le> 1 \<Longrightarrow>
     \<forall>w\<in>set (map2 (\<lambda>t a. t * a) (transmittances t as) as). 0 \<le> w"
proof (induction as arbitrary: t)
  case Nil then show ?case by simp
next
  case (Cons a as)
  have a: "0 \<le> a" "a \<le> 1" and as: "\<forall>a\<in>set as. 0 \<le> a \<and> a \<le> 1"
    using Cons.prems by auto
  have "0 \<le> t * (1 - a)" using Cons.prems(1) a by simp
  then have "\<forall>w\<in>set (map2 (\<lambda>t a. t * a) (transmittances (t * (1 - a)) as) as). 0 \<le> w"
    using Cons.IH as by blast
  moreover have "0 \<le> t * a" using Cons.prems(1) a by simp
  ultimately show ?case by simp
qed

lemma weighted_sum_range:
  assumes "\<forall>w\<in>set ws. 0 \<le> w" "\<forall>c\<in>set cs. \<forall>x\<in>set c. 0 \<le> x \<and> x \<le> 1"
  shows "\<forall>x\<in>set (weighted_sum ws cs). 0 \<le> x \<and> x \<le> sum_list ws"
  using assms
proof (induction ws cs rule: weighted_sum.induct)
  case (1 w ws c cs)
  have ih: "\<forall>x\<in>set (weighted_sum ws cs). 0 \<le> x \<and> x \<le> sum_list ws" using 1 by simp
  have w: "0 \<le> w" using 1 by simp
  show ?case
  proof
    fix y assume "y \<in> set (weighted_sum (w # ws) (c # cs))"
    then obtain x acc where xa: "(x, acc) \<in> set (zip c (weighted_sum ws cs))" and y: "y = w * x + acc"
      by auto
    then have "x \<in> set c" "acc \<in> set (weighted_sum ws cs)" by (auto dest: set_zip_leftD set_zip_rightD)
    then have "0 \<le> x" "x \<le> 1" "0 \<le> acc" "acc \<le> sum_list ws" using 1(3) ih by auto
    moreover have "w * x \<le> w" using w \<open>x \<le> 1\<close> by (simp add: mult_left_le)
    moreover have "0 \<le> w * x" using w \<open>0 \<le> x\<close> by simp
    ultimately show "0 \<le> y \<and> y \<le> sum_list (w # ws)" unfolding y by simp
  qed
qed (auto intro: add_nonneg_nonneg sum_list_nonneg)


text \<open>
  Claim C6, as amended. For a ray whose colours lie in \<open>[0, 1]\<close>, whose densities are not
  negative and whose depths do not decrease (the last interval being given a length that
  is not negative), the compositing weights are not negative and sum to a value in
  \<open>[0, 1]\<close>, the accumulated opacity lies in \<open>[0, 1]\<close>, and so does every component of the
  composite colour, with and without the white background.
\<close>

theorem render_ray_ranges:
  assumes "\<forall>c\<in>set rgb. \<forall>x\<in>set c. 0 \<le> x \<and> x \<le> 1"
    and "\<forall>s\<in>set sigma. 0 \<le> s"
    and "sorted depths"
    and "0 \<le> last_interval c"
  shows "case render_ray c rgb sigma depths direction white_background of
           (color, disp, acc, weights) \<Rightarrow>
             (\<forall>w\<in>set weights. 0 \<le> w)
             \<and> 0 \<le> sum_list weights \<and> sum_list weights \<le> 1
             \<and> 0 \<le> acc \<and> acc \<le> 1
             \<and> (\<forall>x\<in>set color. 0 \<le> x \<and> x \<le> 1)"
proof -
  let ?alpha = "opacities c sigma depths direction"
  let ?w = "compositing_weights c sigma depths direction"
  have alpha: "\<forall>a\<in>set ?alpha. 0 \<le> a \<and> a \<le> 1"
    using opacities_range[OF assms(2,3,4)] .
  have w_def: "?w = map2 (\<lambda>t a. t * a) (transmittances 1 ?alpha) ?alpha"
    by (simp add: compositing_weights_def Let_def)
  have nonneg: "\<forall>w\<in>set ?w. 0 \<le> w"
    unfolding w_def using weights_nonneg[of 1 ?alpha] alpha by simp
  have "\<forall>x\<in>set (map (\<lambda>a. 1 - a) ?alpha). 0 \<le> x \<and> x \<le> 1" using alpha by auto
  then have prod: "0 \<le> prod_list (map (\<lambda>a. 1 - a) ?alpha)" "prod_list (map (\<lambda>a. 1 - a) ?alpha) \<le> 1"
    using prod_unit_range by blast+
  have sum_eq: "sum_list ?w = 1 - prod_list (map (\<lambda>a. 1 - a) ?alpha)"
    unfolding w_def using weights_sum[of 1 ?alpha] by simp
  have sum: "0 \<le> sum_list ?w" "sum_list ?w \<le> 1" using prod sum_eq by simp_all
  have ws: "\<forall>x\<in>set (weighted_sum ?w rgb). 0 \<le> x \<and> x \<le> sum_list ?w"
    using weighted_sum_range[OF nonneg assms(1)] .
  have color: "\<forall>x\<in>set (composite_color ?w rgb white_background). 0 \<le> x \<and> x \<le> 1"
  proof (cases white_background)
    case True
    have "0 \<le> x + (1 - sum_list ?w) \<and> x + (1 - sum_list ?w) \<le> 1"
      if "x \<in> set (weighted_sum ?w rgb)" for x
      using ws sum that by fastforce
    then show ?thesis using True by (simp add: composite_color_def Let_def)
  next
    case False
    have "0 \<le> x \<and> x \<le> 1" if "x \<in> set (weighted_sum ?w rgb)" for x
      using ws sum that by fastforce
    then show ?thesis using False by (simp add: composite_color_def Let_def)
  qed
  show ?thesis using nonneg sum color by (simp add: render_ray_def Let_def)
qed

text \<open>The theorem on two samples at depths 2 and 4, white background.\<close>

theorem render_ray_ranges_witness:
  "list_all (list_all (\<lambda>x. 0 \<le> x \<and> x \<le> 1)) [[1, 0, 0], [0, 1 / 2, 1 :: real]]
   \<and> list_all (\<lambda>s. 0 \<le> s) [1, 2 :: real]
   \<and> sorted [2, 4 :: real]
   \<and> 0 \<le> last_interval example_consts
   \<and> (case render_ray example_consts [[1, 0, 0], [0, 1 / 2, 1]] [1, 2] [2, 4] [0, 0, 1] True of
         (color, disp, acc, weights) \<Rightarrow>
           list_all (\<lambda>w. 0 \<le> w) weights
           \<and> 0 \<le> sum_list weights \<and> sum_list weights \<le> 1
           \<and> 0 \<le> acc \<and> acc \<le> 1
           \<and> list_all (\<lambda>x. 0 \<le> x \<and> x \<le> 1) color)"
proof -
  have h: "\<forall>c\<in>set [[1, 0, 0], [0, 1 / 2, 1 :: real]]. \<forall>x\<in>set c. 0 \<le> x \<and> x \<le> 1"
    "\<forall>s\<in>set [1, 2 :: real]. 0 \<le> s" "sorted [2, 4 :: real]" "0 \<le> last_interval example_consts"
    by (simp_all add: example_consts_def)
  show ?thesis
    using h render_ray_ranges[OF h, of "[0, 0, 1]" True]
    by (simp add: list_all_iff split: prod.splits)
qed

text \<open>
  Claim C6 as it is written fails where the depths decrease, as those the sampler gives
  for \<open>near = 1\<close> and \<open>far = 0\<close> do: the first interval has a negative length, and with it the
  first weight is negative, though colours and densities are in range.
\<close>

theorem render_ray_unsorted_counterexample:
  "list_all (list_all (\<lambda>x. 0 \<le> x \<and> x \<le> 1)) [[0, 0, 0], [0, 0, 0 :: real]]
   \<and> list_all (\<lambda>s. 0 \<le> s) [1, 1 :: real]
   \<and> ray_depths 2 1 0 False False [] = Some [3 / 4, 1 / 4]
   \<and> (case render_ray example_consts [[0, 0, 0], [0, 0, 0]] [1, 1] [3 / 4, 1 / 4] [0, 0, 1] False of
         (color, disp, acc, weights) \<Rightarrow> hd weights < 0)"
  by (simp add: ray_depths_def bin_positions_def bin_offsets_def numeral_2_eq_2 upt_rec depth_at_def
      render_ray_def compositing_weights_def opacities_def norm_last_def example_consts_def Let_def)

section \<open>Properties of \<open>NerfModel.apply\<close>\<close>

lemma apply_length:
  "length (NerfModel_apply mu rng_0 rng_1 rays a) = (if num_fine_samples a > 0 then 2 else 1)"
  by (simp add: NerfModel_apply_def Let_def split: prod.splits)

lemma coarse_pass_ignores_fine_count:
  "coarse_pass mu rng_0 rays (a\<lparr>num_fine_samples := n\<rparr>) = coarse_pass mu rng_0 rays a"
  by (simp add: coarse_pass_def coarse_mlp_kwargs_def Let_def split: prod.splits)

lemma apply_first:
  "take 1 (NerfModel_apply mu rng_0 rng_1 rays a)
     = NerfModel_apply mu rng_0 rng_1' rays (a\<lparr>num_fine_samples := 0\<rparr>)"
  by (simp add: NerfModel_apply_def Let_def coarse_pass_ignores_fine_count split: prod.splits)

lemma apply_unfold:
  "NerfModel_apply mu rng_0 rng_1 rays a =
     (case coarse_pass mu rng_0 rays a of
        (rays', viewdirs_enc, z_vals, weights, coarse) \<Rightarrow>
          if num_fine_samples a > 0
          then [coarse, fine_pass mu rng_1 rays' viewdirs_enc z_vals weights a]
          else [coarse])"
  by (simp add: NerfModel_apply_def Let_def split: prod.splits)

lemma loss_primary:
  "\<exists>total st. loss_fn compute_psnr (\<lambda>k0 k1 r. NerfModel_apply mu k0 k1 r a) rng_0 rng_1 rays pixels
        = Inr (total, st)
     \<and> loss (hd st) = mean (squared_error (fst (last (NerfModel_apply mu rng_0 rng_1 rays a))) pixels)"
  by (simp add: loss_fn_def Let_def apply_length split: prod.splits)

text \<open>
  Claim C1, as amended. Every call of \<open>NerfModel.apply\<close> returns a list that holds the result
  of the coarse pass first, and the result of the fine pass after it exactly when
  \<open>num_fine_samples > 0\<close>: the list has length 2 then, and length 1 when
  \<open>num_fine_samples \<le> 0\<close>. The first element is what the call returns alone when the fine
  pass is switched off, whatever the second key. The last element is the one whose colour
  \<open>loss_fn\<close> takes for the first entry of its statistics.
\<close>

theorem apply_returns_coarse_then_fine:
  "NerfModel_apply mu rng_0 rng_1 rays a =
     (case coarse_pass mu rng_0 rays a of
        (rays', viewdirs_enc, z_vals, weights, coarse) \<Rightarrow>
          if num_fine_samples a > 0
          then [coarse, fine_pass mu rng_1 rays' viewdirs_enc z_vals weights a]
          else [coarse])
   \<and> length (NerfModel_apply mu rng_0 rng_1 rays a) = (if num_fine_samples a > 0 then 2 else 1)
   \<and> take 1 (NerfModel_apply mu rng_0 rng_1 rays a)
       = NerfModel_apply mu rng_0 rng_1' rays (a\<lparr>num_fine_samples := 0\<rparr>)
   \<and> (\<exists>total st.
         loss_fn compute_psnr (\<lambda>k0 k1 r. NerfModel_apply mu k0 k1 r a) rng_0 rng_1 rays pixels
           = Inr (total, st)
         \<and> loss (hd st)
             = mean (squared_error (fst (last (NerfModel_apply mu rng_0 rng_1 rays a))) pixels))"
  by (intro conjI apply_unfold apply_length apply_first loss_primary)

text \<open>The theorem on the example: one fine sample, so two results.\<close>

theorem apply_returns_coarse_then_fine_witness:
  "length (NerfModel_apply example_utils 0 1 example_rays example_args) = 2
   \<and> take 1 (NerfModel_apply example_utils 0 1 example_rays example_args)
       = NerfModel_apply example_utils 0 7 example_rays (example_args\<lparr>num_fine_samples := 0\<rparr>)"
proof -
  have n: "num_fine_samples example_args = 1"
    by (simp add: example_args_def example_hparams_def hparams.defs)
  note t = apply_returns_coarse_then_fine[of example_utils 0 1 example_rays example_args 7
      "\<lambda>x. x" "[]"]
  show ?thesis
    using t[THEN conjunct2, THEN conjunct1] t[THEN conjunct2, THEN conjunct2, THEN conjunct1] n
    by simp
qed

text \<open>
  Claim C1 as it is written fails for a negative \<open>num_fine_samples\<close>: it is not zero, and the
  list has length 1, not 2.
\<close>

theorem apply_negative_fine_count_counterexample:
  "num_fine_samples (example_args\<lparr>num_fine_samples := - 1\<rparr>) \<noteq> 0
   \<and> length (NerfModel_apply example_utils 0 1 example_rays
               (example_args\<lparr>num_fine_samples := - 1\<rparr>)) = 1"
  by (simp add: apply_length)

text \<open>
  Claim C2 fails on the code. The coarse call of \<open>MLP\<close> passes the eight configured
  architecture keywords and the fine call passes none, so the fine network is built with
  the defaults of \<open>MLP\<close>. Whatever the other helpers and the configuration, with a network
  that reports its depth and a renderer that hands the colours on, the coarse result shows
  the configured \<open>net_depth\<close> and the fine result the default depth; with \<open>net_depth = 4\<close>
  configured and the default 8, they are 4 and 8.
\<close>

theorem fine_pass_drops_architecture:
  "NerfModel_apply
     (mu\<lparr>MLP := depth_reporting_MLP default_depth, volumetric_rendering := echo_rgb_rendering\<rparr>)
     rng_0 rng_1 rays a
   = ([[rgb_activation a (real_of_int (net_depth a))]], [], []) #
     (if num_fine_samples a > 0
      then [([[rgb_activation a (real_of_int default_depth)]], [], [])] else [])
   \<and> net_depth example_args = 4 \<and> num_fine_samples example_args = 1
   \<and> NerfModel_apply
        (example_utils\<lparr>MLP := depth_reporting_MLP 8, volumetric_rendering := echo_rgb_rendering\<rparr>)
        0 1 example_rays (example_args\<lparr>rgb_activation := (\<lambda>x. x)\<rparr>)
       = [([[4]], [], []), ([[8]], [], [])]"
  by (simp add: NerfModel_apply_def coarse_pass_def fine_pass_def Let_def case_prod_beta
      depth_reporting_MLP_def echo_rgb_rendering_def coarse_mlp_kwargs_def fine_mlp_kwargs_def
      act3_def example_args_def example_hparams_def hparams.defs nerf_kwargs.defs)

lemma apply_shows_resampler_arguments:
  "NerfModel_apply
     (mu\<lparr>sample_along_rays := const_sampler z0,
         volumetric_rendering := echo_depths_rendering w0,
         sample_pdf := echo_resampler\<rparr>)
     rng_0 rng_1 rays_in a
   = (z0, [], []) #
     (if num_fine_samples a > 0
      then [(z_vals_mid z0 @ map slice_interior w0 @ z0, [], [])] else [])"
  by (simp add: NerfModel_apply_def coarse_pass_def fine_pass_def Let_def case_prod_beta
      const_sampler_def echo_depths_rendering_def echo_resampler_def)

lemma apply_shows_renderer_direction:
  "NerfModel_apply (mu\<lparr>volumetric_rendering := echo_dirs_rendering\<rparr>) rng_0 rng_1 rays_in a
   = (map (slice 3 6) (snd (extract_viewdirs rays_in)), [], []) #
     (if num_fine_samples a > 0
      then [(map (slice 3 6) (snd (extract_viewdirs rays_in)), [], [])] else [])"
  by (simp add: NerfModel_apply_def coarse_pass_def fine_pass_def Let_def case_prod_beta
      echo_dirs_rendering_def)

lemma apply_shows_sampler_rays:
  "hd (NerfModel_apply
         (mu\<lparr>sample_along_rays := echo_rays_sampler,
             volumetric_rendering := echo_depths_rendering w0\<rparr>)
         rng_0 rng_1 rays_in a)
   = (snd (extract_viewdirs rays_in), [], [])"
  by (simp add: NerfModel_apply_def coarse_pass_def fine_pass_def Let_def case_prod_beta
      echo_rays_sampler_def echo_depths_rendering_def)

lemma apply_shows_view_argument:
  "NerfModel_apply (mu\<lparr>MLP := echo_view_MLP, volumetric_rendering := echo_rgb_rendering\<rparr>)
      rng_0 rng_1 rays_in a
   = (let shown = (if use_viewdirs a
                   then map (map (rgb_activation a)) (encoded_viewdirs mu rays_in a) else [])
      in (shown, [], []) # (if num_fine_samples a > 0 then [(shown, [], [])] else []))"
  by (simp add: NerfModel_apply_def coarse_pass_def fine_pass_def Let_def case_prod_beta
      echo_view_MLP_def echo_rgb_rendering_def encoded_viewdirs_def act3_def)

lemma coarse_pass_rays: "fst (coarse_pass mu rng_0 rays_in a) = snd (extract_viewdirs rays_in)"
  by (simp add: coarse_pass_def Let_def case_prod_beta)

lemma z_vals_mid_alt:
  "z_vals_mid z_vals = map (\<lambda>z. map (\<lambda>i. 0.5 * (z ! i + z ! Suc i)) [0..<length z - 1]) z_vals"
proof -
  have "map2 (\<lambda>hi lo. 0.5 * (hi + lo)) (drop 1 z) (slice_drop_last 1 z)
      = map (\<lambda>i. 0.5 * (z ! i + z ! Suc i)) [0..<length z - 1]" for z :: "real list"
    by (rule nth_equalityI) (auto simp: slice_drop_last_def)
  then show ?thesis by (simp add: z_vals_mid_def)
qed

lemma slice_interior_alt:
  "slice_interior w = map (\<lambda>i. w ! Suc i) [0..<length w - 2]"
  by (rule nth_equalityI) (auto simp: slice_interior_def slice_drop_last_def)

lemma coarse_pass_sample_pdf_irrelevant:
  "coarse_pass (mu\<lparr>sample_pdf := sp\<rparr>) rng_0 rays a = coarse_pass mu rng_0 rays a"
  by (simp add: coarse_pass_def Let_def case_prod_beta)

lemma apply_depends_on_sample_pdf_at_midpoints:
  assumes "sp (fst (random_split mu rng_1))
              (z_vals_mid (fst (snd (snd (coarse_pass mu rng_0 rays_in a)))))
              (map slice_interior (fst (snd (snd (snd (coarse_pass mu rng_0 rays_in a))))))
              (fst (coarse_pass mu rng_0 rays_in a))
              (fst (snd (snd (coarse_pass mu rng_0 rays_in a))))
              (num_fine_samples a) (randomized a)
         = sample_pdf mu (fst (random_split mu rng_1))
              (z_vals_mid (fst (snd (snd (coarse_pass mu rng_0 rays_in a)))))
              (map slice_interior (fst (snd (snd (snd (coarse_pass mu rng_0 rays_in a))))))
              (fst (coarse_pass mu rng_0 rays_in a))
              (fst (snd (snd (coarse_pass mu rng_0 rays_in a))))
              (num_fine_samples a) (randomized a)"
  shows "NerfModel_apply (mu\<lparr>sample_pdf := sp\<rparr>) rng_0 rng_1 rays_in a
       = NerfModel_apply mu rng_0 rng_1 rays_in a"
  using assms
  by (simp add: NerfModel_apply_def coarse_pass_sample_pdf_irrelevant fine_pass_def Let_def
      case_prod_beta)

lemma sample_pdf_spec_merge:
  "fst (sample_pdf_spec padding uniform key bins weights rays z_vals n rnd)
     = map2 (\<lambda>z new. sort (z @ new)) z_vals
         (map (\<lambda>(b, w, d). importance_depths padding b w (nat n) rnd d)
            (zip bins (zip weights
               (if rnd then uniform key (length rays) (nat n) else replicate (length rays) []))))"
  by (simp add: sample_pdf_spec_def Let_def)

lemma sample_pdf_spec_sorted:
  "list_all sorted (fst (sample_pdf_spec padding uniform key bins weights rays z_vals n rnd))"
  by (auto simp: sample_pdf_spec_merge list_all_iff)

lemma apply_shows_resampler_call:
  "NerfModel_apply
     (mu\<lparr>sample_along_rays := const_sampler z0,
         volumetric_rendering := echo_depths_rendering w0,
         sample_pdf := rs\<rparr>)
     rng_0 rng_1 rays_in a
   = (z0, [], []) #
     (if num_fine_samples a > 0
      then [(fst (rs (fst (random_split mu rng_1)) (z_vals_mid z0) (map slice_interior w0)
                    (snd (extract_viewdirs rays_in)) z0 (num_fine_samples a) (randomized a)),
             [], [])]
      else [])"
  by (simp add: NerfModel_apply_def coarse_pass_def fine_pass_def Let_def case_prod_beta
      const_sampler_def echo_depths_rendering_def)

lemma apply_merges_with_spec_resampler:
  assumes "num_fine_samples a > 0"
  shows "fst (last (NerfModel_apply
             (mu\<lparr>sample_along_rays := const_sampler z0,
                 volumetric_rendering := echo_depths_rendering w0,
                 sample_pdf := sample_pdf_spec padding uniform\<rparr>)
             rng_0 rng_1 rays_in a))
    = map2 (\<lambda>z new. sort (z @ new)) z0
        (map (\<lambda>(b, w, d). importance_depths padding b w (nat (num_fine_samples a)) (randomized a) d)
           (zip (z_vals_mid z0) (zip (map slice_interior w0)
              (if randomized a
               then uniform (fst (random_split mu rng_1)) (length (snd (extract_viewdirs rays_in)))
                      (nat (num_fine_samples a))
               else replicate (length (snd (extract_viewdirs rays_in))) []))))"
  using assms by (simp add: apply_shows_resampler_call sample_pdf_spec_merge)

lemma apply_sorted_with_spec_resampler:
  assumes "num_fine_samples a > 0"
  shows "list_all sorted (fst (last (NerfModel_apply
             (mu\<lparr>sample_along_rays := const_sampler z0,
                 volumetric_rendering := echo_depths_rendering w0,
                 sample_pdf := sample_pdf_spec padding uniform\<rparr>)
             rng_0 rng_1 rays_in a)))"
  using assms by (simp add: apply_shows_resampler_call sample_pdf_spec_sorted)

text \<open>
  Claim C4. Whenever the fine pass runs, \<open>NerfModel.apply\<close> calls the resampler once, with
  the first half of the split of \<open>rng_1\<close>, the midpoints of the coarse depths as bins, the
  coarse weights without the first and the last of every ray, the rays without view
  directions, the coarse depths, \<open>num_fine_samples\<close> and \<open>randomized\<close>, and the depths that
  the resampler returns are the depths of the fine pass. This is stated for every
  resampler \<open>rs\<close>: with a sampler that returns the depths \<open>z0\<close> and a renderer that returns
  its depths as colours and the weights \<open>w0\<close>, whatever the other helpers, the fine result
  is the first component of \<open>rs\<close> at exactly these arguments. The midpoints are
  \<open>0.5 * (z ! i + z ! (i + 1))\<close> for every \<open>i\<close> with a successor; the interior weights are
  \<open>w ! 1\<close> to \<open>w ! (length w - 2)\<close>. With the resampler of the specification in that place,
  the fine depths of each ray are its coarse depths and the depths drawn from its midpoints
  and interior weights, merged and sorted. The result of \<open>NerfModel.apply\<close> depends on the
  resampler only through its value at these arguments: a resampler that agrees with
  \<open>sample_pdf\<close> there gives the same result. A resampler that returns its arguments shows
  them one after the other.
\<close>

theorem fine_pass_resampler_arguments:
  assumes "sp (fst (random_split mu rng_1))
              (z_vals_mid (coarse_z_vals mu rng_0 rays_in a))
              (map slice_interior (coarse_weights mu rng_0 rays_in a))
              (snd (extract_viewdirs rays_in))
              (coarse_z_vals mu rng_0 rays_in a)
              (num_fine_samples a) (randomized a)
         = sample_pdf mu (fst (random_split mu rng_1))
              (z_vals_mid (coarse_z_vals mu rng_0 rays_in a))
              (map slice_interior (coarse_weights mu rng_0 rays_in a))
              (snd (extract_viewdirs rays_in))
              (coarse_z_vals mu rng_0 rays_in a)
              (num_fine_samples a) (randomized a)"
  shows "NerfModel_apply (mu\<lparr>sample_pdf := sp\<rparr>) rng_0 rng_1 rays_in a
           = NerfModel_apply mu rng_0 rng_1 rays_in a
       \<and> z_vals_mid z_vals
           = map (\<lambda>z. map (\<lambda>i. 0.5 * (z ! i + z ! Suc i)) [0..<length z - 1]) z_vals
       \<and> slice_interior w = map (\<lambda>i. w ! Suc i) [0..<length w - 2]
       \<and> NerfModel_apply
             (mu\<lparr>sample_along_rays := const_sampler z0,
                 volumetric_rendering := echo_depths_rendering w0,
                 sample_pdf := rs\<rparr>)
             rng_0 rng_1 rays_in a
           = (z0, [], []) #
             (if num_fine_samples a > 0
              then [(fst (rs (fst (random_split mu rng_1)) (z_vals_mid z0) (map slice_interior w0)
                            (snd (extract_viewdirs rays_in)) z0 (num_fine_samples a)
                            (randomized a)),
                     [], [])]
              else [])
       \<and> (num_fine_samples a > 0 \<longrightarrow>
            fst (last (NerfModel_apply
                   (mu\<lparr>sample_along_rays := const_sampler z0,
                       volumetric_rendering := echo_depths_rendering w0,
                       sample_pdf := sample_pdf_spec padding uniform\<rparr>)
                   rng_0 rng_1 rays_in a))
              = map2 (\<lambda>z new. sort (z @ new)) z0
                  (map (\<lambda>(b, w, d).
                          importance_depths padding b w (nat (num_fine_samples a)) (randomized a) d)
                     (zip (z_vals_mid z0) (zip (map slice_interior w0)
                        (if randomized a
                         then uniform (fst (random_split mu rng_1))
                                (length (snd (extract_viewdirs rays_in))) (nat (num_fine_samples a))
                         else replicate (length (snd (extract_viewdirs rays_in))) []))))
            \<and> list_all sorted (fst (last (NerfModel_apply
                   (mu\<lparr>sample_along_rays := const_sampler z0,
                       volumetric_rendering := echo_depths_rendering w0,
                       sample_pdf := sample_pdf_spec padding uniform\<rparr>)
                   rng_0 rng_1 rays_in a))))
       \<and> NerfModel_apply
             (mu\<lparr>sample_along_rays := const_sampler z0,
                 volumetric_rendering := echo_depths_rendering w0,
                 sample_pdf := echo_resampler\<rparr>)
             rng_0 rng_1 rays_in a
           = (z0, [], []) #
             (if num_fine_samples a > 0
              then [(z_vals_mid z0 @ map slice_interior w0 @ z0, [], [])] else [])"
proof (intro conjI impI)
  show "NerfModel_apply (mu\<lparr>sample_pdf := sp\<rparr>) rng_0 rng_1 rays_in a
      = NerfModel_apply mu rng_0 rng_1 rays_in a"
    using assms
    by (intro apply_depends_on_sample_pdf_at_midpoints)
       (simp add: coarse_z_vals_def coarse_weights_def coarse_pass_rays)
qed (rule z_vals_mid_alt slice_interior_alt apply_shows_resampler_call
      apply_merges_with_spec_resampler apply_sorted_with_spec_resampler
      apply_shows_resampler_arguments | assumption)+

lemma example_fine_count: "num_fine_samples example_args = 1"
  by (simp add: example_args_def example_hparams_def hparams.defs)

lemma example_not_randomized: "\<not> randomized example_args"
  by (simp add: example_args_def example_hparams_def hparams.defs)

lemma example_merge:
  "map2 (\<lambda>z new. sort (z @ new)) [[2, 4, 6]]
     (map (\<lambda>(b, w, d). importance_depths (1 / 10 ^ 5) b w (nat 1) False d)
        (zip (z_vals_mid [[2, 4, 6]]) (zip (map slice_interior [[1, 2, 3]])
           (replicate (length (snd (extract_viewdirs example_rays))) []))))
   = [[2, 4, 4, 6 :: real]]"
  by (simp add: z_vals_mid_def slice_interior_def slice_drop_last_def extract_viewdirs_def
      example_rays_def shape_last_def importance_depths_def pmf_def cdf_def bin_positions_def
      bin_offsets_def)

text \<open>
  The theorem on the example: a resampler that answers only at the midpoints; coarse
  depths 2, 4, 6 with weights 1, 2, 3, whose one interior bin from 3 to 5 gives the new
  depth 4 at the quantile one half, merged into 2, 4, 4, 6.
\<close>

theorem fine_pass_resampler_arguments_witness:
  "example_sample_pdf (fst (random_split example_utils 1))
      (z_vals_mid (coarse_z_vals example_utils 0 example_rays example_args))
      (map slice_interior (coarse_weights example_utils 0 example_rays example_args))
      (snd (extract_viewdirs example_rays))
      (coarse_z_vals example_utils 0 example_rays example_args)
      (num_fine_samples example_args) (randomized example_args)
    = sample_pdf example_utils (fst (random_split example_utils 1))
      (z_vals_mid (coarse_z_vals example_utils 0 example_rays example_args))
      (map slice_interior (coarse_weights example_utils 0 example_rays example_args))
      (snd (extract_viewdirs example_rays))
      (coarse_z_vals example_utils 0 example_rays example_args)
      (num_fine_samples example_args) (randomized example_args)
   \<and> NerfModel_apply (example_utils\<lparr>sample_pdf := example_sample_pdf\<rparr>) 0 1 example_rays example_args
       = NerfModel_apply example_utils 0 1 example_rays example_args
   \<and> z_vals_mid [[2, 4, 6]] = [[3, 5]]
   \<and> slice_interior [1, 2, 3 :: real] = [2]
   \<and> num_fine_samples example_args > 0
   \<and> fst (last (NerfModel_apply
          (example_utils\<lparr>sample_along_rays := const_sampler [[2, 4, 6]],
                          volumetric_rendering := echo_depths_rendering [[1, 2, 3]],
                          sample_pdf := sample_pdf_spec (1 / 10 ^ 5) example_uniform\<rparr>)
          0 1 example_rays example_args))
       = [[2, 4, 4, 6]]
   \<and> NerfModel_apply
        (example_utils\<lparr>sample_along_rays := const_sampler [[2, 4, 6]],
                        volumetric_rendering := echo_depths_rendering [[1, 2, 3]],
                        sample_pdf := echo_resampler\<rparr>)
        0 1 example_rays example_args
       = [([[2, 4, 6]], [], []), ([[3, 5], [2], [2, 4, 6]], [], [])]"
proof -
  have h: "example_sample_pdf (fst (random_split example_utils 1))
      (z_vals_mid (coarse_z_vals example_utils 0 example_rays example_args))
      (map slice_interior (coarse_weights example_utils 0 example_rays example_args))
      (snd (extract_viewdirs example_rays))
      (coarse_z_vals example_utils 0 example_rays example_args)
      (num_fine_samples example_args) (randomized example_args)
    = sample_pdf example_utils (fst (random_split example_utils 1))
      (z_vals_mid (coarse_z_vals example_utils 0 example_rays example_args))
      (map slice_interior (coarse_weights example_utils 0 example_rays example_args))
      (snd (extract_viewdirs example_rays))
      (coarse_z_vals example_utils 0 example_rays example_args)
      (num_fine_samples example_args) (randomized example_args)"
    by (simp add: example_sample_pdf_def)
  note t = fine_pass_resampler_arguments[of example_sample_pdf example_utils 1 0 example_rays
        example_args "[[2, 4, 6]]" "[1, 2, 3 :: real]" _ "[[1, 2, 3]]" "[[2, 4, 6]]"
        "1 / 10 ^ 5" example_uniform, OF h]
  have upt: "[0..<2] = [0, Suc 0]" by (simp add: upt_rec)
  note n = example_fine_count
  have a: "NerfModel_apply (example_utils\<lparr>sample_pdf := example_sample_pdf\<rparr>) 0 1 example_rays
        example_args = NerfModel_apply example_utils 0 1 example_rays example_args"
    using t by (rule conjunct1)
  have b: "z_vals_mid [[2, 4, 6]] = [[3, 5]]"
    using t[THEN conjunct2, THEN conjunct1] by (simp add: upt)
  have c: "slice_interior [1, 2, 3 :: real] = [2]"
    using t[THEN conjunct2, THEN conjunct2, THEN conjunct1] by simp
  have d: "fst (last (NerfModel_apply
          (example_utils\<lparr>sample_along_rays := const_sampler [[2, 4, 6]],
                          volumetric_rendering := echo_depths_rendering [[1, 2, 3]],
                          sample_pdf := sample_pdf_spec (1 / 10 ^ 5) example_uniform\<rparr>)
          0 1 example_rays example_args))
       = [[2, 4, 4, 6]]"
    using t[THEN conjunct2, THEN conjunct2, THEN conjunct2, THEN conjunct2, THEN conjunct1]
      example_merge
    by (simp add: n example_not_randomized)
  have e: "NerfModel_apply
        (example_utils\<lparr>sample_along_rays := const_sampler [[2, 4, 6]],
                        volumetric_rendering := echo_depths_rendering [[1, 2, 3]],
                        sample_pdf := echo_resampler\<rparr>)
        0 1 example_rays example_args
       = [([[2, 4, 6]], [], []), ([[3, 5], [2], [2, 4, 6]], [], [])]"
    using t[THEN conjunct2, THEN conjunct2, THEN conjunct2, THEN conjunct2, THEN conjunct2] n b c
    by simp
  show ?thesis using h a b c d e n by simp
qed

lemma apply_helper_arguments:
  assumes sa: "\<And>key n nr fr rnd ld.
        sa key (snd (extract_viewdirs rays_in)) n nr fr rnd ld
          = sample_along_rays mu key (snd (extract_viewdirs rays_in)) n nr fr rnd ld"
    and mlp: "\<And>s kw.
        mlp s (if use_viewdirs a then Some (encoded_viewdirs mu rays_in a) else None) kw
          = MLP mu s (if use_viewdirs a then Some (encoded_viewdirs mu rays_in a) else None) kw"
    and vr: "\<And>rgb sigma z w.
        vr rgb sigma z (map (slice 3 6) (snd (extract_viewdirs rays_in))) w
          = volumetric_rendering mu rgb sigma z (map (slice 3 6) (snd (extract_viewdirs rays_in))) w"
  shows "NerfModel_apply (mu\<lparr>sample_along_rays := sa, MLP := mlp, volumetric_rendering := vr\<rparr>)
           rng_0 rng_1 rays_in a
       = NerfModel_apply mu rng_0 rng_1 rays_in a"
proof (cases "use_viewdirs a")
  case True
  then have m: "\<And>s kw. mlp s (Some (encoded_viewdirs mu rays_in a)) kw
      = MLP mu s (Some (encoded_viewdirs mu rays_in a)) kw"
    using mlp by simp
  show ?thesis
    using True
    by (simp add: NerfModel_apply_def coarse_pass_def fine_pass_def Let_def case_prod_beta
        sa vr m[unfolded encoded_viewdirs_def])
next
  case False
  then have m: "\<And>s kw. mlp s None kw = MLP mu s None kw" using mlp by simp
  show ?thesis
    using False
    by (simp add: NerfModel_apply_def coarse_pass_def fine_pass_def Let_def case_prod_beta
        sa vr m)
qed

lemma extract_viewdirs_wide:
  "shape_last rays > 6 \<Longrightarrow>
     extract_viewdirs rays = (map (slice_last 3) rays, map (slice_drop_last 3) rays)"
  by (simp add: extract_viewdirs_def)

lemma apply_view_direction_only_in_MLP:
  assumes "shape_last r1 > 6" "shape_last r2 > 6"
    and "map (slice_drop_last 3) r1 = map (slice_drop_last 3) r2"
    and "\<And>s v v' kw. MLP mu s v kw = MLP mu s v' kw"
  shows "NerfModel_apply mu rng_0 rng_1 r1 a = NerfModel_apply mu rng_0 rng_1 r2 a"
proof -
  have m: "\<And>s v kw. MLP mu s (Some v) kw = MLP mu s None kw" using assms(4) by blast
  have c: "fst (snd (snd (coarse_pass mu rng_0 r1 a))) = fst (snd (snd (coarse_pass mu rng_0 r2 a)))"
    "fst (coarse_pass mu rng_0 r1 a) = fst (coarse_pass mu rng_0 r2 a)"
    "snd (snd (snd (coarse_pass mu rng_0 r1 a))) = snd (snd (snd (coarse_pass mu rng_0 r2 a)))"
    using assms(3)
    by (simp_all add: coarse_pass_def Let_def case_prod_beta extract_viewdirs_wide[OF assms(1)]
        extract_viewdirs_wide[OF assms(2)] m)
  have f: "fine_pass mu rng_1 R v z w a = fine_pass mu rng_1 R v' z w a" for R v v' z w
    by (simp add: fine_pass_def Let_def case_prod_beta m)
  show ?thesis
    unfolding NerfModel_apply_def
    using c f[of _ "fst (snd (coarse_pass mu rng_0 r1 a))" _ _ "fst (snd (coarse_pass mu rng_0 r2 a))"]
    by (simp add: Let_def case_prod_beta)
qed

lemma slice_parts:
  "slice_drop_last 3 r @ slice_last 3 r = r"
  by (simp add: slice_drop_last_def slice_last_def)

lemma norm_last_three: "norm_last [x, y, z] = sqrt (x * x + y * y + z * z)"
  by (simp add: norm_last_def)

lemma sum_list_squares_nonneg: "0 \<le> (\<Sum>x\<leftarrow>v. x * x)" for v :: "real list"
  by (induction v) auto

lemma sum_list_squares_pos:
  fixes v :: "real list"
  assumes "\<exists>x\<in>set v. x \<noteq> 0"
  shows "0 < (\<Sum>x\<leftarrow>v. x * x)"
  using assms
proof (induction v)
  case Nil
  then show ?case by simp
next
  case (Cons a v)
  have n: "0 \<le> (\<Sum>x\<leftarrow>v. x * x)" by (rule sum_list_squares_nonneg)
  show ?case
  proof (cases "a = 0")
    case True
    then show ?thesis using Cons by simp
  next
    case False
    then have "0 < a * a" by (auto simp: zero_less_mult_iff)
    then show ?thesis using n by simp
  qed
qed

lemma sum_list_scaled_squares:
  "(\<Sum>x\<leftarrow>map (\<lambda>x. x / s) v. x * x) = (\<Sum>x\<leftarrow>v. x * x) / (s * s)" for v :: "real list"
  by (induction v) (simp_all add: add_divide_distrib)

lemma normalized_unit_length:
  assumes "\<exists>x\<in>set v. x \<noteq> 0"
  shows "(\<Sum>x\<leftarrow>map (\<lambda>x. x / sqrt (\<Sum>y\<leftarrow>v. y * y)) v. x * x) = 1"
proof -
  have p: "0 < (\<Sum>x\<leftarrow>v. x * x)" using assms by (rule sum_list_squares_pos)
  have s: "sqrt (\<Sum>y\<leftarrow>v. y * y) * sqrt (\<Sum>y\<leftarrow>v. y * y) = (\<Sum>y\<leftarrow>v. y * y)"
    using p by simp
  have "(\<Sum>x\<leftarrow>map (\<lambda>x. x / sqrt (\<Sum>y\<leftarrow>v. y * y)) v. x * x)
      = (\<Sum>x\<leftarrow>v. x * x) / (\<Sum>y\<leftarrow>v. y * y)"
    by (simp only: sum_list_scaled_squares s)
  then show ?thesis using p by simp
qed

lemma apply_shows_unit_view_directions:
  "NerfModel_apply
     (mu\<lparr>posenc := (\<lambda>p deg. p), MLP := echo_view_MLP, volumetric_rendering := echo_rgb_rendering\<rparr>)
     rng_0 rng_1 rays_in (a\<lparr>use_viewdirs := True, rgb_activation := (\<lambda>x. x)\<rparr>)
   = (let shown = map (\<lambda>v. map (\<lambda>x. x / sqrt (\<Sum>y\<leftarrow>v. y * y)) v)
                    (fst (extract_viewdirs rays_in))
      in (shown, [], []) # (if num_fine_samples a > 0 then [(shown, [], [])] else []))"
  by (simp add: NerfModel_apply_def coarse_pass_def fine_pass_def Let_def case_prod_beta
      echo_view_MLP_def echo_rgb_rendering_def act3_def normalize_rows_def norm_last_def)

text \<open>
  Claim C5. A ray batch wider than six is split into its last three components, the view
  directions, and the rest; otherwise components 3 to 5 are the view directions and the
  rays are unchanged. The sampler is called on the rays without view directions; the
  network is called with the view directions, normalised and then encoded, exactly when
  \<open>use_viewdirs\<close> holds, and without them otherwise; the renderer is called with components
  3 to 5 of the rays without view directions, not normalised. The result depends on the
  three helpers only through their values at these arguments. With a network that ignores
  the view directions, two wide batches that differ only in their view directions give
  the same result: the view directions reach nothing but the network. That the calls are
  made with these arguments shows with helpers that return their arguments: a sampler
  that returns its rays, a network that returns its view directions, a renderer that
  returns its directions.

  Normalised means divided by the Euclidean length, the square root of the sum of the
  squares of the components: with the identity for the encoding and for the colour
  activation, a network that returns the view directions it is called with shows every
  view direction divided by that length, and such a direction has length one whenever the
  view direction is not the zero vector.
\<close>

theorem view_direction_handling:
  assumes "\<And>key n nr fr rnd ld.
        sa key (snd (extract_viewdirs rays_in)) n nr fr rnd ld
          = sample_along_rays mu key (snd (extract_viewdirs rays_in)) n nr fr rnd ld"
    and "\<And>s kw.
        mlp s (if use_viewdirs a then Some (encoded_viewdirs mu rays_in a) else None) kw
          = MLP mu s (if use_viewdirs a then Some (encoded_viewdirs mu rays_in a) else None) kw"
    and "\<And>rgb sigma z w.
        vr rgb sigma z (map (slice 3 6) (snd (extract_viewdirs rays_in))) w
          = volumetric_rendering mu rgb sigma z (map (slice 3 6) (snd (extract_viewdirs rays_in))) w"
    and "shape_last r1 > 6" and "shape_last r2 > 6"
    and "map (slice_drop_last 3) r1 = map (slice_drop_last 3) r2"
    and "\<And>s v v' kw. MLP mu' s v kw = MLP mu' s v' kw"
  shows "(shape_last rays_in > 6 \<longrightarrow>
            extract_viewdirs rays_in = (map (slice_last 3) rays_in, map (slice_drop_last 3) rays_in))
       \<and> (\<not> shape_last rays_in > 6 \<longrightarrow>
            extract_viewdirs rays_in = (map (slice 3 6) rays_in, rays_in))
       \<and> slice_last 3 [o1, o2, o3, d1, d2, d3, v1, v2, v3] = [v1, v2, v3]
       \<and> slice_drop_last 3 [o1, o2, o3, d1, d2, d3, v1, v2, v3] = [o1, o2, o3, d1, d2, d3]
       \<and> slice 3 6 [o1, o2, o3, d1, d2, d3] = [d1, d2, d3]
       \<and> encoded_viewdirs mu rays_in a
           = map (\<lambda>v. posenc mu v (deg_view a))
               (map (\<lambda>r. map (\<lambda>x. x / norm_last r) r) (fst (extract_viewdirs rays_in)))
       \<and> NerfModel_apply (mu\<lparr>sample_along_rays := sa, MLP := mlp, volumetric_rendering := vr\<rparr>)
             rng_0 rng_1 rays_in a
           = NerfModel_apply mu rng_0 rng_1 rays_in a
       \<and> NerfModel_apply mu' rng_0' rng_1' r1 a' = NerfModel_apply mu' rng_0' rng_1' r2 a'
       \<and> hd (NerfModel_apply
                (mu\<lparr>sample_along_rays := echo_rays_sampler,
                    volumetric_rendering := echo_depths_rendering w0\<rparr>)
                rng_0 rng_1 rays_in a)
           = (snd (extract_viewdirs rays_in), [], [])
       \<and> NerfModel_apply (mu\<lparr>MLP := echo_view_MLP, volumetric_rendering := echo_rgb_rendering\<rparr>)
             rng_0 rng_1 rays_in a
           = (let shown = (if use_viewdirs a
                           then map (map (rgb_activation a)) (encoded_viewdirs mu rays_in a)
                           else [])
              in (shown, [], []) # (if num_fine_samples a > 0 then [(shown, [], [])] else []))
       \<and> NerfModel_apply (mu\<lparr>volumetric_rendering := echo_dirs_rendering\<rparr>) rng_0 rng_1 rays_in a
           = (map (slice 3 6) (snd (extract_viewdirs rays_in)), [], []) #
             (if num_fine_samples a > 0
              then [(map (slice 3 6) (snd (extract_viewdirs rays_in)), [], [])] else [])
       \<and> norm_last [x, y, z] = sqrt (x * x + y * y + z * z)
       \<and> NerfModel_apply
             (mu\<lparr>posenc := (\<lambda>p deg. p), MLP := echo_view_MLP,
                 volumetric_rendering := echo_rgb_rendering\<rparr>)
             rng_0 rng_1 rays_in (a\<lparr>use_viewdirs := True, rgb_activation := (\<lambda>x. x)\<rparr>)
           = (let shown = map (\<lambda>v. map (\<lambda>x. x / sqrt (\<Sum>y\<leftarrow>v. y * y)) v)
                            (fst (extract_viewdirs rays_in))
              in (shown, [], []) # (if num_fine_samples a > 0 then [(shown, [], [])] else []))
       \<and> (\<forall>v\<in>set (fst (extract_viewdirs rays_in)).
             (\<exists>x\<in>set v. x \<noteq> 0) \<longrightarrow>
             (\<Sum>x\<leftarrow>map (\<lambda>x. x / sqrt (\<Sum>y\<leftarrow>v. y * y)) v. x * x) = 1)"
proof (intro conjI)
  show "hd (NerfModel_apply
           (mu\<lparr>sample_along_rays := echo_rays_sampler,
               volumetric_rendering := echo_depths_rendering w0\<rparr>)
           rng_0 rng_1 rays_in a)
      = (snd (extract_viewdirs rays_in), [], [])"
    by (rule apply_shows_sampler_rays)
  show "NerfModel_apply (mu\<lparr>MLP := echo_view_MLP, volumetric_rendering := echo_rgb_rendering\<rparr>)
        rng_0 rng_1 rays_in a
      = (let shown = (if use_viewdirs a
                      then map (map (rgb_activation a)) (encoded_viewdirs mu rays_in a)
                      else [])
         in (shown, [], []) # (if num_fine_samples a > 0 then [(shown, [], [])] else []))"
    by (rule apply_shows_view_argument)
  show "NerfModel_apply (mu\<lparr>volumetric_rendering := echo_dirs_rendering\<rparr>) rng_0 rng_1 rays_in a
      = (map (slice 3 6) (snd (extract_viewdirs rays_in)), [], []) #
        (if num_fine_samples a > 0
         then [(map (slice 3 6) (snd (extract_viewdirs rays_in)), [], [])] else [])"
    by (rule apply_shows_renderer_direction)
  show "NerfModel_apply (mu\<lparr>sample_along_rays := sa, MLP := mlp, volumetric_rendering := vr\<rparr>)
      rng_0 rng_1 rays_in a = NerfModel_apply mu rng_0 rng_1 rays_in a"
    using assms(1,2,3) by (rule apply_helper_arguments)
  show "NerfModel_apply mu' rng_0' rng_1' r1 a' = NerfModel_apply mu' rng_0' rng_1' r2 a'"
    using assms(4,5,6,7) by (rule apply_view_direction_only_in_MLP)
  show "norm_last [x, y, z] = sqrt (x * x + y * y + z * z)"
    by (rule norm_last_three)
  show "NerfModel_apply
        (mu\<lparr>posenc := (\<lambda>p deg. p), MLP := echo_view_MLP,
            volumetric_rendering := echo_rgb_rendering\<rparr>)
        rng_0 rng_1 rays_in (a\<lparr>use_viewdirs := True, rgb_activation := (\<lambda>x. x)\<rparr>)
      = (let shown = map (\<lambda>v. map (\<lambda>x. x / sqrt (\<Sum>y\<leftarrow>v. y * y)) v)
                       (fst (extract_viewdirs rays_in))
         in (shown, [], []) # (if num_fine_samples a > 0 then [(shown, [], [])] else []))"
    by (rule apply_shows_unit_view_directions)
  show "\<forall>v\<in>set (fst (extract_viewdirs rays_in)).
      (\<exists>x\<in>set v. x \<noteq> 0) \<longrightarrow>
      (\<Sum>x\<leftarrow>map (\<lambda>x. x / sqrt (\<Sum>y\<leftarrow>v. y * y)) v. x * x) = 1"
    using normalized_unit_length by blast
qed (simp_all add: extract_viewdirs_def slice_last_def slice_drop_last_def slice_def
      encoded_viewdirs_def normalize_rows_def)

lemma example_rays9_extract:
  "extract_viewdirs example_rays9 = ([[0, 3, 4]], [[0, 0, 0, 0, 0, 1]])"
  by (simp add: extract_viewdirs_def example_rays9_def shape_last_def slice_last_def
      slice_drop_last_def)

lemma sqrt_25: "sqrt 25 = 5"
  by (rule real_sqrt_unique) simp_all

text \<open>
  The theorem on a ray of width nine whose view direction \<open>(0, 3, 4)\<close> has length 5, with
  helpers that answer only at the arguments named, and with a network that returns the
  view directions: it shows \<open>(0, 3/5, 4/5)\<close>.
\<close>

theorem view_direction_handling_witness:
  "(\<forall>key n nr fr rnd ld.
      example_sample_along_rays key (snd (extract_viewdirs example_rays9)) n nr fr rnd ld
        = sample_along_rays example_utils key (snd (extract_viewdirs example_rays9)) n nr fr rnd ld)
   \<and> (\<forall>s kw.
      example_guarded_MLP s (Some (encoded_viewdirs example_utils example_rays9 example_args)) kw
        = MLP example_utils s (Some (encoded_viewdirs example_utils example_rays9 example_args)) kw)
   \<and> (\<forall>rgb sigma z w.
      example_rendering rgb sigma z (map (slice 3 6) (snd (extract_viewdirs example_rays9))) w
        = volumetric_rendering example_utils rgb sigma z
            (map (slice 3 6) (snd (extract_viewdirs example_rays9))) w)
   \<and> shape_last example_rays9 > 6 \<and> shape_last [[0, 0, 0, 0, 0, 1, 1, 0, 0 :: real]] > 6
   \<and> map (slice_drop_last 3) example_rays9
       = map (slice_drop_last 3) [[0, 0, 0, 0, 0, 1, 1, 0, 0 :: real]]
   \<and> (\<forall>s v v' kw. MLP example_utils s v kw = MLP example_utils s v' kw)
   \<and> use_viewdirs example_args
   \<and> extract_viewdirs example_rays9 = ([[0, 3, 4]], [[0, 0, 0, 0, 0, 1]])
   \<and> NerfModel_apply
        (example_utils\<lparr>sample_along_rays := example_sample_along_rays,
                        MLP := example_guarded_MLP,
                        volumetric_rendering := example_rendering\<rparr>)
        0 1 example_rays9 example_args
       = NerfModel_apply example_utils 0 1 example_rays9 example_args
   \<and> NerfModel_apply example_utils 0 1 example_rays9 example_args
       = NerfModel_apply example_utils 0 1 [[0, 0, 0, 0, 0, 1, 1, 0, 0]] example_args
   \<and> NerfModel_apply (example_utils\<lparr>volumetric_rendering := echo_dirs_rendering\<rparr>)
        0 1 example_rays9 example_args
       = [([[0, 0, 1]], [], []), ([[0, 0, 1]], [], [])]
   \<and> norm_last [0, 3, 4] = 5
   \<and> NerfModel_apply
        (example_utils\<lparr>posenc := (\<lambda>p deg. p), MLP := echo_view_MLP,
                        volumetric_rendering := echo_rgb_rendering\<rparr>)
        0 1 example_rays9 (example_args\<lparr>use_viewdirs := True, rgb_activation := (\<lambda>x. x)\<rparr>)
       = [([[0, 3 / 5, 4 / 5]], [], []), ([[0, 3 / 5, 4 / 5]], [], [])]
   \<and> (\<Sum>x\<leftarrow>[0, 3 / 5, 4 / 5 :: real]. x * x) = 1"
proof -
  have u: "use_viewdirs example_args"
    by (simp add: example_args_def example_hparams_def hparams.defs)
  have h1: "example_sample_along_rays key (snd (extract_viewdirs example_rays9)) n nr fr rnd ld
      = sample_along_rays example_utils key (snd (extract_viewdirs example_rays9)) n nr fr rnd ld"
    for key n nr fr rnd ld
    by (simp add: example_rays9_extract example_sample_along_rays_def)
  have h2: "example_guarded_MLP s
        (if use_viewdirs example_args
         then Some (encoded_viewdirs example_utils example_rays9 example_args) else None) kw
      = MLP example_utils s
        (if use_viewdirs example_args
         then Some (encoded_viewdirs example_utils example_rays9 example_args) else None) kw"
    for s kw
    by (simp add: u example_guarded_MLP_def)
  have h3: "example_rendering rgb sigma z (map (slice 3 6) (snd (extract_viewdirs example_rays9))) w
      = volumetric_rendering example_utils rgb sigma z
          (map (slice 3 6) (snd (extract_viewdirs example_rays9))) w"
    for rgb sigma z w
    by (simp add: example_rays9_extract example_rendering_def slice_def)
  have h4: "shape_last example_rays9 > 6" "shape_last [[0, 0, 0, 0, 0, 1, 1, 0, 0 :: real]] > 6"
    by (simp_all add: example_rays9_def shape_last_def)
  have h6: "map (slice_drop_last 3) example_rays9
      = map (slice_drop_last 3) [[0, 0, 0, 0, 0, 1, 1, 0, 0 :: real]]"
    by (simp add: example_rays9_def slice_drop_last_def)
  have h7: "MLP example_utils s v kw = MLP example_utils s v' kw" for s v v' kw
    by (simp add: example_utils_def example_MLP_def)
  note t = view_direction_handling[of example_sample_along_rays example_rays9 example_utils
      example_guarded_MLP example_args example_rendering example_rays9
      "[[0, 0, 0, 0, 0, 1, 1, 0, 0]]" example_utils, OF h1 h2 h3 h4 h6 h7]
  note t10 = t[THEN conjunct2, THEN conjunct2, THEN conjunct2, THEN conjunct2, THEN conjunct2,
          THEN conjunct2, THEN conjunct2, THEN conjunct2, THEN conjunct2, THEN conjunct2]
  have a: "NerfModel_apply
        (example_utils\<lparr>sample_along_rays := example_sample_along_rays,
                        MLP := example_guarded_MLP,
                        volumetric_rendering := example_rendering\<rparr>)
        0 1 example_rays9 example_args
       = NerfModel_apply example_utils 0 1 example_rays9 example_args"
    by (rule t[THEN conjunct2, THEN conjunct2, THEN conjunct2, THEN conjunct2, THEN conjunct2,
          THEN conjunct2, THEN conjunct1])
  have b: "NerfModel_apply example_utils 0 1 example_rays9 example_args
       = NerfModel_apply example_utils 0 1 [[0, 0, 0, 0, 0, 1, 1, 0, 0]] example_args"
    by (rule t[THEN conjunct2, THEN conjunct2, THEN conjunct2, THEN conjunct2, THEN conjunct2,
          THEN conjunct2, THEN conjunct2, THEN conjunct1])
  have n: "num_fine_samples example_args = 1"
    by (simp add: example_args_def example_hparams_def hparams.defs)
  have c: "NerfModel_apply (example_utils\<lparr>volumetric_rendering := echo_dirs_rendering\<rparr>)
        0 1 example_rays9 example_args
       = [([[0, 0, 1]], [], []), ([[0, 0, 1]], [], [])]"
    using t10[THEN conjunct1, of 0 1] n
    by (simp add: example_rays9_extract slice_def)
  have d: "norm_last [0, 3, 4] = 5"
    using t10[THEN conjunct2, THEN conjunct1, of 0 3 4] by (simp add: sqrt_25)
  have e: "NerfModel_apply
        (example_utils\<lparr>posenc := (\<lambda>p deg. p), MLP := echo_view_MLP,
                        volumetric_rendering := echo_rgb_rendering\<rparr>)
        0 1 example_rays9 (example_args\<lparr>use_viewdirs := True, rgb_activation := (\<lambda>x. x)\<rparr>)
       = [([[0, 3 / 5, 4 / 5]], [], []), ([[0, 3 / 5, 4 / 5]], [], [])]"
    using t10[THEN conjunct2, THEN conjunct2, THEN conjunct1, of 0 1] n
    by (simp add: example_rays9_extract sqrt_25 Let_def)
  have f: "(\<Sum>x\<leftarrow>[0, 3 / 5, 4 / 5 :: real]. x * x) = 1"
    using t10[THEN conjunct2, THEN conjunct2, THEN conjunct2]
    by (simp add: example_rays9_extract sqrt_25)
  show ?thesis
    using h1 h2 h3 h4 h6 h7 u example_rays9_extract a b c d e f by simp
qed

lemma coarse_pass_deterministic:
  assumes "\<not> randomized a"
    and S: "\<And>k k' r n nr fr ld.
        sample_along_rays mu k r n nr fr False ld = sample_along_rays mu k' r n nr fr False ld"
    and N: "\<And>k x s. add_gaussian_noise mu k x s False = x"
  shows "coarse_pass mu rng_0 rays a = coarse_pass mu rng_0' rays (a\<lparr>noise_std := s\<rparr>)"
proof -
  let ?R = "snd (extract_viewdirs rays)"
  have "sample_along_rays mu (fst (random_split mu rng_0)) ?R (num_coarse_samples a) (near a) (far a)
          False (lindisp a)
      = sample_along_rays mu (fst (random_split mu rng_0')) ?R (num_coarse_samples a) (near a) (far a)
          False (lindisp a)"
    by (rule S)
  then show ?thesis
    using assms(1) by (simp add: coarse_pass_def Let_def case_prod_beta N coarse_mlp_kwargs_def)
qed

lemma fine_pass_deterministic:
  assumes "\<not> randomized a"
    and P: "\<And>k k' b w r z n. sample_pdf mu k b w r z n False = sample_pdf mu k' b w r z n False"
    and N: "\<And>k x s. add_gaussian_noise mu k x s False = x"
  shows "fine_pass mu rng_1 rays venc z w a = fine_pass mu rng_1' rays venc z w (a\<lparr>noise_std := s\<rparr>)"
proof -
  have "sample_pdf mu (fst (random_split mu rng_1)) (z_vals_mid z) (map slice_interior w) rays z
          (num_fine_samples a) False
      = sample_pdf mu (fst (random_split mu rng_1')) (z_vals_mid z) (map slice_interior w) rays z
          (num_fine_samples a) False"
    by (rule P)
  then show ?thesis
    using assms(1) by (simp add: fine_pass_def Let_def case_prod_beta N fine_mlp_kwargs_def)
qed

lemma apply_deterministic:
  assumes "\<not> randomized a"
    and S: "\<And>k k' r n nr fr ld.
        sample_along_rays mu k r n nr fr False ld = sample_along_rays mu k' r n nr fr False ld"
    and P: "\<And>k k' b w r z n. sample_pdf mu k b w r z n False = sample_pdf mu k' b w r z n False"
    and N: "\<And>k x s. add_gaussian_noise mu k x s False = x"
  shows "NerfModel_apply mu rng_0 rng_1 rays a
       = NerfModel_apply mu rng_0' rng_1' rays (a\<lparr>noise_std := s\<rparr>)"
proof -
  have r: "\<not> randomized (a\<lparr>noise_std := s\<rparr>)" using assms(1) by simp
  have c: "coarse_pass mu rng_0 rays a = coarse_pass mu rng_0' rays (a\<lparr>noise_std := s\<rparr>)"
    using coarse_pass_deterministic[OF assms(1) S N] .
  have f: "fine_pass mu rng_1 R venc z w a = fine_pass mu rng_1' R venc z w (a\<lparr>noise_std := s\<rparr>)"
    for R venc z w
    using fine_pass_deterministic[OF assms(1) P N] .
  show ?thesis
    unfolding NerfModel_apply_def c[symmetric]
    by (simp add: Let_def case_prod_beta f)
qed

lemma add_gaussian_noise_spec_identity:
  "add_gaussian_noise_spec normal key raw std_dev False = raw"
  by (simp add: add_gaussian_noise_spec_def)

lemma sample_along_rays_spec_deterministic:
  "sample_along_rays_spec uniform key rays n nr fr False ld
     = sample_along_rays_spec uniform key' rays n nr fr False ld"
  by (simp add: sample_along_rays_spec_def)

lemma sample_pdf_spec_deterministic:
  "sample_pdf_spec padding uniform key b w r z n False
     = sample_pdf_spec padding uniform key' b w r z n False"
  by (simp add: sample_pdf_spec_def)

text \<open>
  Claim C9. When \<open>randomized\<close> is false, the result of \<open>NerfModel.apply\<close> is the same for all
  keys and all values of \<open>noise_std\<close>, for helpers that keep to what the specification says
  of them: sampler and resampler do not read their key, and the noise is the identity, when
  not randomized. The three helpers as modelled from the specification do keep to it; in
  particular the noise regulariser returns the raw densities for every standard deviation.
\<close>

theorem apply_deterministic_when_not_randomized:
  assumes "\<not> randomized a"
    and "\<And>k k' r n nr fr ld.
        sample_along_rays mu k r n nr fr False ld = sample_along_rays mu k' r n nr fr False ld"
    and "\<And>k k' b w r z n. sample_pdf mu k b w r z n False = sample_pdf mu k' b w r z n False"
    and "\<And>k x s. add_gaussian_noise mu k x s False = x"
  shows "NerfModel_apply mu rng_0 rng_1 rays a
           = NerfModel_apply mu rng_0' rng_1' rays (a\<lparr>noise_std := std\<rparr>)
       \<and> add_gaussian_noise_spec normal key raw std_dev False = raw
       \<and> sample_along_rays_spec uniform key rays' num_samples near' far' False lindisp'
           = sample_along_rays_spec uniform key' rays' num_samples near' far' False lindisp'
       \<and> sample_pdf_spec padding uniform key bins weights rays' z_vals num_samples False
           = sample_pdf_spec padding uniform key' bins weights rays' z_vals num_samples False"
proof (intro conjI)
  show "NerfModel_apply mu rng_0 rng_1 rays a
      = NerfModel_apply mu rng_0' rng_1' rays (a\<lparr>noise_std := std\<rparr>)"
    using assms by (rule apply_deterministic)
qed (rule add_gaussian_noise_spec_identity sample_along_rays_spec_deterministic
      sample_pdf_spec_deterministic)+

theorem apply_deterministic_when_not_randomized_witness:
  "\<not> randomized example_args
   \<and> (\<forall>k k' r n nr fr ld.
         sample_along_rays example_utils k r n nr fr False ld
           = sample_along_rays example_utils k' r n nr fr False ld)
   \<and> (\<forall>k k' b w r z n.
         sample_pdf example_utils k b w r z n False = sample_pdf example_utils k' b w r z n False)
   \<and> (\<forall>k x s. add_gaussian_noise example_utils k x s False = x)
   \<and> NerfModel_apply example_utils 0 1 example_rays example_args
       = NerfModel_apply example_utils 5 7 example_rays (example_args\<lparr>noise_std := 1\<rparr>)
   \<and> add_gaussian_noise_spec example_normal 3 [[[1, 2]]] 5 False = [[[1, 2]]]"
proof -
  have r: "\<not> randomized example_args"
    by (simp add: example_args_def example_hparams_def hparams.defs)
  have s: "sample_along_rays example_utils k r n nr fr False ld
         = sample_along_rays example_utils k' r n nr fr False ld" for k k' r n nr fr ld
    using sample_along_rays_spec_deterministic[of example_uniform k r n nr fr ld k']
    by (simp add: example_utils_def)
  have p: "sample_pdf example_utils k b w r z n False = sample_pdf example_utils k' b w r z n False"
    for k k' b w r z n
    using sample_pdf_spec_deterministic[of "1 / 10 ^ 5" example_uniform k b w r z n k']
    by (simp add: example_utils_def)
  have n: "add_gaussian_noise example_utils k x s False = x" for k x s
    by (simp add: example_utils_def add_gaussian_noise_spec_def)
  show ?thesis
    using r s p n
      apply_deterministic_when_not_randomized[OF r s p n,
        of 0 1 example_rays 5 7 1 example_normal 3 "[[[1, 2]]]" 5]
    by simp
qed

section \<open>A ray with \<open>near\<close> equal to \<open>far\<close>\<close>

lemma disparity_checked_eq:
  assumes "0 < eps c"
  shows "disparity_checked c weights depths = Some (disparity c weights depths)"
proof -
  have "max (eps c) x \<noteq> 0" for x using assms by (simp add: max_def)
  then show ?thesis by (simp add: disparity_checked_def disparity_def checked_div_def)
qed

lemma render_ray_checked_eq:
  assumes "0 < eps c"
  shows "render_ray_checked c rgb sigma depths direction white
       = Some (render_ray c rgb sigma depths direction white)"
  by (simp add: render_ray_checked_def render_ray_def Let_def disparity_checked_eq[OF assms])

lemma interval_lengths_replicate:
  "interval_lengths l (replicate (Suc n) c) = replicate n 0 @ [l]"
  by (induction n) simp_all

lemma interval_lengths_length: "length (interval_lengths l ts) = length ts"
  by (induction l ts rule: interval_lengths.induct) simp_all

lemma transmittances_length: "length (transmittances t as) = length as"
  by (induction as arbitrary: t) simp_all

lemma equal_depths_weight_zero:
  assumes "i < length (compositing_weights k sigma (replicate n c) direction)" "Suc i < n"
  shows "compositing_weights k sigma (replicate n c) direction ! i = 0"
proof -
  obtain n' where n: "n = Suc n'" using assms(2) by (cases n) auto
  let ?il = "interval_lengths (last_interval k) (replicate n c)"
  let ?alpha = "opacities k sigma (replicate n c) direction"
  have il: "?il = replicate n' 0 @ [last_interval k]"
    unfolding n by (rule interval_lengths_replicate)
  have i: "i < length ?alpha"
    using assms(1) by (simp add: compositing_weights_def Let_def transmittances_length)
  then have bound: "i < length sigma" "i < length ?il" by (simp_all add: opacities_def)
  have "?il ! i = (replicate n' 0 @ [last_interval k]) ! i" by (simp only: il)
  then have "?il ! i = 0" using assms(2) n by (simp add: nth_append)
  then have "?alpha ! i = 0" using bound by (simp add: opacities_def)
  then show ?thesis
    using i by (simp add: compositing_weights_def Let_def transmittances_length)
qed

lemma equal_depths_interior_weights:
  "\<forall>x\<in>set (slice_interior (compositing_weights k sigma (replicate n c) direction)). x = 0"
proof -
  let ?w = "compositing_weights k sigma (replicate n c) direction"
  have len: "length ?w \<le> n"
    by (simp add: compositing_weights_def Let_def transmittances_length opacities_def
        interval_lengths_length)
  have "?w ! Suc i = 0" if "i < length ?w - 2" for i
    using that len by (intro equal_depths_weight_zero) auto
  then show ?thesis by (auto simp: slice_interior_alt)
qed

lemma sum_list_divide_const: "(\<Sum>x\<leftarrow>xs. x / s) = sum_list xs / s" for xs :: "real list"
  by (induction xs) (simp_all add: add_divide_distrib)

lemma padded_sum_pos:
  fixes padding :: real
  assumes "0 < padding" "\<forall>x\<in>set w. 0 \<le> x" "w \<noteq> []"
  shows "0 < sum_list (map (\<lambda>x. x + padding) w)"
  using assms
proof (induction w)
  case Nil then show ?case by simp
next
  case (Cons a w)
  have "0 \<le> sum_list (map (\<lambda>x. x + padding) w)"
    by (rule sum_list_nonneg) (use Cons.prems in auto)
  moreover have "0 < a + padding" using Cons.prems by simp
  ultimately show ?case by simp
qed

lemma pmf_checked_eq:
  assumes "0 < padding" "\<forall>x\<in>set w. 0 \<le> x"
  shows "pmf_checked padding w = Some (pmf padding w)"
proof (cases "w = []")
  case True
  then show ?thesis by (simp add: pmf_checked_def pmf_def)
next
  case False
  have "sum_list (map (\<lambda>x. x + padding) w) \<noteq> 0"
    using padded_sum_pos[OF assms False] by simp
  then show ?thesis
    unfolding pmf_checked_def pmf_def Let_def
    by (intro those_map_Some) (simp add: checked_div_def)
qed

lemma pmf_positive:
  assumes "0 < padding" "\<forall>x\<in>set w. 0 \<le> x"
  shows "\<forall>p\<in>set (pmf padding w). 0 < p"
proof (cases "w = []")
  case True then show ?thesis by (simp add: pmf_def)
next
  case False
  have s: "0 < sum_list (map (\<lambda>x. x + padding) w)" using padded_sum_pos[OF assms False] .
  show ?thesis using assms s by (auto simp: pmf_def Let_def)
qed

lemma pmf_sum:
  assumes "0 < padding" "\<forall>x\<in>set w. 0 \<le> x" "w \<noteq> []"
  shows "sum_list (pmf padding w) = 1"
proof -
  have s: "0 < sum_list (map (\<lambda>x. x + padding) w)" using padded_sum_pos[OF assms] .
  have "sum_list (pmf padding w)
      = sum_list (map (\<lambda>x. x + padding) w) / sum_list (map (\<lambda>x. x + padding) w)"
    unfolding pmf_def Let_def by (rule sum_list_divide_const)
  then show ?thesis using s by simp
qed

lemma running_sums_sorted:
  "\<forall>p\<in>set ps. 0 < p \<Longrightarrow> sorted_wrt (<) (acc # running_sums acc ps)"
proof (induction ps arbitrary: acc)
  case Nil then show ?case by simp
next
  case (Cons p ps)
  have ih: "sorted_wrt (<) ((acc + p) # running_sums (acc + p) ps)"
    using Cons by simp
  have "acc < acc + p" using Cons.prems by simp
  then show ?case using ih by auto
qed

lemma running_sums_nonempty: "ps \<noteq> [] \<Longrightarrow> running_sums acc ps \<noteq> []"
  by (cases ps) simp_all

lemma running_sums_last:
  "ps \<noteq> [] \<Longrightarrow> last (running_sums acc ps) = acc + sum_list ps"
proof (induction ps arbitrary: acc)
  case Nil then show ?case by simp
next
  case (Cons p ps)
  show ?case
  proof (cases "ps = []")
    case True then show ?thesis by simp
  next
    case False
    then show ?thesis
      using Cons.IH[OF False, of "acc + p"] running_sums_nonempty[OF False, of "acc + p"]
      by (simp add: add.assoc)
  qed
qed

lemma cdf_increasing:
  assumes "\<forall>p\<in>set ps. 0 < p" "ps \<noteq> [] \<longrightarrow> sum_list ps = 1"
  shows "sorted_wrt (<) (cdf ps)"
proof (cases "ps = []")
  case True then show ?thesis by (simp add: cdf_def)
next
  case False
  have "butlast (running_sums 0 ps) @ [last (running_sums 0 ps)] = running_sums 0 ps"
    using running_sums_nonempty[OF False] by simp
  then have "butlast (running_sums 0 ps) @ [1] = running_sums 0 ps"
    using running_sums_last[OF False, of 0] assms(2) False by simp
  then have "cdf ps = 0 # running_sums 0 ps"
    using False by (cases ps) (simp_all add: cdf_def)
  then show ?thesis using running_sums_sorted[OF assms(1), of 0] by simp
qed

lemma invert_cdf_checked_equal_bins:
  "sorted_wrt (<) cs \<Longrightarrow> bins \<noteq> [] \<Longrightarrow> \<forall>b\<in>set bins. b = c \<Longrightarrow>
     invert_cdf_checked cs bins u = Some c"
  by (induction cs bins u rule: invert_cdf_checked.induct) (auto simp: checked_div_def)

lemma importance_depths_checked_equal_bins:
  assumes "0 < padding" "\<forall>x\<in>set w. 0 \<le> x" "bins \<noteq> []" "\<forall>b\<in>set bins. b = c"
    and "randomized' \<longrightarrow> length draws = m"
  shows "importance_depths_checked padding bins w m randomized' draws = Some (replicate m c)"
proof -
  let ?us = "bin_positions m (bin_offsets m randomized' draws)"
  have len: "length ?us = m" using assms(5) by (simp add: bin_positions_def bin_offsets_def)
  have "pmf padding w \<noteq> [] \<longrightarrow> sum_list (pmf padding w) = 1"
    using pmf_sum[OF assms(1,2)] by (cases "w = []") (simp_all add: pmf_def)
  then have inc: "sorted_wrt (<) (cdf (pmf padding w))"
    using pmf_positive[OF assms(1,2)] by (intro cdf_increasing)
  have "those (map (invert_cdf_checked (cdf (pmf padding w)) bins) ?us) = Some (map (\<lambda>u. c) ?us)"
    using invert_cdf_checked_equal_bins[OF inc assms(3,4)] by (intro those_map_Some) simp
  then show ?thesis
    using len
    by (simp add: importance_depths_checked_def pmf_checked_eq[OF assms(1,2)] map_replicate_const)
qed

lemma z_vals_mid_replicate:
  "z_vals_mid [replicate n c] = [replicate (n - 1) c]"
  by (auto simp: z_vals_mid_alt intro!: nth_equalityI)

lemma sort_replicate: "sort (replicate n c @ replicate m c) = replicate (n + m) (c :: real)"
  by (simp add: replicate_add[symmetric] sorted_sort_id sorted_replicate)


lemma invert_cdf_equal_bins:
  "bins \<noteq> [] \<Longrightarrow> \<forall>b\<in>set bins. b = c \<Longrightarrow> invert_cdf cs bins u = c"
  by (induction cs bins u rule: invert_cdf.induct) auto

lemma importance_depths_equal_bins:
  assumes "bins \<noteq> []" "\<forall>b\<in>set bins. b = c" "randomized' \<longrightarrow> length draws = m"
  shows "importance_depths padding bins w m randomized' draws = replicate m c"
proof -
  let ?us = "bin_positions m (bin_offsets m randomized' draws)"
  have len: "length ?us = m" using assms(3) by (simp add: bin_positions_def bin_offsets_def)
  have "map (invert_cdf (cdf (pmf padding w)) bins) ?us = map (\<lambda>u. c) ?us"
    using invert_cdf_equal_bins[OF assms(1,2)] by simp
  then show ?thesis using len by (simp add: importance_depths_def map_replicate_const)
qed

lemma apply_shows_sampler_call:
  "hd (NerfModel_apply
         (mu\<lparr>sample_along_rays := sa, volumetric_rendering := echo_depths_rendering w0\<rparr>)
         rng_0 rng_1 rays_in a)
   = (fst (sa (fst (random_split mu rng_0)) (snd (extract_viewdirs rays_in))
             (num_coarse_samples a) (near a) (far a) (randomized a) (lindisp a)),
      [], [])"
  by (simp add: NerfModel_apply_def coarse_pass_def Let_def case_prod_beta
      echo_depths_rendering_def)

lemma sample_pdf_spec_equal_depths:
  assumes "2 \<le> n" "randomized' \<longrightarrow> length draws_fine = m"
  shows "fst (sample_pdf_spec padding (\<lambda>key b j. replicate b draws_fine) key
                [replicate (n - 1) c] [w] [ray] [replicate n c] (int m) randomized')
       = [replicate (n + m) c]"
proof -
  have b: "replicate (n - 1) c \<noteq> []" "\<forall>b\<in>set (replicate (n - 1) c). b = c"
    using assms(1) by auto
  have r: "importance_depths padding (replicate (n - 1) c) w m randomized' draws_fine
      = replicate m c"
    using b assms(2) by (rule importance_depths_equal_bins)
  have f: "importance_depths padding (replicate (n - 1) c) w m False [] = replicate m c"
    using b by (rule importance_depths_equal_bins) simp
  show ?thesis
    using r f by (cases randomized') (simp_all add: sample_pdf_spec_def Let_def sort_replicate)
qed

lemma sample_along_rays_spec_equal_ends:
  assumes "use_disparity_spacing \<longrightarrow> c \<noteq> 0" "randomized' \<longrightarrow> length draws = n"
  shows "map_option fst
           (sample_along_rays_spec (\<lambda>key b j. replicate b draws) key [ray] (int n) c c
              randomized' use_disparity_spacing)
       = Some [replicate n c]"
proof -
  have r: "ray_depths n c c randomized' use_disparity_spacing draws = Some (replicate n c)"
    using assms by (rule ray_depths_equal_ends)
  have f: "\<not> randomized' \<Longrightarrow>
      ray_depths n c c randomized' use_disparity_spacing [] = Some (replicate n c)"
    using assms(1) by (intro ray_depths_equal_ends) simp_all
  show ?thesis
    using r f by (cases randomized') (simp_all add: sample_along_rays_spec_def Let_def)
qed

text \<open>
  Claim C8, as amended. With \<open>near = far = c\<close> the sampler divides by no zero and every
  depth is \<open>c\<close>: for every \<open>c\<close> when spacing is linear in depth, for every \<open>c\<close> other than
  zero when it is linear in disparity; one depth for each bin (when randomized, given one
  draw for each bin). Rendering these depths divides by no zero, whatever the colours and
  the densities, when \<open>\<epsilon>\<close> is positive: the checked renderer has the value of the
  renderer. The midpoints of the depths are all \<open>c\<close>; with at least two coarse samples and
  a positive floor, the resampler divides by no zero on these midpoints and the interior
  weights of the coarse rendering, and every new depth is \<open>c\<close>; merged and sorted with the
  coarse depths they are \<open>n + m\<close> times \<open>c\<close>, which is what \<open>sample_pdf\<close> returns, and
  rendering those divides by no zero either. \<open>NerfModel.apply\<close> hands \<open>near\<close> and \<open>far\<close> to the sampler as they are configured:
  for every sampler, with a renderer that returns its depths, the coarse result is the
  depths of the sampler at \<open>near a\<close> and \<open>far a\<close>.
\<close>

theorem near_eq_far_rendering:
  assumes "use_disparity_spacing \<longrightarrow> c \<noteq> 0"
    and "randomized' \<longrightarrow> length draws = n"
    and "randomized' \<longrightarrow> length draws_fine = m"
    and "0 < eps k" and "0 < padding"
  shows "ray_depths n c c randomized' use_disparity_spacing draws = Some (replicate n c)
       \<and> render_ray_checked k rgb sigma (replicate n c) direction white_background
           = Some (render_ray k rgb sigma (replicate n c) direction white_background)
       \<and> z_vals_mid [replicate n c] = [replicate (n - 1) c]
       \<and> (2 \<le> n \<longrightarrow>
            importance_depths_checked padding (replicate (n - 1) c)
                (slice_interior (compositing_weights k sigma (replicate n c) direction))
                m randomized' draws_fine
              = Some (replicate m c)
            \<and> importance_depths padding (replicate (n - 1) c)
                (slice_interior (compositing_weights k sigma (replicate n c) direction))
                m randomized' draws_fine
              = replicate m c
            \<and> fst (sample_pdf_spec padding (\<lambda>key b j. replicate b draws_fine) key
                     [replicate (n - 1) c]
                     [slice_interior (compositing_weights k sigma (replicate n c) direction)]
                     [ray] [replicate n c] (int m) randomized')
              = [replicate (n + m) c])
       \<and> sort (replicate n c @ replicate m c) = replicate (n + m) c
       \<and> render_ray_checked k rgb_fine sigma_fine (replicate (n + m) c) direction white_background
           = Some (render_ray k rgb_fine sigma_fine (replicate (n + m) c) direction
                     white_background)
       \<and> hd (NerfModel_apply
                (mu\<lparr>sample_along_rays := sa, volumetric_rendering := echo_depths_rendering w0\<rparr>)
                rng_0 rng_1 rays_in a)
           = (fst (sa (fst (random_split mu rng_0)) (snd (extract_viewdirs rays_in))
                     (num_coarse_samples a) (near a) (far a) (randomized a) (lindisp a)),
              [], [])
       \<and> map_option fst
             (sample_along_rays_spec (\<lambda>key b j. replicate b draws) key' [ray] (int n) c c
                randomized' use_disparity_spacing)
           = Some [replicate n c]"
proof (intro conjI impI)
  show "ray_depths n c c randomized' use_disparity_spacing draws = Some (replicate n c)"
    using assms(1,2) by (rule ray_depths_equal_ends)
  show "map_option fst
        (sample_along_rays_spec (\<lambda>key b j. replicate b draws) key' [ray] (int n) c c
           randomized' use_disparity_spacing)
      = Some [replicate n c]"
    using assms(1,2) by (rule sample_along_rays_spec_equal_ends)
  show "z_vals_mid [replicate n c] = [replicate (n - 1) c]"
    by (rule z_vals_mid_replicate)
  show "sort (replicate n c @ replicate m c) = replicate (n + m) c"
    by (rule sort_replicate)
next
  assume n: "2 \<le> n"
  let ?w = "slice_interior (compositing_weights k sigma (replicate n c) direction)"
  have w: "\<forall>x\<in>set ?w. 0 \<le> x" using equal_depths_interior_weights[of k sigma n c direction] by auto
  have b: "replicate (n - 1) c \<noteq> []" "\<forall>b\<in>set (replicate (n - 1) c). b = c" using n by auto
  show "importance_depths_checked padding (replicate (n - 1) c) ?w m randomized' draws_fine
      = Some (replicate m c)"
    using assms(5) w b assms(3) by (rule importance_depths_checked_equal_bins)
  show "importance_depths padding (replicate (n - 1) c) ?w m randomized' draws_fine
      = replicate m c"
    using b assms(3) by (rule importance_depths_equal_bins)
  show "fst (sample_pdf_spec padding (\<lambda>key b j. replicate b draws_fine) key
               [replicate (n - 1) c] [?w] [ray] [replicate n c] (int m) randomized')
      = [replicate (n + m) c]"
    using n assms(3) by (rule sample_pdf_spec_equal_depths)
qed (rule render_ray_checked_eq[OF assms(4)] apply_shows_sampler_call)+

text \<open>
  The theorem at \<open>near = far = 2\<close>: four jittered bins, linear in disparity, one new depth;
  and the coarse depths of \<open>NerfModel.apply\<close> on the example with \<open>near = far = 2\<close>.
\<close>

theorem near_eq_far_rendering_witness:
  "(2 :: real) \<noteq> 0 \<and> length [0, 1 / 4, 1 / 2, 3 / 4 :: real] = 4 \<and> length [1 / 2 :: real] = 1
   \<and> 0 < eps example_consts \<and> (0 :: real) < 1 / 10 ^ 5 \<and> (2 :: nat) \<le> 4
   \<and> ray_depths 4 2 2 True True [0, 1 / 4, 1 / 2, 3 / 4] = Some (replicate 4 2)
   \<and> render_ray_checked example_consts [[1, 1 / 2, 0], [1, 1 / 2, 0], [1, 1 / 2, 0], [1, 1 / 2, 0]]
        [1, 1, 1, 1] (replicate 4 2) [0, 0, 1] True
       = Some (render_ray example_consts [[1, 1 / 2, 0], [1, 1 / 2, 0], [1, 1 / 2, 0], [1, 1 / 2, 0]]
                 [1, 1, 1, 1] (replicate 4 2) [0, 0, 1] True)
   \<and> z_vals_mid [replicate 4 2] = [replicate 3 2]
   \<and> importance_depths_checked (1 / 10 ^ 5) (replicate 3 2)
        (slice_interior (compositing_weights example_consts [1, 1, 1, 1] (replicate 4 2) [0, 0, 1]))
        1 True [1 / 2]
       = Some [2]
   \<and> fst (sample_pdf_spec (1 / 10 ^ 5) (\<lambda>key b j. replicate b [1 / 2]) (0 :: nat)
            [replicate 3 2]
            [slice_interior (compositing_weights example_consts [1, 1, 1, 1] (replicate 4 2)
               [0, 0, 1])]
            [[0, 0, 0, 0, 0, 1]] [replicate 4 2] 1 True)
       = [replicate 5 2]
   \<and> sort (replicate 4 2 @ replicate 1 2) = replicate 5 (2 :: real)
   \<and> hd (NerfModel_apply
            (example_utils\<lparr>sample_along_rays := example_sample_along_rays,
                            volumetric_rendering := echo_depths_rendering [[0, 1]]\<rparr>)
            0 1 example_rays (example_args\<lparr>near := 2, far := 2\<rparr>))
       = ([[2, 2]], [], [])"
proof -
  have h: "True \<longrightarrow> (2 :: real) \<noteq> 0" "True \<longrightarrow> length [0, 1 / 4, 1 / 2, 3 / 4 :: real] = 4"
    "True \<longrightarrow> length [1 / 2 :: real] = 1" "0 < eps example_consts" "(0 :: real) < 1 / 10 ^ 5"
    by (simp_all add: example_consts_def)
  note t = near_eq_far_rendering[OF h,
      of "[[1, 1 / 2, 0], [1, 1 / 2, 0], [1, 1 / 2, 0], [1, 1 / 2, 0]]" "[1, 1, 1, 1]" "[0, 0, 1]"
        True "0 :: nat" "[0, 0, 0, 0, 0, 1]"]
  have a: "ray_depths 4 2 2 True True [0, 1 / 4, 1 / 2, 3 / 4] = Some (replicate 4 2)"
    by (rule t[THEN conjunct1])
  have b: "render_ray_checked example_consts [[1, 1 / 2, 0], [1, 1 / 2, 0], [1, 1 / 2, 0], [1, 1 / 2, 0]]
        [1, 1, 1, 1] (replicate 4 2) [0, 0, 1] True
       = Some (render_ray example_consts [[1, 1 / 2, 0], [1, 1 / 2, 0], [1, 1 / 2, 0], [1, 1 / 2, 0]]
                 [1, 1, 1, 1] (replicate 4 2) [0, 0, 1] True)"
    by (rule t[THEN conjunct2, THEN conjunct1])
  have c: "z_vals_mid [replicate 4 2] = [replicate 3 2]"
    using t[THEN conjunct2, THEN conjunct2, THEN conjunct1] by simp
  have d: "importance_depths_checked (1 / 10 ^ 5) (replicate 3 2)
        (slice_interior (compositing_weights example_consts [1, 1, 1, 1] (replicate 4 2) [0, 0, 1]))
        1 True [1 / 2]
       = Some [2]"
    using t[THEN conjunct2, THEN conjunct2, THEN conjunct2, THEN conjunct1] by simp
  have d': "fst (sample_pdf_spec (1 / 10 ^ 5) (\<lambda>key b j. replicate b [1 / 2]) (0 :: nat)
            [replicate 3 2]
            [slice_interior (compositing_weights example_consts [1, 1, 1, 1] (replicate 4 2)
               [0, 0, 1])]
            [[0, 0, 0, 0, 0, 1]] [replicate 4 2] 1 True)
       = [replicate 5 2]"
    using t[THEN conjunct2, THEN conjunct2, THEN conjunct2, THEN conjunct1] by simp
  have e: "sort (replicate 4 2 @ replicate 1 2) = replicate 5 (2 :: real)"
    using t[THEN conjunct2, THEN conjunct2, THEN conjunct2, THEN conjunct2, THEN conjunct1]
    by simp
  have s: "fst (example_sample_along_rays 0 [[0, 0, 0, 0, 0, 1]] 2 2 2 False False) = [[2, 2]]"
    using ray_depths_equal_ends[of False 2 False "[]" 2]
    by (simp add: example_sample_along_rays_def example_utils_def sample_along_rays_spec_def
        numeral_2_eq_2)
  have f: "hd (NerfModel_apply
            (example_utils\<lparr>sample_along_rays := example_sample_along_rays,
                            volumetric_rendering := echo_depths_rendering [[0, 1]]\<rparr>)
            0 1 example_rays (example_args\<lparr>near := 2, far := 2\<rparr>))
       = ([[2, 2]], [], [])"
    using t[THEN conjunct2, THEN conjunct2, THEN conjunct2, THEN conjunct2, THEN conjunct2,
        THEN conjunct2, THEN conjunct1, of "[[0, 1]]" example_sample_along_rays example_utils 0 1
        example_rays
        "example_args\<lparr>near := 2, far := 2\<rparr>"] s
    by (simp add: example_utils_def example_rays_def extract_viewdirs_def shape_last_def
        example_args_def example_hparams_def hparams.defs)
  show ?thesis using h a b c d d' e f by simp
qed

text \<open>
  Claim C8 as it is written fails at \<open>near = far = 0\<close> with spacing linear in disparity:
  \<open>1 / near\<close> divides by zero, and the sampler has no value. With one coarse sample at
  \<open>near = far = 2\<close> there is no midpoint, the resampler has no bin, and its new depth is
  0, not 2. The constants matter as well: with \<open>\<epsilon> = 0\<close> the disparity of a ray at
  \<open>near = far = 0\<close> divides by zero, and with a floor of 0 the interior weights of equal
  depths, which are zero, have no probability mass to divide by.
\<close>

theorem near_eq_far_counterexample:
  "ray_depths 1 0 0 True True [0] = None
   \<and> ray_depths 1 2 2 False False [] = Some [2]
   \<and> z_vals_mid [[2]] = [[]]
   \<and> importance_depths (1 / 10 ^ 5) [] (slice_interior [1]) 1 False [] = [0]
   \<and> importance_depths_checked (1 / 10 ^ 5) [] (slice_interior [1]) 1 False [] = Some [0]
   \<and> ray_depths 1 0 0 False False [] = Some [0]
   \<and> render_ray_checked \<lparr>eps = 0, last_interval = 1, disp_fallback = 0\<rparr> [[1, 1, 1]] [1] [0]
        [0, 0, 1] False = None
   \<and> importance_depths_checked 0 [2, 2] [0] 1 False [] = None"
proof -
  have a: "ray_depths 1 0 0 True True [0] = None \<and> ray_depths 1 2 2 False False [] = Some [2]
      \<and> ray_depths 1 0 0 False False [] = Some [0]"
    by (simp add: ray_depths_def bin_positions_def bin_offsets_def depth_at_def checked_div_def)
  have b: "z_vals_mid [[2]] = [[]]
      \<and> importance_depths (1 / 10 ^ 5) [] (slice_interior [1]) 1 False [] = [0]
      \<and> importance_depths_checked (1 / 10 ^ 5) [] (slice_interior [1]) 1 False [] = Some [0]"
    by (simp add: bin_positions_def bin_offsets_def z_vals_mid_def slice_drop_last_def
        slice_interior_def importance_depths_def importance_depths_checked_def pmf_def
        pmf_checked_def cdf_def)
  have c: "render_ray_checked \<lparr>eps = 0, last_interval = 1, disp_fallback = 0\<rparr> [[1, 1, 1]] [1] [0]
      [0, 0, 1] False = None"
    by (simp add: render_ray_checked_def disparity_checked_def compositing_weights_def
        opacities_def norm_last_def checked_div_def Let_def)
  have d: "importance_depths_checked 0 [2, 2] [0] 1 False [] = None"
    by (simp add: importance_depths_checked_def pmf_checked_def checked_div_def Let_def)
  show ?thesis using a b c d by simp
qed

section \<open>Properties of the factory\<close>

lemma linspace_length: "length (linspace a b n) = n"
  by (simp add: linspace_def)

lemma linspace_ends: "- 90 \<in> set (linspace (- 90) 90 1024) \<and> 90 \<in> set (linspace (- 90) 90 1024)"
proof -
  have "- 90 = - 90 + (90 - (- 90)) * real (0 :: nat) / real (1024 - 1 :: nat)" by simp
  moreover have "90 = - 90 + (90 - (- 90)) * real (1023 :: nat) / real (1024 - 1 :: nat)" by simp
  moreover have "(0 :: nat) \<in> set [0..<1024]" "(1023 :: nat) \<in> set [0..<1024]" by simp_all
  ultimately show ?thesis unfolding linspace_def set_map by blast
qed

lemma exp_quarter_lower: "41 / 32 \<le> exp (1 / 4 :: real)"
  using exp_lower_Taylor_quadratic[of "1 / 4 :: real"] by (simp add: power2_eq_square)

lemma exp_90_lower: "2 ^ 128 < exp (90 :: real)"
proof -
  have "(2 :: real) ^ 128 < (41 / 32) ^ 360" by (simp add: power_divide)
  also have "\<dots> \<le> exp (1 / 4 :: real) ^ 360"
    using exp_quarter_lower by (intro power_mono) simp_all
  also have "\<dots> = exp 90"
    using exp_of_nat_mult[of 360 "1 / 4 :: real"] by simp
  finally show ?thesis .
qed

lemma exp_minus_90_upper: "exp (- 90 :: real) < 1 / 2 ^ 128"
proof -
  have "exp (- 90 :: real) = 1 / exp 90" by (simp add: exp_minus inverse_eq_divide)
  also have "\<dots> < 1 / 2 ^ 128"
    using exp_90_lower by (intro divide_strict_left_mono) simp_all
  finally show ?thesis .
qed

lemma exp32_overflow: "exp32 90 = PosInf"
proof -
  have "float32_max < 2 ^ 128" by (simp add: float32_max_def)
  then have "float32_max < exp 90" using exp_90_lower by simp
  then show ?thesis by (simp add: exp32_def)
qed

lemma exp32_flush: "exp32 (- 90) = Finite 0"
proof -
  have "(1 :: real) / 2 ^ 128 < 1 / 2 ^ 126" by simp
  then have u: "exp (- 90) < float32_min_normal"
    using exp_minus_90_upper by (simp add: float32_min_normal_def)
  have a: "exp (- 90 :: real) < 1" by simp
  have b: "1 < float32_max" by (simp add: float32_max_def)
  have "\<not> float32_max < exp (- 90)" using a b by linarith
  then show ?thesis using u by (simp add: exp32_def)
qed

lemma exp32_not_nan: "exp32 x \<noteq> NaN" "NaN \<noteq> exp32 x"
  by (simp_all add: exp32_def)

lemma neg32_involution: "neg32 (neg32 v) = v"
  by (cases v) simp_all

lemma neg32_nan: "neg32 v = NaN \<longleftrightarrow> v = NaN" "NaN = neg32 v \<longleftrightarrow> v = NaN"
  by (cases v; simp)+

lemma probe_inputs_members:
  "Finite 0 \<in> set probe_inputs \<and> PosInf \<in> set probe_inputs \<and> NegInf \<in> set probe_inputs"
proof -
  let ?x = "map exp32 (linspace (- 90) 90 1024)"
  have z: "Finite 0 \<in> set ?x" using linspace_ends exp32_flush by (metis image_eqI set_map)
  have p: "PosInf \<in> set ?x" using linspace_ends exp32_overflow by (metis image_eqI set_map)
  have "neg32 PosInf \<in> set (map neg32 (rev ?x))" using p by (simp del: neg32.simps)
  then have n: "NegInf \<in> set (map neg32 (rev ?x))" by simp
  show ?thesis
    unfolding probe_inputs_def Let_def using z p n by (simp only: set_append Un_iff) blast
qed

lemma probe_inputs_not_nan: "NaN \<notin> set probe_inputs"
  by (auto simp: probe_inputs_def Let_def exp32_not_nan neg32_nan)

lemma probe_inputs_symmetric: "map neg32 (rev probe_inputs) = probe_inputs"
  by (simp add: probe_inputs_def Let_def rev_map comp_def neg32_involution)

lemma sigmoid_range: "0 \<le> sigmoid x \<and> sigmoid x \<le> 1"
proof -
  have "0 < exp (- x)" by simp
  then show ?thesis by (simp add: sigmoid_def add_pos_pos less_imp_le)
qed

lemma relu_nonneg: "0 \<le> relu x"
  by (simp add: relu_def)

lemma sigmoid32_range: "\<not> less32 (sigmoid32 v) 0 \<and> \<not> greater32 (sigmoid32 v) 1"
  using sigmoid_range by (cases v) (simp_all add: not_less)

lemma relu32_nonneg: "\<not> less32 (relu32 v) 0"
  using relu_nonneg by (cases v) (simp_all add: not_less)

lemma sigmoid_passes: "\<not> rgb_out_of_range (map sigmoid32 x)"
  using sigmoid32_range by (simp add: rgb_out_of_range_def list_ex_iff)

lemma relu_passes: "\<not> sigma_negative (map relu32 x)"
  using relu32_nonneg by (simp add: sigma_negative_def list_ex_iff)

lemma nerf_raises_iff:
  assumes "nn (net_activation_name args) = Some net_act"
    and "nn (rgb_activation_name args) = Some rgb_act"
    and "nn (sigma_activation_name args) = Some sigma_act"
    and "rgb_act probe_inputs = Inr rgb"
    and "sigma_act probe_inputs = Inr sigma"
  shows "isl (nerf nn init_by_shape key args) \<longleftrightarrow>
      (\<exists>v\<in>set rgb. less32 v 0 \<or> greater32 v 1)
      \<or> (\<exists>v\<in>set sigma. less32 v 0)
      \<or> isl (init_by_shape (model_fn args net_act rgb_act sigma_act) key (ray_shape args))"
  using assms
  by (auto simp: nerf_def rgb_out_of_range_def sigma_negative_def list_ex_iff
      split: sum.splits prod.splits)

lemma nerf_rgb_error:
  assumes "nn (net_activation_name args) = Some net_act"
    and "nn (rgb_activation_name args) = Some rgb_act"
    and "nn (sigma_activation_name args) = Some sigma_act"
    and "rgb_act probe_inputs = Inr rgb"
    and "\<exists>v\<in>set rgb. less32 v 0 \<or> greater32 v 1"
  shows "nerf nn init_by_shape key args = Inl (NotImplementedError (rgb_activation_name args))"
  using assms by (auto simp: nerf_def rgb_out_of_range_def list_ex_iff)

lemma nerf_sigma_error:
  assumes "nn (net_activation_name args) = Some net_act"
    and "nn (rgb_activation_name args) = Some rgb_act"
    and "nn (sigma_activation_name args) = Some sigma_act"
    and "rgb_act probe_inputs = Inr rgb"
    and "sigma_act probe_inputs = Inr sigma"
    and "\<not> (\<exists>v\<in>set rgb. less32 v 0 \<or> greater32 v 1)"
    and "\<exists>v\<in>set sigma. less32 v 0"
  shows "nerf nn init_by_shape key args = Inl (NotImplementedError (sigma_activation_name args))"
  using assms by (auto simp: nerf_def rgb_out_of_range_def sigma_negative_def list_ex_iff)

lemma nerf_success:
  assumes "nn (net_activation_name args) = Some net_act"
    and "nn (rgb_activation_name args) = Some rgb_act"
    and "nn (sigma_activation_name args) = Some sigma_act"
    and "rgb_act probe_inputs = Inr rgb"
    and "sigma_act probe_inputs = Inr sigma"
    and "nerf nn init_by_shape key args = Inr ((m, p), s)"
  shows "m = model_fn args net_act rgb_act sigma_act
       \<and> init_by_shape m key (ray_shape args) = Inr (p, s)
       \<and> rgb_activation m = rgb_act \<and> sigma_activation m = sigma_act
       \<and> (\<forall>v\<in>set rgb. \<not> less32 v 0 \<and> \<not> greater32 v 1)
       \<and> (\<forall>v\<in>set sigma. \<not> less32 v 0)"
  using assms
  by (auto simp: nerf_def rgb_out_of_range_def sigma_negative_def list_ex_iff model_fn_def
      hparams.defs nerf_kwargs.defs split: sum.splits prod.splits if_splits)

lemma apply_checks_no_range:
  "hd (NerfModel_apply
         (mu\<lparr>MLP := const_MLP raw, volumetric_rendering := echo_rgb_rendering\<rparr>)
         rng_0 rng_1 rays (a\<lparr>rgb_activation := f\<rparr>))
   = ([[f raw]], [], [])"
  by (simp add: NerfModel_apply_def coarse_pass_def Let_def case_prod_beta const_MLP_def
      echo_rgb_rendering_def act3_def)

text \<open>
  Claim C3, as amended. When the three activation names are attributes of \<open>flax.nn\<close> and
  the chosen \<open>rgb_activation\<close> and \<open>sigma_activation\<close> return an array on the probe,
  \<open>nerf\<close> raises exactly when \<open>rgb_activation\<close> returns a value below 0 or above 1, or
  \<open>sigma_activation\<close> returns a value below 0, or the initialisation by flax raises. In
  the first two cases what it raises is \<open>NotImplementedError\<close>, whatever the
  initialisation would do. When \<open>nerf\<close> succeeds, the model holds the hyperparameters of
  the flags and the chosen activations, it is what flax has initialised, and what the two
  activations return on the probe is in range. \<open>NerfModel.apply\<close> checks no range: it
  applies whatever activation it is given, and with a network of one fixed raw colour and
  a renderer that hands the colours on, its colour is the activation of the raw colour, in
  range or not.
\<close>

theorem nerf_activation_validation:
  assumes "nn (net_activation_name args) = Some net_act"
    and "nn (rgb_activation_name args) = Some rgb_act"
    and "nn (sigma_activation_name args) = Some sigma_act"
    and "rgb_act probe_inputs = Inr rgb"
    and "sigma_act probe_inputs = Inr sigma"
  shows "(isl (nerf nn init_by_shape key args) \<longleftrightarrow>
            (\<exists>v\<in>set rgb. less32 v 0 \<or> greater32 v 1)
            \<or> (\<exists>v\<in>set sigma. less32 v 0)
            \<or> isl (init_by_shape (model_fn args net_act rgb_act sigma_act) key (ray_shape args)))
       \<and> ((\<exists>v\<in>set rgb. less32 v 0 \<or> greater32 v 1) \<longrightarrow>
            nerf nn init_by_shape key args
              = Inl (NotImplementedError (rgb_activation_name args)))
       \<and> (\<not> (\<exists>v\<in>set rgb. less32 v 0 \<or> greater32 v 1) \<and> (\<exists>v\<in>set sigma. less32 v 0) \<longrightarrow>
            nerf nn init_by_shape key args
              = Inl (NotImplementedError (sigma_activation_name args)))
       \<and> (\<forall>m p s. nerf nn init_by_shape key args = Inr ((m, p), s) \<longrightarrow>
              m = model_fn args net_act rgb_act sigma_act
              \<and> init_by_shape m key (ray_shape args) = Inr (p, s)
              \<and> rgb_activation m = rgb_act \<and> sigma_activation m = sigma_act
              \<and> (\<forall>v\<in>set rgb. \<not> less32 v 0 \<and> \<not> greater32 v 1)
              \<and> (\<forall>v\<in>set sigma. \<not> less32 v 0))
       \<and> hd (NerfModel_apply
                (mu\<lparr>MLP := const_MLP raw, volumetric_rendering := echo_rgb_rendering\<rparr>)
                rng_0 rng_1 rays (a\<lparr>rgb_activation := f\<rparr>))
           = ([[f raw]], [], [])"
proof (intro conjI impI allI)
  show "isl (nerf nn init_by_shape key args) \<longleftrightarrow>
      (\<exists>v\<in>set rgb. less32 v 0 \<or> greater32 v 1)
      \<or> (\<exists>v\<in>set sigma. less32 v 0)
      \<or> isl (init_by_shape (model_fn args net_act rgb_act sigma_act) key (ray_shape args))"
    using assms by (rule nerf_raises_iff)
next
  assume "\<exists>v\<in>set rgb. less32 v 0 \<or> greater32 v 1"
  with assms(1,2,3,4)
  show "nerf nn init_by_shape key args = Inl (NotImplementedError (rgb_activation_name args))"
    by (rule nerf_rgb_error)
next
  assume "\<not> (\<exists>v\<in>set rgb. less32 v 0 \<or> greater32 v 1) \<and> (\<exists>v\<in>set sigma. less32 v 0)"
  then have "\<not> (\<exists>v\<in>set rgb. less32 v 0 \<or> greater32 v 1)" "\<exists>v\<in>set sigma. less32 v 0"
    by simp_all
  with assms
  show "nerf nn init_by_shape key args = Inl (NotImplementedError (sigma_activation_name args))"
    by (rule nerf_sigma_error)
next
  fix m p s
  assume r: "nerf nn init_by_shape key args = Inr ((m, p), s)"
  note n = nerf_success[OF assms r]
  show "m = model_fn args net_act rgb_act sigma_act" using n by (rule conjunct1)
  show "init_by_shape m key (ray_shape args) = Inr (p, s)"
    using n[THEN conjunct2] by (rule conjunct1)
  show "rgb_activation m = rgb_act" using n[THEN conjunct2, THEN conjunct2] by (rule conjunct1)
  show "sigma_activation m = sigma_act"
    using n[THEN conjunct2, THEN conjunct2, THEN conjunct2] by (rule conjunct1)
  show "\<forall>v\<in>set rgb. \<not> less32 v 0 \<and> \<not> greater32 v 1"
    using n[THEN conjunct2, THEN conjunct2, THEN conjunct2, THEN conjunct2] by (rule conjunct1)
  show "\<forall>v\<in>set sigma. \<not> less32 v 0"
    using n[THEN conjunct2, THEN conjunct2, THEN conjunct2, THEN conjunct2] by (rule conjunct2)
next
  show "hd (NerfModel_apply
             (mu\<lparr>MLP := const_MLP raw, volumetric_rendering := echo_rgb_rendering\<rparr>)
             rng_0 rng_1 rays (a\<lparr>rgb_activation := f\<rparr>))
      = ([[f raw]], [], [])"
    by (rule apply_checks_no_range)
qed

lemma example_names:
  "example_nn (net_activation_name example_flags) = Some (elementwise relu32)"
  "example_nn (rgb_activation_name example_flags) = Some (elementwise sigmoid32)"
  "example_nn (sigma_activation_name example_flags) = Some (elementwise relu32)"
  by (simp_all add: example_nn_def example_flags_def hparams.defs flags.defs)

lemma example_other_names:
  "example_nn ''ReLU'' = None" "example_nn ''Dense'' = Some (\<lambda>x. Inl ValueError)"
  by (simp_all add: example_nn_def)

lemma example_ray_shape: "ray_shape example_flags = (4096, 6)"
  by (simp add: ray_shape_def example_flags_def hparams.defs flags.defs)

lemma example_nerf:
  "nerf example_nn example_init_by_shape 7 example_flags
     = Inr ((model_fn example_flags (elementwise relu32) (elementwise sigmoid32)
               (elementwise relu32), (4096, 6)), 7)"
  by (simp add: nerf_def example_names elementwise_def example_init_by_shape_def
      example_ray_shape sigmoid_passes relu_passes)

text \<open>
  The theorem on flags that choose \<open>relu\<close>, \<open>sigmoid\<close> and \<open>relu\<close>: \<open>nerf\<close> succeeds, and the
  initialisation is called with the shape \<open>(4096, 6)\<close> of the rays. With \<open>relu\<close> chosen for
  the colours, which is infinite at the infinity of the probe, \<open>nerf\<close> raises
  \<open>NotImplementedError\<close>.
\<close>

theorem nerf_activation_validation_witness:
  "example_nn (net_activation_name example_flags) = Some (elementwise relu32)
   \<and> example_nn (rgb_activation_name example_flags) = Some (elementwise sigmoid32)
   \<and> example_nn (sigma_activation_name example_flags) = Some (elementwise relu32)
   \<and> elementwise sigmoid32 probe_inputs = Inr (map sigmoid32 probe_inputs)
   \<and> elementwise relu32 probe_inputs = Inr (map relu32 probe_inputs)
   \<and> \<not> isl (nerf example_nn example_init_by_shape 7 example_flags)
   \<and> nerf example_nn example_init_by_shape 7 example_flags
       = Inr ((model_fn example_flags (elementwise relu32) (elementwise sigmoid32)
                 (elementwise relu32), (4096, 6)), 7)
   \<and> list_all (\<lambda>v. \<not> less32 v 0 \<and> \<not> greater32 v 1) (map sigmoid32 probe_inputs)
   \<and> list_all (\<lambda>v. \<not> less32 v 0) (map relu32 probe_inputs)
   \<and> hd (NerfModel_apply
            (example_utils\<lparr>MLP := const_MLP 0, volumetric_rendering := echo_rgb_rendering\<rparr>)
            0 1 example_rays (example_args\<lparr>rgb_activation := (\<lambda>x. 2)\<rparr>))
       = ([[2]], [], [])
   \<and> list_ex (\<lambda>v. less32 v 0 \<or> greater32 v 1) (map relu32 probe_inputs)
   \<and> nerf example_nn example_init_by_shape 7 (example_flags\<lparr>rgb_activation_name := ''relu''\<rparr>)
       = Inl (NotImplementedError ''relu'')"
proof -
  have h: "elementwise sigmoid32 probe_inputs = Inr (map sigmoid32 probe_inputs)"
    "elementwise relu32 probe_inputs = Inr (map relu32 probe_inputs)"
    by (simp_all add: elementwise_def)
  have g: "example_nn (net_activation_name (example_flags\<lparr>rgb_activation_name := ''relu''\<rparr>))
        = Some (elementwise relu32)"
    "example_nn (rgb_activation_name (example_flags\<lparr>rgb_activation_name := ''relu''\<rparr>))
        = Some (elementwise relu32)"
    "example_nn (sigma_activation_name (example_flags\<lparr>rgb_activation_name := ''relu''\<rparr>))
        = Some (elementwise relu32)"
    using example_names by (simp_all add: example_nn_def)
  have "greater32 (relu32 PosInf) 1" by simp
  then have d: "\<exists>v\<in>set (map relu32 probe_inputs). less32 v 0 \<or> greater32 v 1"
    using probe_inputs_members by (metis image_eqI set_map)
  have e: "nerf example_nn example_init_by_shape 7 (example_flags\<lparr>rgb_activation_name := ''relu''\<rparr>)
      = Inl (NotImplementedError ''relu'')"
    using nerf_activation_validation[OF g h(2) h(2), of example_init_by_shape 7,
        THEN conjunct2, THEN conjunct1] d
    by simp
  note t = nerf_activation_validation[OF example_names h, of example_init_by_shape 7 0
      example_utils 0 1 example_rays "\<lambda>x. 2" example_args]
  have a: "\<not> isl (nerf example_nn example_init_by_shape 7 example_flags)"
    using t[THEN conjunct1] sigmoid32_range relu32_nonneg
    by (simp add: example_init_by_shape_def)
  have b: "(\<forall>v\<in>set (map sigmoid32 probe_inputs). \<not> less32 v 0 \<and> \<not> greater32 v 1)
      \<and> (\<forall>v\<in>set (map relu32 probe_inputs). \<not> less32 v 0)"
    using t[THEN conjunct2, THEN conjunct2, THEN conjunct2, THEN conjunct1] example_nerf
    by blast
  have c: "hd (NerfModel_apply
            (example_utils\<lparr>MLP := const_MLP 0, volumetric_rendering := echo_rgb_rendering\<rparr>)
            0 1 example_rays (example_args\<lparr>rgb_activation := (\<lambda>x. 2)\<rparr>))
       = ([[2]], [], [])"
    by (rule t[THEN conjunct2, THEN conjunct2, THEN conjunct2, THEN conjunct2])
  show ?thesis
    using example_names h a b c d e example_nerf by (simp add: list_all_iff list_ex_iff)
qed

text \<open>
  Claim C3 as it is written fails in three ways, each with both chosen activations in
  range on the probe. Where a name is no attribute of \<open>flax.nn\<close>, as with
  \<open>net_activation = ReLU\<close>, \<open>nerf\<close> raises \<open>AttributeError\<close>. Where the chosen attribute is
  no activation, as with \<open>rgb_activation = Dense\<close>, its call on the probe raises, here
  \<open>ValueError\<close>. Where the initialisation by flax raises, \<open>nerf\<close> raises what it raises.
\<close>

theorem nerf_unknown_activation_counterexample:
  "\<not> rgb_out_of_range (map sigmoid32 probe_inputs)
   \<and> \<not> sigma_negative (map relu32 probe_inputs)
   \<and> nerf example_nn example_init_by_shape 7 (example_flags\<lparr>net_activation_name := ''ReLU''\<rparr>)
       = Inl (AttributeError ''ReLU'')
   \<and> nerf example_nn example_init_by_shape 7 (example_flags\<lparr>rgb_activation_name := ''Dense''\<rparr>)
       = Inl ValueError
   \<and> nerf example_nn failing_init_by_shape 7 example_flags = Inl ValueError"
  by (simp add: nerf_def example_names example_other_names elementwise_def
      failing_init_by_shape_def sigmoid_passes relu_passes)

section \<open>Properties of the training loss\<close>

lemma row_error_sum:
  assumes "length r = 3" "3 \<le> length p"
  shows "sum_list (map2 (\<lambda>x y. (x - y)\<^sup>2) r (slice 0 3 p)) = (\<Sum>c<3. (r ! c - p ! c)\<^sup>2)"
proof -
  have len: "length (map2 (\<lambda>x y. (x - y)\<^sup>2) r (slice 0 3 p)) = 3"
    using assms by (simp add: slice_def)
  have "sum_list (map2 (\<lambda>x y. (x - y)\<^sup>2) r (slice 0 3 p))
      = (\<Sum>c = 0..<3. map2 (\<lambda>x y. (x - y)\<^sup>2) r (slice 0 3 p) ! c)"
    using sum_list_sum_nth[of "map2 (\<lambda>x y. (x - y)\<^sup>2) r (slice 0 3 p)"] len by simp
  also have "\<dots> = (\<Sum>c = 0..<3. (r ! c - p ! c)\<^sup>2)"
    using assms by (intro sum.cong) (auto simp: slice_def)
  finally show ?thesis by (simp add: lessThan_atLeast0)
qed

lemma squared_error_rows:
  assumes "length rgb = length pixels" "\<forall>r\<in>set rgb. length r = 3" "\<forall>p\<in>set pixels. 3 \<le> length p"
  shows "length (squared_error rgb pixels) = length rgb"
    and "\<forall>row\<in>set (squared_error rgb pixels). length row = 3"
    and "i < length rgb \<Longrightarrow>
          sum_list (squared_error rgb pixels ! i) = (\<Sum>c<3. (rgb ! i ! c - pixels ! i ! c)\<^sup>2)"
proof -
  show "length (squared_error rgb pixels) = length rgb"
    using assms(1) by (simp add: squared_error_def)
  show "\<forall>row\<in>set (squared_error rgb pixels). length row = 3"
  proof
    fix row assume "row \<in> set (squared_error rgb pixels)"
    then obtain r p where "(r, p) \<in> set (zip rgb pixels)"
      and row: "row = map2 (\<lambda>x y. (x - y)\<^sup>2) r (slice 0 3 p)"
      by (auto simp: squared_error_def)
    then have "r \<in> set rgb" "p \<in> set pixels" by (auto dest: set_zip_leftD set_zip_rightD)
    then show "length row = 3" using assms(2,3) row by (simp add: slice_def)
  qed
  show "sum_list (squared_error rgb pixels ! i) = (\<Sum>c<3. (rgb ! i ! c - pixels ! i ! c)\<^sup>2)"
    if "i < length rgb"
  proof -
    have "rgb ! i \<in> set rgb" "pixels ! i \<in> set pixels" using that assms(1) by simp_all
    then have "length (rgb ! i) = 3" "3 \<le> length (pixels ! i)" using assms(2,3) by auto
    then show ?thesis using that assms(1) by (simp add: squared_error_def row_error_sum)
  qed
qed

lemma sum_list_concat_rows:
  "sum_list (concat xs) = sum_list (map sum_list (xs :: real list list))"
  by (induction xs) auto

lemma length_concat_rows:
  "\<forall>row\<in>set xs. length row = k \<Longrightarrow> length (concat xs) = k * length xs"
  by (induction xs) auto

lemma mean_squared_error_eq_mse:
  assumes "length rgb = length pixels" "\<forall>r\<in>set rgb. length r = 3" "\<forall>p\<in>set pixels. 3 \<le> length p"
  shows "mean (squared_error rgb pixels) = mse rgb pixels"
proof -
  let ?e = "squared_error rgb pixels"
  note rows = squared_error_rows[OF assms]
  have "sum_list (concat ?e) = sum_list (map sum_list ?e)" by (rule sum_list_concat_rows)
  also have "\<dots> = (\<Sum>i = 0..<length ?e. map sum_list ?e ! i)"
    using sum_list_sum_nth[of "map sum_list ?e"] by simp
  also have "\<dots> = (\<Sum>i = 0..<length rgb. \<Sum>c<3. (rgb ! i ! c - pixels ! i ! c)\<^sup>2)"
    using rows(1) rows(3) by (intro sum.cong) auto
  finally have s: "sum_list (concat ?e) = (\<Sum>i<length rgb. \<Sum>c<3. (rgb ! i ! c - pixels ! i ! c)\<^sup>2)"
    by (simp add: lessThan_atLeast0)
  have l: "length (concat ?e) = 3 * length rgb"
    using length_concat_rows[OF rows(2)] rows(1) by simp
  show ?thesis unfolding mean_def mse_def s l ..
qed

text \<open>
  Claim C10. On a batch that is not empty, with colours of three channels for every ray
  and pixels of at least three: the scalar that \<open>loss_fn\<close> returns first is the mean-squared
  error of the colour of the last result against the pixels, plus the mean-squared error,
  with weight one, of the colour of the first result when there are two results, and plus
  zero when there is one. A list of any other length raises \<open>ValueError\<close>.
\<close>

theorem train_step_loss:
  assumes "pixels \<noteq> []" and "\<forall>p\<in>set pixels. 3 \<le> length p"
    and "\<forall>res\<in>set (model key_0 key_1 rays).
           length (fst res) = length pixels \<and> (\<forall>r\<in>set (fst res). length r = 3)"
  shows "loss_fn compute_psnr model key_0 key_1 rays pixels =
     (case model key_0 key_1 rays of
        [primary] \<Rightarrow>
          Inr (mse (fst primary) pixels + 0,
               [\<lparr>loss = mse (fst primary) pixels, psnr = compute_psnr (mse (fst primary) pixels)\<rparr>])
      | [coarse, primary] \<Rightarrow>
          Inr (mse (fst primary) pixels + mse (fst coarse) pixels,
               [\<lparr>loss = mse (fst primary) pixels, psnr = compute_psnr (mse (fst primary) pixels)\<rparr>,
                \<lparr>loss = mse (fst coarse) pixels, psnr = compute_psnr (mse (fst coarse) pixels)\<rparr>])
      | _ \<Rightarrow> Inl ValueError)"
proof -
  have eq: "mean (squared_error (fst res) pixels) = mse (fst res) pixels"
    if "res \<in> set (model key_0 key_1 rays)" for res
    using that assms(2,3) by (intro mean_squared_error_eq_mse) auto
  show ?thesis
  proof (cases "model key_0 key_1 rays")
    case Nil
    then show ?thesis by (simp add: loss_fn_def)
  next
    case (Cons x xs)
    note c1 = this
    show ?thesis
    proof (cases xs)
      case Nil
      then show ?thesis using c1 eq[of x] by (auto simp: loss_fn_def Let_def split: prod.splits)
    next
      case (Cons y ys)
      note c2 = this
      show ?thesis
      proof (cases ys)
        case Nil
        then show ?thesis using c1 c2 eq[of x] eq[of y]
          by (auto simp: loss_fn_def Let_def split: prod.splits)
      next
        case (Cons z zs)
        then show ?thesis using c1 c2 by (simp add: loss_fn_def)
      qed
    qed
  qed
qed

text \<open>The theorem on a model with two results, on one pixel of four channels.\<close>

theorem train_step_loss_witness:
  "[[1 / 2, 0, 0, 1 :: real]] \<noteq> []
   \<and> list_all (\<lambda>p. 3 \<le> length p) [[1 / 2, 0, 0, 1 :: real]]
   \<and> list_all (\<lambda>res. length (fst res) = length [[1 / 2, 0, 0, 1 :: real]]
                  \<and> list_all (\<lambda>r. length r = 3) (fst res))
        (example_model 0 1 example_rays)
   \<and> loss_fn (\<lambda>x. - 10 * log 10 x) example_model 0 1 example_rays [[1 / 2, 0, 0, 1]]
       = Inr (mse [[1 / 2, 0, 0]] [[1 / 2, 0, 0, 1]] + mse [[1, 0, 0]] [[1 / 2, 0, 0, 1]],
              [\<lparr>loss = mse [[1 / 2, 0, 0]] [[1 / 2, 0, 0, 1]],
                psnr = - 10 * log 10 (mse [[1 / 2, 0, 0]] [[1 / 2, 0, 0, 1]])\<rparr>,
               \<lparr>loss = mse [[1, 0, 0]] [[1 / 2, 0, 0, 1]],
                psnr = - 10 * log 10 (mse [[1, 0, 0]] [[1 / 2, 0, 0, 1]])\<rparr>])
   \<and> mse [[1 / 2, 0, 0]] [[1 / 2, 0, 0, 1]] = 0
   \<and> mse [[1, 0, 0]] [[1 / 2, 0, 0, 1]] = 1 / 12"
proof -
  have h: "[[1 / 2, 0, 0, 1 :: real]] \<noteq> []"
    "\<forall>p\<in>set [[1 / 2, 0, 0, 1 :: real]]. 3 \<le> length p"
    "\<forall>res\<in>set (example_model 0 1 example_rays).
       length (fst res) = length [[1 / 2, 0, 0, 1 :: real]] \<and> (\<forall>r\<in>set (fst res). length r = 3)"
    by (simp_all add: example_model_def)
  have three: "{..<3 :: nat} = {0, 1, 2}" by auto
  have m: "mse [[1 / 2, 0, 0]] [[1 / 2, 0, 0, 1]] = 0" "mse [[1, 0, 0]] [[1 / 2, 0, 0, 1]] = 1 / 12"
    by (simp_all add: mse_def three power2_eq_square)
  show ?thesis
    using h m train_step_loss[of "[[1 / 2, 0, 0, 1]]" example_model 0 1 example_rays
        "\<lambda>x. - 10 * log 10 x", OF h]
    by (simp add: list_all_iff example_model_def)
qed

section \<open>Further properties of the code\<close>

text \<open>
  Property X1. \<open>loss_fn\<close> raises exactly when the model returns a list whose length is
  neither 1 nor 2, and what it raises is \<open>ValueError\<close>; on the list that
  \<open>NerfModel.apply\<close> returns it never raises.
\<close>

theorem loss_fn_value_error:
  "(isl (loss_fn compute_psnr model key_0 key_1 rays pixels)
      \<longleftrightarrow> length (model key_0 key_1 rays) \<notin> {1, 2})
   \<and> (isl (loss_fn compute_psnr model key_0 key_1 rays pixels)
      \<longleftrightarrow> loss_fn compute_psnr model key_0 key_1 rays pixels = Inl ValueError)
   \<and> \<not> isl (loss_fn compute_psnr (\<lambda>k0 k1 r. NerfModel_apply mu k0 k1 r a) key_0 key_1 rays' pixels)"
  by (auto simp: loss_fn_def Let_def apply_length split: prod.splits)

text \<open>
  Property X2. The probe of \<open>nerf\<close> has 2048 inputs. In \<open>float32\<close>, \<open>exp (-90)\<close> is flushed
  to zero and \<open>exp 90\<close> overflows, so that zero and both infinities are probed; NaN is not;
  and the probe read backwards is its own negation. Since zero is probed, an activation
  that is negative at zero fails the test of \<open>sigma_activation\<close>.
\<close>

theorem probe_inputs_shape:
  "length probe_inputs = 2048
   \<and> Finite 0 \<in> set probe_inputs \<and> PosInf \<in> set probe_inputs \<and> NegInf \<in> set probe_inputs
   \<and> NaN \<notin> set probe_inputs
   \<and> map neg32 (rev probe_inputs) = probe_inputs
   \<and> (less32 (f (Finite 0)) 0 \<longrightarrow> sigma_negative (map f probe_inputs))"
proof (intro conjI impI)
  show "length probe_inputs = 2048"
    by (simp add: probe_inputs_def Let_def linspace_length)
  show "Finite 0 \<in> set probe_inputs" "PosInf \<in> set probe_inputs" "NegInf \<in> set probe_inputs"
    using probe_inputs_members by simp_all
  show "NaN \<notin> set probe_inputs" by (rule probe_inputs_not_nan)
  show "map neg32 (rev probe_inputs) = probe_inputs" by (rule probe_inputs_symmetric)
next
  assume "less32 (f (Finite 0)) 0"
  then show "sigma_negative (map f probe_inputs)"
    using probe_inputs_members by (auto simp: sigma_negative_def list_ex_iff)
qed

text \<open>The theorem on an activation that is negative at zero and nowhere else.\<close>

theorem probe_inputs_shape_witness:
  "less32 (negative_at_zero (Finite 0)) 0
   \<and> length probe_inputs = 2048 \<and> Finite 0 \<in> set probe_inputs
   \<and> sigma_negative (map negative_at_zero probe_inputs)"
proof -
  have h: "less32 (negative_at_zero (Finite 0)) 0" by (simp add: negative_at_zero_def)
  show ?thesis using h probe_inputs_shape[of negative_at_zero] by simp
qed

text \<open>
  Property X3. \<open>NerfModel.apply\<close> hands its keys to the stochastic helpers only after
  \<open>jax.random.split\<close>: the sampler gets the first half of the split of \<open>rng_0\<close>, the coarse
  noise the first half of the split of the second half; the resampler and the fine noise
  get the same of \<open>rng_1\<close>. The result depends on the three helpers only through their
  values at these keys.
\<close>

theorem apply_key_discipline:
  assumes "\<And>r n nr fr rnd ld.
        sa (fst (random_split mu rng_0)) r n nr fr rnd ld
          = sample_along_rays mu (fst (random_split mu rng_0)) r n nr fr rnd ld"
    and "\<And>x s rnd.
        ng (fst (random_split mu (snd (random_split mu rng_0)))) x s rnd
          = add_gaussian_noise mu (fst (random_split mu (snd (random_split mu rng_0)))) x s rnd"
    and "\<And>b w r z n rnd.
        sp (fst (random_split mu rng_1)) b w r z n rnd
          = sample_pdf mu (fst (random_split mu rng_1)) b w r z n rnd"
    and "\<And>x s rnd.
        ng (fst (random_split mu (snd (random_split mu rng_1)))) x s rnd
          = add_gaussian_noise mu (fst (random_split mu (snd (random_split mu rng_1)))) x s rnd"
  shows "NerfModel_apply (mu\<lparr>sample_along_rays := sa, add_gaussian_noise := ng, sample_pdf := sp\<rparr>)
           rng_0 rng_1 rays a
       = NerfModel_apply mu rng_0 rng_1 rays a"
  by (simp add: NerfModel_apply_def coarse_pass_def fine_pass_def Let_def case_prod_beta assms)

text \<open>The theorem on the example, whose keys 0 and 1 give the keys 0, 2, 2 and 6.\<close>

theorem apply_key_discipline_witness:
  "fst (random_split example_utils 0) = 0
   \<and> fst (random_split example_utils (snd (random_split example_utils 0))) = 2
   \<and> fst (random_split example_utils 1) = 2
   \<and> fst (random_split example_utils (snd (random_split example_utils 1))) = 6
   \<and> NerfModel_apply
        (example_utils\<lparr>sample_along_rays := keyed_sampler, add_gaussian_noise := keyed_noise,
                        sample_pdf := keyed_resampler\<rparr>)
        0 1 example_rays example_args
       = NerfModel_apply example_utils 0 1 example_rays example_args"
proof -
  have k: "fst (random_split example_utils 0) = 0"
    "fst (random_split example_utils (snd (random_split example_utils 0))) = 2"
    "fst (random_split example_utils 1) = 2"
    "fst (random_split example_utils (snd (random_split example_utils 1))) = 6"
    by (simp_all add: example_utils_def)
  have h1: "keyed_sampler (fst (random_split example_utils 0)) r n nr fr rnd ld
      = sample_along_rays example_utils (fst (random_split example_utils 0)) r n nr fr rnd ld"
    for r n nr fr rnd ld
    unfolding k keyed_sampler_def by simp
  have h2: "keyed_noise (fst (random_split example_utils (snd (random_split example_utils 0)))) x s rnd
      = add_gaussian_noise example_utils
          (fst (random_split example_utils (snd (random_split example_utils 0)))) x s rnd"
    for x s rnd
    unfolding k keyed_noise_def by simp
  have h3: "keyed_resampler (fst (random_split example_utils 1)) b w r z n rnd
      = sample_pdf example_utils (fst (random_split example_utils 1)) b w r z n rnd"
    for b w r z n rnd
    unfolding k keyed_resampler_def by simp
  have h4: "keyed_noise (fst (random_split example_utils (snd (random_split example_utils 1)))) x s rnd
      = add_gaussian_noise example_utils
          (fst (random_split example_utils (snd (random_split example_utils 1)))) x s rnd"
    for x s rnd
    unfolding k keyed_noise_def by simp
  show ?thesis
    using k apply_key_discipline[of keyed_sampler example_utils 0 keyed_noise keyed_resampler 1
        example_rays example_args, OF h1 h2 h3 h4]
    by simp
qed

end
